(* ===== verification/Prelude.thy ===== *)
theory Prelude
  imports Complex_Main "HOL-Library.Multiset"
begin

text \<open>
  Shared vocabulary of the development: the error kinds of the \<open>forecast\<close> package
  (spec section 7) as a datatype, results as \<open>forecast_error + 'a\<close> with the bind that
  propagates a raised exception, \<open>map_res\<close> for a Python loop that raises at the first
  failing element, the clamped square root of spec section 4.3, and the interface of the
  standard normal distribution that the package takes from Python's library.
  The collection \<open>forecast_eval\<close> gathers the unfolding rules with which a concrete
  call of the model evaluates by \<open>simp\<close>.
\<close>

named_theorems forecast_eval "rules that evaluate the forecast model on concrete inputs"

datatype forecast_error =
    InvalidTriad
  | InvalidObservation
  | ConvergenceFailure
  | DimensionMismatch
  | InvalidParameter
  | MathDomainError

type_synonym 'a result = "forecast_error + 'a"

type_synonym engineer_id = string

definition bind_res :: "'e + 'a \<Rightarrow> ('a \<Rightarrow> 'e + 'b) \<Rightarrow> 'e + 'b" where
  "bind_res x f = (case x of Inl e \<Rightarrow> Inl e | Inr a \<Rightarrow> f a)"

lemma bind_res_Inl [simp]: "bind_res (Inl e) f = Inl e"
  by (simp add: bind_res_def)

lemma bind_res_Inr [simp]: "bind_res (Inr a) f = f a"
  by (simp add: bind_res_def)

lemma bind_res_eq_Inr:
  "bind_res x f = Inr b \<longleftrightarrow> (\<exists>a. x = Inr a \<and> f a = Inr b)"
  by (cases x) auto

fun map_res :: "('a \<Rightarrow> 'e + 'b) \<Rightarrow> 'a list \<Rightarrow> 'e + 'b list" where
  "map_res f [] = Inr []"
| "map_res f (x # xs) = bind_res (f x) (\<lambda>y. bind_res (map_res f xs) (\<lambda>ys. Inr (y # ys)))"

lemma map_res_eq_Inr:
  "map_res f xs = Inr ys \<longleftrightarrow> list_all2 (\<lambda>x y. f x = Inr y) xs ys"
proof (induction xs arbitrary: ys)
  case Nil
  then show ?case by auto
next
  case (Cons x xs)
  show ?case
    by (cases ys) (auto simp: bind_res_eq_Inr Cons.IH)
qed

lemma map_res_length: "map_res f xs = Inr ys \<Longrightarrow> length ys = length xs"
  by (auto simp: map_res_eq_Inr dest: list_all2_lengthD)

lemma map_res_map:
  "(\<And>x. x \<in> set xs \<Longrightarrow> f x = Inr (g x)) \<Longrightarrow> map_res f xs = Inr (map g xs)"
  by (induction xs) auto

lemma map_res_ex_Inr:
  "(\<And>x. x \<in> set xs \<Longrightarrow> \<exists>y. f x = Inr y) \<Longrightarrow> \<exists>ys. map_res f xs = Inr ys"
proof (induction xs)
  case Nil
  then show ?case by simp
next
  case (Cons x xs)
  then obtain y ys where "f x = Inr y" and "map_res f xs = Inr ys"
    by (meson list.set_intros)
  then show ?case by simp
qed

lemma map_res_Inr_elem: "map_res f xs = Inr ys \<Longrightarrow> x \<in> set xs \<Longrightarrow> \<exists>y. f x = Inr y"
  by (induction xs arbitrary: ys) (auto simp: bind_res_eq_Inr)

lemma map_res_Inr_nth:
  "map_res f xs = Inr ys \<Longrightarrow> i < length xs \<Longrightarrow> f (xs ! i) = Inr (ys ! i)"
  by (auto simp: map_res_eq_Inr list_all2_conv_all_nth)

lemma map_res_Inl: "map_res f xs = Inl e \<Longrightarrow> \<exists>x \<in> set xs. f x = Inl e"
proof (induction xs)
  case Nil
  then show ?case by simp
next
  case (Cons x xs)
  then show ?case
    by (cases "f x"; cases "map_res f xs") auto
qed

lemma map_res_append:
  "map_res f (xs @ ys) = bind_res (map_res f xs) (\<lambda>as. bind_res (map_res f ys) (\<lambda>bs. Inr (as @ bs)))"
proof (induction xs)
  case Nil
  then show ?case by (cases "map_res f ys") auto
next
  case (Cons x xs)
  then show ?case
    by (cases "f x"; cases "map_res f xs"; cases "map_res f ys") auto
qed

lemma map_res_Inl_same:
  assumes "\<And>x e'. x \<in> set xs \<Longrightarrow> f x = Inl e' \<Longrightarrow> e' = e"
    and "\<exists>x \<in> set xs. \<exists>e'. f x = Inl e'"
  shows "map_res f xs = Inl e"
  using assms
proof (induction xs)
  case Nil
  then show ?case by simp
next
  case (Cons x xs)
  show ?case
  proof (cases "f x")
    case (Inl e')
    then show ?thesis
      using Cons.prems(1) [of x e'] by simp
  next
    case (Inr y)
    with Cons.prems have "map_res f xs = Inl e"
      by (intro Cons.IH) auto
    with Inr show ?thesis by simp
  qed
qed

declare map_res.simps [forecast_eval]

subsection \<open>The clamped square root\<close>

text \<open>
  Spec 4.3: a variance that comes out negative through rounding is clamped to 0 before
  its square root is taken. HOL's \<open>sqrt\<close> is odd (\<open>sqrt (-x) = - sqrt x\<close>), so the
  clamp is part of the model, not a no-op.
\<close>

definition safe_sqrt :: "real \<Rightarrow> real" where
  "safe_sqrt x = sqrt (max 0 x)"

lemma safe_sqrt_nonneg [simp]: "0 \<le> safe_sqrt x"
  by (simp add: safe_sqrt_def)

lemma safe_sqrt_of_nonneg: "0 \<le> x \<Longrightarrow> safe_sqrt x = sqrt x"
  by (simp add: safe_sqrt_def)

lemma safe_sqrt_of_nonpos: "x \<le> 0 \<Longrightarrow> safe_sqrt x = 0"
  by (simp add: safe_sqrt_def)

lemma safe_sqrt_square: "0 \<le> x \<Longrightarrow> safe_sqrt x * safe_sqrt x = x"
  by (simp add: safe_sqrt_def)

lemma safe_sqrt_mono: "x \<le> y \<Longrightarrow> safe_sqrt x \<le> safe_sqrt y"
  by (simp add: safe_sqrt_def)

lemma safe_sqrt_eq_0_iff: "safe_sqrt x = 0 \<longleftrightarrow> x \<le> 0"
  by (auto simp: safe_sqrt_def max_def)

lemma safe_sqrt_scale:
  "0 \<le> c \<Longrightarrow> safe_sqrt (c\<^sup>2 * x) = c * safe_sqrt x"
  by (cases "0 \<le> x")
     (auto simp: safe_sqrt_def real_sqrt_mult max_def zero_le_mult_iff mult_le_0_iff)

lemma safe_sqrt_scaled_square:
  "safe_sqrt (a\<^sup>2 * (v * c\<^sup>2)) = \<bar>a\<bar> * \<bar>c\<bar> * safe_sqrt v"
proof -
  have "(\<bar>a\<bar> * \<bar>c\<bar>)\<^sup>2 = a\<^sup>2 * c\<^sup>2"
    by (simp add: power_mult_distrib)
  then have eq: "a\<^sup>2 * (v * c\<^sup>2) = (\<bar>a\<bar> * \<bar>c\<bar>)\<^sup>2 * v"
    by (simp only: mult_ac)
  show ?thesis
    unfolding eq by (rule safe_sqrt_scale) simp
qed

lemma safe_sqrt_scaled:
  "0 \<le> s \<Longrightarrow> 0 \<le> c \<Longrightarrow> safe_sqrt (s\<^sup>2 * c) = s * sqrt c"
  by (subst safe_sqrt_scale) (simp_all add: safe_sqrt_of_nonneg)

lemma safe_sqrt_scaled_sum:
  "0 \<le> s \<Longrightarrow> 0 \<le> c1 \<Longrightarrow> 0 \<le> c2 \<Longrightarrow> safe_sqrt (s\<^sup>2 * c1 + s\<^sup>2 * c2) = s * sqrt (c1 + c2)"
  using safe_sqrt_scaled [of s "c1 + c2"] by (simp add: distrib_left)

lemma abs_le_times_sqrt_iff:
  assumes "0 \<le> z" "0 \<le> v"
  shows "\<bar>x\<bar> \<le> z * sqrt v \<longleftrightarrow> x\<^sup>2 \<le> z\<^sup>2 * v"
proof -
  have "z * sqrt v = sqrt (z\<^sup>2 * v)"
    using assms by (simp add: real_sqrt_mult)
  moreover have "\<bar>x\<bar> = sqrt (x\<^sup>2)" by simp
  ultimately show ?thesis
    using real_sqrt_le_iff by presburger
qed

subsection \<open>Counting and summing over lists\<close>

lemma length_filter_mono_pred:
  "(\<And>x. x \<in> set xs \<Longrightarrow> P x \<Longrightarrow> Q x) \<Longrightarrow> length (filter P xs) \<le> length (filter Q xs)"
  by (induction xs) auto

lemma sum_list_mset_cong:
  "mset xs = mset ys \<Longrightarrow> sum_list xs = (sum_list ys :: 'a :: comm_monoid_add)"
  by (metis sum_mset_sum_list)

lemma sum_list_nonneg_map:
  "(\<And>x. x \<in> set xs \<Longrightarrow> 0 \<le> f x) \<Longrightarrow> 0 \<le> (\<Sum>x \<leftarrow> xs. f x :: real)"
  by (induction xs) auto

lemma sum_list_pos_real:
  "xs \<noteq> [] \<Longrightarrow> (\<And>x. x \<in> set xs \<Longrightarrow> 0 < x) \<Longrightarrow> 0 < sum_list (xs :: real list)"
proof (induction xs)
  case Nil
  then show ?case by simp
next
  case (Cons x xs)
  then show ?case
    by (cases "xs = []") (auto intro: add_pos_pos)
qed

subsection \<open>The standard normal distribution, an interface\<close>

text \<open>
  The package computes \<open>\<Phi>\<close> and its inverse with Python's numerical library, which
  is not part of the repository. They are a parameter of every operation that uses them:
  \<open>cdf\<close> and \<open>inv_cdf\<close>, as \<open>statistics.NormalDist\<close> names them. The
  properties the package relies on are collected in \<open>normal_ok\<close>: both are
  monotone, \<open>cdf\<close> is a probability and the median is 0. The true \<open>\<Phi>\<close> has all
  of them; lemmas hold for every such pair.
\<close>

record std_normal =
  cdf :: "real \<Rightarrow> real"
  inv_cdf :: "real \<Rightarrow> real"

definition normal_ok :: "std_normal \<Rightarrow> bool" where
  "normal_ok N \<longleftrightarrow>
     mono (cdf N) \<and> mono (inv_cdf N) \<and> (\<forall>x. 0 \<le> cdf N x \<and> cdf N x \<le> 1) \<and>
     inv_cdf N (1 / 2) = 0"

text \<open>A piecewise-linear stand-in for \<open>\<Phi>\<close> that satisfies the interface; witnesses use it.\<close>

definition linear_normal :: std_normal where
  "linear_normal = \<lparr>cdf = (\<lambda>x. min 1 (max 0 ((x + 3) / 6))), inv_cdf = (\<lambda>p. 6 * p - 3)\<rparr>"

lemma linear_normal_ok: "normal_ok linear_normal"
  unfolding normal_ok_def linear_normal_def
  by (auto intro!: monoI min.mono max.mono divide_right_mono)

lemma normal_ok_cdf_bounds: "normal_ok N \<Longrightarrow> 0 \<le> cdf N x \<and> cdf N x \<le> 1"
  by (simp add: normal_ok_def)

lemma normal_ok_cdf_mono: "normal_ok N \<Longrightarrow> x \<le> y \<Longrightarrow> cdf N x \<le> cdf N y"
  by (simp add: normal_ok_def mono_def)

lemma normal_ok_inv_cdf_mono: "normal_ok N \<Longrightarrow> x \<le> y \<Longrightarrow> inv_cdf N x \<le> inv_cdf N y"
  by (simp add: normal_ok_def mono_def)

lemma normal_ok_inv_cdf_nonneg: "normal_ok N \<Longrightarrow> 1 / 2 \<le> p \<Longrightarrow> 0 \<le> inv_cdf N p"
  using normal_ok_inv_cdf_mono [of N "1 / 2" p] by (simp add: normal_ok_def)

end
