(* ===== verification/Entities.thy ===== *)
theory Entities
  imports Prelude
begin

text \<open>
  The value types of the \<open>forecast\<close> package (spec section 3): the three-point
  estimate \<open>ThreePointEstimate\<close>, validated when it is built; the historical sample
  \<open>BiasObservation\<close>, built with the keyword arguments the quickstart script uses and
  carrying a triad only when all three of its points are given; and the bias model, a
  map from engineer to multiplier whose lookup \<open>alpha_for\<close> falls back to 1.
\<close>

record three_point_estimate =
  optimistic :: real
  most_likely :: real
  pessimistic :: real

definition triad_ok :: "three_point_estimate \<Rightarrow> bool" where
  "triad_ok t \<longleftrightarrow> 0 \<le> optimistic t \<and> optimistic t \<le> most_likely t \<and> most_likely t \<le> pessimistic t"

text \<open>\<open>ThreePointEstimate(optimistic, most_likely, pessimistic)\<close>: a triad out of order or
  with a negative point raises \<open>InvalidTriad\<close>; nothing is clamped.\<close>

definition mk_triad :: "real \<Rightarrow> real \<Rightarrow> real \<Rightarrow> three_point_estimate result" where
  "mk_triad a m b =
     (if a < 0 \<or> m < 0 \<or> b < 0 \<or> m < a \<or> b < m then Inl InvalidTriad
      else Inr \<lparr>optimistic = a, most_likely = m, pessimistic = b\<rparr>)"

record bias_observation =
  engineer :: engineer_id
  modal_estimate_hours :: real
  actual_hours :: real
  obs_triad :: "three_point_estimate option"

text \<open>\<open>BiasObservation(engineer, modal_estimate_hours, actual_hours, optimistic_hours=None,
  most_likely_hours=None, pessimistic_hours=None)\<close>: the triad is built (and validated)
  when all three points are given, and is absent otherwise.\<close>

definition mk_observation ::
  "engineer_id \<Rightarrow> real \<Rightarrow> real \<Rightarrow> real option \<Rightarrow> real option \<Rightarrow> real option \<Rightarrow> bias_observation result"
where
  "mk_observation e modal actual oo mo po =
     (let base = \<lparr>engineer = e, modal_estimate_hours = modal, actual_hours = actual, obs_triad = None\<rparr>
      in case (oo, mo, po) of
           (Some a, Some m, Some b) \<Rightarrow> bind_res (mk_triad a m b) (\<lambda>t. Inr (base\<lparr>obs_triad := Some t\<rparr>))
         | _ \<Rightarrow> Inr base)"

type_synonym bias_model = "engineer_id \<rightharpoonup> real"

text \<open>\<open>BiasModel.alpha_for\<close>: an engineer without history gets the neutral multiplier.\<close>

definition alpha_for :: "bias_model \<Rightarrow> engineer_id \<Rightarrow> real" where
  "alpha_for b e = (case b e of None \<Rightarrow> 1 | Some a \<Rightarrow> a)"

lemmas entity_defs [forecast_eval] = mk_triad_def mk_observation_def alpha_for_def

lemma mk_triad_ok: "mk_triad a m b = Inr t \<Longrightarrow> triad_ok t"
  by (auto simp: mk_triad_def triad_ok_def split: if_splits)

lemma mk_triad_Inr_iff:
  "(\<exists>t. mk_triad a m b = Inr t) \<longleftrightarrow> 0 \<le> a \<and> a \<le> m \<and> m \<le> b"
  by (auto simp: mk_triad_def)

lemma mk_triad_fields:
  "mk_triad a m b = Inr t \<Longrightarrow> optimistic t = a \<and> most_likely t = m \<and> pessimistic t = b"
  by (auto simp: mk_triad_def split: if_splits)

lemma mk_observation_triad_ok:
  "mk_observation e modal actual oo mo po = Inr ob \<Longrightarrow> obs_triad ob = Some t \<Longrightarrow> triad_ok t"
  by (auto simp: mk_observation_def Let_def bind_res_eq_Inr mk_triad_ok
           split: option.splits)

lemma mk_observation_fields:
  "mk_observation e modal actual oo mo po = Inr ob \<Longrightarrow>
     engineer ob = e \<and> modal_estimate_hours ob = modal \<and> actual_hours ob = actual"
  by (auto simp: mk_observation_def Let_def bind_res_eq_Inr split: option.splits)

lemma alpha_for_None: "b e = None \<Longrightarrow> alpha_for b e = 1"
  by (simp add: alpha_for_def)

lemma alpha_for_Some: "b e = Some a \<Longrightarrow> alpha_for b e = a"
  by (simp add: alpha_for_def)

end
