(* ===== verification/Distribution.thy ===== *)
theory Distribution
  imports Entities
begin

text \<open>
  The calibrated PERT distribution of spec section 4.1. A \<open>Distribution\<close> is not
  stored data but a function of its triad, the engineer's bias multiplier, the global
  uncertainty factor and the shape: the record \<open>distribution\<close> holds exactly these,
  \<open>build_distribution\<close> looks the multiplier up, and \<open>dist_mean\<close> and
  \<open>dist_variance\<close> are its \<open>mean()\<close> and \<open>variance()\<close>. The base moments are
  \<open>pert_mean\<close> and \<open>pert_variance\<close>. Sampling, \<open>Distribution.sample\<close>, is in the
  theory \<open>Sampling\<close>.
\<close>

definition pert_mean :: "real \<Rightarrow> three_point_estimate \<Rightarrow> real" where
  "pert_mean lam t = (optimistic t + lam * most_likely t + pessimistic t) / (lam + 2)"

definition pert_variance :: "real \<Rightarrow> three_point_estimate \<Rightarrow> real" where
  "pert_variance lam t =
     (let mu = pert_mean lam t in (mu - optimistic t) * (pessimistic t - mu) / (lam + 3))"

record distribution =
  dist_triad :: three_point_estimate
  dist_alpha :: real
  dist_delta_b :: real
  dist_shape :: real

definition build_distribution ::
  "three_point_estimate \<Rightarrow> engineer_id \<Rightarrow> bias_model \<Rightarrow> real \<Rightarrow> real \<Rightarrow> distribution"
where
  "build_distribution t e b delta_b shape =
     \<lparr>dist_triad = t, dist_alpha = alpha_for b e, dist_delta_b = delta_b, dist_shape = shape\<rparr>"

definition dist_mean :: "distribution \<Rightarrow> real" where
  "dist_mean d = pert_mean (dist_shape d) (dist_triad d) * dist_alpha d"

definition dist_variance :: "distribution \<Rightarrow> real" where
  "dist_variance d = pert_variance (dist_shape d) (dist_triad d) * (1 + dist_delta_b d)\<^sup>2"

lemmas distribution_defs [forecast_eval] =
  pert_mean_def pert_variance_def build_distribution_def dist_mean_def dist_variance_def

subsection \<open>Base moments\<close>

lemma pert_mean_lower:
  assumes "triad_ok t" "0 \<le> lam"
  shows "optimistic t \<le> pert_mean lam t"
proof -
  have "lam * optimistic t \<le> lam * most_likely t"
    using assms by (simp add: triad_ok_def mult_left_mono)
  then have "(lam + 2) * optimistic t \<le> optimistic t + lam * most_likely t + pessimistic t"
    using assms by (simp add: triad_ok_def algebra_simps)
  then show ?thesis
    using assms by (simp add: pert_mean_def pos_le_divide_eq mult.commute)
qed

lemma pert_mean_upper:
  assumes "triad_ok t" "0 \<le> lam"
  shows "pert_mean lam t \<le> pessimistic t"
proof -
  have "lam * most_likely t \<le> lam * pessimistic t"
    using assms by (simp add: triad_ok_def mult_left_mono)
  then have "optimistic t + lam * most_likely t + pessimistic t \<le> (lam + 2) * pessimistic t"
    using assms by (simp add: triad_ok_def algebra_simps)
  then show ?thesis
    using assms by (simp add: pert_mean_def pos_divide_le_eq mult.commute)
qed

lemma pert_mean_strict:
  assumes "triad_ok t" "0 \<le> lam" "optimistic t < pessimistic t"
  shows "optimistic t < pert_mean lam t \<and> pert_mean lam t < pessimistic t"
proof -
  have "lam * optimistic t \<le> lam * most_likely t" "lam * most_likely t \<le> lam * pessimistic t"
    using assms by (simp_all add: triad_ok_def mult_left_mono)
  then have "(lam + 2) * optimistic t < optimistic t + lam * most_likely t + pessimistic t"
    and "optimistic t + lam * most_likely t + pessimistic t < (lam + 2) * pessimistic t"
    using assms by (simp_all add: algebra_simps)
  then show ?thesis
    using assms by (simp add: pert_mean_def pos_less_divide_eq pos_divide_less_eq mult.commute)
qed

lemma pert_variance_nonneg:
  assumes "triad_ok t" "0 \<le> lam"
  shows "0 \<le> pert_variance lam t"
  using pert_mean_lower [OF assms] pert_mean_upper [OF assms] assms(2)
  by (simp add: pert_variance_def Let_def)

lemma pert_variance_pos:
  assumes "triad_ok t" "0 \<le> lam" "optimistic t < pessimistic t"
  shows "0 < pert_variance lam t"
  using pert_mean_strict [OF assms] assms(2)
  by (simp add: pert_variance_def Let_def)

lemma pert_variance_degenerate:
  assumes "triad_ok t" "0 \<le> lam" "optimistic t = pessimistic t"
  shows "pert_variance lam t = 0"
  using pert_mean_lower [OF assms(1,2)] pert_mean_upper [OF assms(1,2)] assms(3)
  by (simp add: pert_variance_def Let_def)

subsection \<open>Calibrated moments\<close>

lemma dist_mean_build:
  "dist_mean (build_distribution t e b delta_b shape) = pert_mean shape t * alpha_for b e"
  by (simp add: dist_mean_def build_distribution_def)

lemma dist_variance_build:
  "dist_variance (build_distribution t e b delta_b shape) = pert_variance shape t * (1 + delta_b)\<^sup>2"
  by (simp add: dist_variance_def build_distribution_def)

lemma dist_variance_nonneg:
  "triad_ok (dist_triad d) \<Longrightarrow> 0 \<le> dist_shape d \<Longrightarrow> 0 \<le> dist_variance d"
  by (simp add: dist_variance_def pert_variance_nonneg)

lemma square_strict_mono_shift:
  "0 \<le> (x::real) \<Longrightarrow> x < y \<Longrightarrow> (1 + x)\<^sup>2 < (1 + y)\<^sup>2"
  by (simp add: power_strict_mono)

lemma square_mono_shift:
  "-1 \<le> (x::real) \<Longrightarrow> x \<le> y \<Longrightarrow> (1 + x)\<^sup>2 \<le> (1 + y)\<^sup>2"
  by (simp add: power_mono)

lemma dist_mean_scaled_bounds:
  assumes "triad_ok t" "0 \<le> shape" "0 \<le> alpha_for b e"
  shows "optimistic t * alpha_for b e \<le> dist_mean (build_distribution t e b delta_b shape)
       \<and> dist_mean (build_distribution t e b delta_b shape) \<le> pessimistic t * alpha_for b e"
  using pert_mean_lower [OF assms(1,2)] pert_mean_upper [OF assms(1,2)] assms(3)
  by (simp add: dist_mean_build mult_right_mono)

end
