(* ===== verification/Calibrator.thy ===== *)
theory Calibrator
  imports Distribution
begin

text \<open>
  The \<open>Calibrator\<close> of spec section 4.2. Its only state is the PERT shape it was
  made with (\<open>default_calibrator(shape)\<close>). \<open>fit_bias\<close> is modelled as the
  one-pass loop that accumulates, per engineer, the sum and the count of the ratios
  \<open>actual / modal\<close> (\<open>accumulate_ratios\<close>), after the check that raises
  \<open>InvalidObservation\<close>; \<open>mean_ratio\<close> is its abstract specification, the
  arithmetic mean of each engineer's ratios. \<open>fit_delta_b\<close> evaluates the
  \<open>coverage\<close> of the central interval over the observations that carry a triad and
  searches \<open>[0, 10]\<close> by \<open>bisect\<close>, a bisection with an iteration cap of 100 and a
  tolerance of \<open>10\<^sup>-\<^sup>6\<close>.
\<close>

record calibrator =
  cal_shape :: real

definition default_calibrator :: "real \<Rightarrow> calibrator" where
  "default_calibrator shape = \<lparr>cal_shape = shape\<rparr>"

definition cal_build_distribution ::
  "calibrator \<Rightarrow> three_point_estimate \<Rightarrow> engineer_id \<Rightarrow> bias_model \<Rightarrow> real \<Rightarrow> distribution"
where
  "cal_build_distribution cal t e b delta_b = build_distribution t e b delta_b (cal_shape cal)"

subsection \<open>Bias fitting\<close>

fun accumulate_ratios ::
  "bias_observation list \<Rightarrow> (engineer_id \<rightharpoonup> real \<times> nat) \<Rightarrow> (engineer_id \<rightharpoonup> real \<times> nat)"
where
  "accumulate_ratios [] acc = acc"
| "accumulate_ratios (ob # obs) acc =
     (let r = actual_hours ob / modal_estimate_hours ob
      in accumulate_ratios obs
           (acc(engineer ob \<mapsto> (case acc (engineer ob) of
                                  None \<Rightarrow> (r, 1)
                                | Some (s, n) \<Rightarrow> (s + r, Suc n)))))"

definition fit_bias :: "calibrator \<Rightarrow> bias_observation list \<Rightarrow> bias_model result" where
  "fit_bias cal obs =
     (if list_ex (\<lambda>ob. modal_estimate_hours ob \<le> 0) obs then Inl InvalidObservation
      else Inr (\<lambda>e. map_option (\<lambda>(s, n). s / real n) (accumulate_ratios obs Map.empty e)))"

text \<open>The specification of the fit: each engineer's multiplier is the mean of the ratios of
  that engineer's observations, and an engineer with none is absent.\<close>

definition ratios_of :: "bias_observation list \<Rightarrow> engineer_id \<Rightarrow> real list" where
  "ratios_of obs e =
     map (\<lambda>ob. actual_hours ob / modal_estimate_hours ob) (filter (\<lambda>ob. engineer ob = e) obs)"

definition mean_ratio :: "bias_observation list \<Rightarrow> bias_model" where
  "mean_ratio obs e =
     (let rs = ratios_of obs e in if rs = [] then None else Some (sum_list rs / real (length rs)))"

subsection \<open>Coverage and the uncertainty search\<close>

definition obs_covered ::
  "calibrator \<Rightarrow> bias_model \<Rightarrow> real \<Rightarrow> real \<Rightarrow> bias_observation \<Rightarrow> bool"
where
  "obs_covered cal b z d ob =
     (case obs_triad ob of
        None \<Rightarrow> False
      | Some t \<Rightarrow>
          (let dist = cal_build_distribution cal t (engineer ob) b d;
               mu = dist_mean dist;
               sd = safe_sqrt (dist_variance dist)
           in mu - z * sd \<le> actual_hours ob \<and> actual_hours ob \<le> mu + z * sd))"

definition triad_observations :: "bias_observation list \<Rightarrow> bias_observation list" where
  "triad_observations obs = filter (\<lambda>ob. obs_triad ob \<noteq> None) obs"

definition coverage ::
  "calibrator \<Rightarrow> bias_observation list \<Rightarrow> bias_model \<Rightarrow> real \<Rightarrow> real \<Rightarrow> real"
where
  "coverage cal obs b z d =
     (let pts = triad_observations obs
      in if pts = [] then 0
         else real (length (filter (obs_covered cal b z d) pts)) / real (length pts))"

fun bisect :: "(real \<Rightarrow> bool) \<Rightarrow> real \<Rightarrow> nat \<Rightarrow> real \<Rightarrow> real \<Rightarrow> real result" where
  "bisect ok tol 0 lo hi = (if hi - lo \<le> tol then Inr hi else Inl ConvergenceFailure)"
| "bisect ok tol (Suc n) lo hi =
     (if hi - lo \<le> tol then Inr hi
      else (let mid = (lo + hi) / 2
            in if ok mid then bisect ok tol n lo mid else bisect ok tol n mid hi))"

definition delta_b_max :: real where
  "delta_b_max = 10"

definition delta_b_tol :: real where
  "delta_b_tol = 1 / 1000000"

definition delta_b_max_iter :: nat where
  "delta_b_max_iter = 100"

definition fit_delta_b ::
  "std_normal \<Rightarrow> calibrator \<Rightarrow> bias_observation list \<Rightarrow> bias_model \<Rightarrow> real \<Rightarrow> real result"
where
  "fit_delta_b N cal obs b target =
     (let z = inv_cdf N ((1 + target) / 2);
          ok = (\<lambda>d. target \<le> coverage cal obs b z d)
      in if ok 0 then Inr 0
         else if ok delta_b_max then bisect ok delta_b_tol delta_b_max_iter 0 delta_b_max
         else Inl ConvergenceFailure)"

lemmas calibrator_defs [forecast_eval] =
  default_calibrator_def cal_build_distribution_def fit_bias_def obs_covered_def
  triad_observations_def coverage_def

subsection \<open>Bias fitting refines the mean of ratios\<close>

lemma ratios_of_Cons:
  "ratios_of (ob # obs) e =
     (if engineer ob = e then actual_hours ob / modal_estimate_hours ob # ratios_of obs e
      else ratios_of obs e)"
  by (simp add: ratios_of_def)

lemma accumulate_ratios_eq:
  "accumulate_ratios obs acc e =
     (case acc e of
        None \<Rightarrow> (if ratios_of obs e = [] then None
                 else Some (sum_list (ratios_of obs e), length (ratios_of obs e)))
      | Some (s, n) \<Rightarrow> Some (s + sum_list (ratios_of obs e), n + length (ratios_of obs e)))"
proof (induction obs arbitrary: acc)
  case Nil
  then show ?case by (simp add: ratios_of_def split: option.split)
next
  case (Cons ob obs)
  show ?case
    by (auto simp: Cons.IH ratios_of_Cons Let_def add.assoc split: option.split)
qed

theorem fit_bias_refines:
  "fit_bias cal obs =
     (if list_ex (\<lambda>ob. modal_estimate_hours ob \<le> 0) obs then Inl InvalidObservation
      else Inr (mean_ratio obs))"
proof -
  have "map_option (\<lambda>(s, n). s / real n) (accumulate_ratios obs Map.empty e) = mean_ratio obs e" for e
    by (simp add: accumulate_ratios_eq mean_ratio_def Let_def)
  then show ?thesis
    by (simp add: fit_bias_def fun_eq_iff)
qed

lemma mset_ratios_of:
  "mset (ratios_of obs e) =
     image_mset (\<lambda>ob. actual_hours ob / modal_estimate_hours ob)
       (filter_mset (\<lambda>ob. engineer ob = e) (mset obs))"
  by (simp add: ratios_of_def mset_filter)

lemma mean_ratio_perm: "mset xs = mset ys \<Longrightarrow> mean_ratio xs = mean_ratio ys"
proof
  fix e
  assume eq: "mset xs = mset ys"
  then have m: "mset (ratios_of xs e) = mset (ratios_of ys e)"
    by (simp add: mset_ratios_of)
  then have "sum_list (ratios_of xs e) = sum_list (ratios_of ys e)"
    by (rule sum_list_mset_cong)
  moreover have len: "length (ratios_of xs e) = length (ratios_of ys e)"
    using m by (metis size_mset)
  moreover have "ratios_of xs e = [] \<longleftrightarrow> ratios_of ys e = []"
    using len by (metis length_0_conv)
  ultimately show "mean_ratio xs e = mean_ratio ys e"
    by (simp add: mean_ratio_def Let_def)
qed

lemma fit_bias_perm: "mset xs = mset ys \<Longrightarrow> fit_bias cal xs = fit_bias cal ys"
proof -
  assume eq: "mset xs = mset ys"
  then have "set xs = set ys" by (metis set_mset_mset)
  then have "list_ex (\<lambda>ob. modal_estimate_hours ob \<le> 0) xs \<longleftrightarrow> list_ex (\<lambda>ob. modal_estimate_hours ob \<le> 0) ys"
    by (simp add: list_ex_iff)
  with mean_ratio_perm [OF eq] show ?thesis
    by (simp add: fit_bias_refines)
qed

lemma mean_ratio_None_iff: "mean_ratio obs e = None \<longleftrightarrow> e \<notin> engineer ` set obs"
  by (auto simp: mean_ratio_def ratios_of_def Let_def filter_empty_conv)

lemma fit_bias_unseen:
  "fit_bias cal obs = Inr b \<Longrightarrow> e \<notin> engineer ` set obs \<Longrightarrow> alpha_for b e = 1"
  by (auto simp: fit_bias_refines alpha_for_None mean_ratio_None_iff split: if_splits)

lemma fit_bias_Inl_iff:
  "fit_bias cal obs = Inl err \<longleftrightarrow>
     err = InvalidObservation \<and> list_ex (\<lambda>ob. modal_estimate_hours ob \<le> 0) obs"
  by (auto simp: fit_bias_def)

lemma ratios_of_pos:
  "list_all (\<lambda>ob. 0 < modal_estimate_hours ob \<and> 0 < actual_hours ob) obs \<Longrightarrow>
     r \<in> set (ratios_of obs e) \<Longrightarrow> 0 < r"
  by (auto simp: ratios_of_def list_all_iff)

lemma mean_ratio_pos:
  assumes "list_all (\<lambda>ob. 0 < modal_estimate_hours ob \<and> 0 < actual_hours ob) obs"
    and "mean_ratio obs e = Some a"
  shows "0 < a"
proof -
  let ?rs = "ratios_of obs e"
  have ne: "?rs \<noteq> []" and a: "a = sum_list ?rs / real (length ?rs)"
    using assms(2) by (auto simp: mean_ratio_def Let_def split: if_splits)
  have "0 < sum_list ?rs"
    using ne ratios_of_pos [OF assms(1)]
    by (rule sum_list_pos_real) (simp add: ratios_of_pos [OF assms(1)])
  moreover have "0 < real (length ?rs)"
    using ne by simp
  ultimately show ?thesis
    using a by simp
qed

lemma fit_bias_ignores_triads:
  "fit_bias cal (map (\<lambda>ob. ob\<lparr>obs_triad := f ob\<rparr>) obs) = fit_bias cal obs"
proof -
  have "ratios_of (map (\<lambda>ob. ob\<lparr>obs_triad := f ob\<rparr>) obs) = ratios_of obs"
    by (simp add: fun_eq_iff ratios_of_def comp_def filter_map)
  moreover have "list_ex (\<lambda>ob. modal_estimate_hours ob \<le> 0) (map (\<lambda>ob. ob\<lparr>obs_triad := f ob\<rparr>) obs)
      \<longleftrightarrow> list_ex (\<lambda>ob. modal_estimate_hours ob \<le> 0) obs"
    by (simp add: list_ex_iff)
  ultimately show ?thesis
    by (simp add: fit_bias_refines mean_ratio_def fun_eq_iff)
qed

subsection \<open>Coverage\<close>

lemma sd_mono_in_delta:
  assumes "-1 \<le> d1" "d1 \<le> d2"
  shows "safe_sqrt (v * (1 + d1)\<^sup>2) \<le> safe_sqrt (v * (1 + d2)\<^sup>2)"
proof (cases "0 \<le> v")
  case True
  have "(1 + d1)\<^sup>2 \<le> (1 + d2)\<^sup>2"
    using assms by (simp add: power_mono)
  with True show ?thesis
    by (intro safe_sqrt_mono mult_left_mono)
next
  case False
  then have "v * (1 + d1)\<^sup>2 \<le> 0" and "v * (1 + d2)\<^sup>2 \<le> 0"
    by (simp_all add: mult_nonpos_nonneg)
  then show ?thesis
    by (simp add: safe_sqrt_of_nonpos)
qed

lemma obs_covered_mono:
  assumes "0 \<le> z" "-1 \<le> d1" "d1 \<le> d2" "obs_covered cal b z d1 ob"
  shows "obs_covered cal b z d2 ob"
proof (cases "obs_triad ob")
  case None
  with assms(4) show ?thesis by (simp add: obs_covered_def)
next
  case (Some t)
  let ?v = "pert_variance (cal_shape cal) t"
  have "z * safe_sqrt (?v * (1 + d1)\<^sup>2) \<le> z * safe_sqrt (?v * (1 + d2)\<^sup>2)"
    using assms(1-3) by (intro mult_left_mono sd_mono_in_delta)
  with assms(4) Some show ?thesis
    by (auto simp: obs_covered_def cal_build_distribution_def dist_mean_build
                   dist_variance_build Let_def)
qed

lemma coverage_mono:
  assumes "0 \<le> z" "-1 \<le> d1" "d1 \<le> d2"
  shows "coverage cal obs b z d1 \<le> coverage cal obs b z d2"
proof -
  let ?pts = "triad_observations obs"
  have "length (filter (obs_covered cal b z d1) ?pts) \<le> length (filter (obs_covered cal b z d2) ?pts)"
    using obs_covered_mono [OF assms] by (intro length_filter_mono_pred)
  then show ?thesis
    by (simp add: coverage_def Let_def divide_right_mono)
qed

lemma coverage_bounds: "0 \<le> coverage cal obs b z d \<and> coverage cal obs b z d \<le> 1"
proof -
  let ?pts = "triad_observations obs"
  have "length (filter (obs_covered cal b z d) ?pts) \<le> length ?pts"
    by (rule length_filter_le)
  then show ?thesis
    by (simp add: coverage_def Let_def divide_le_eq_1)
qed

lemma triad_observations_append_untriaded:
  "obs_triad ob = None \<Longrightarrow> triad_observations (xs @ ob # ys) = triad_observations (xs @ ys)"
  by (simp add: triad_observations_def)

lemma coverage_ignores_untriaded:
  "obs_triad ob = None \<Longrightarrow> coverage cal (xs @ ob # ys) b z d = coverage cal (xs @ ys) b z d"
  by (simp add: coverage_def triad_observations_append_untriaded)

subsection \<open>Bisection\<close>

lemma bisect_Inl: "bisect ok tol n lo hi = Inl e \<Longrightarrow> e = ConvergenceFailure"
proof (induction ok tol n lo hi rule: bisect.induct)
  case (1 ok tol lo hi)
  then show ?case by (simp split: if_splits)
next
  case (2 ok tol n lo hi)
  then show ?case
    by (cases "hi - lo \<le> tol"; cases "ok ((lo + hi) / 2)")
       (auto simp: Let_def dest: "2.IH"[OF _ refl])
qed

lemma bisect_Inr_ok:
  "ok hi \<Longrightarrow> lo \<le> hi \<Longrightarrow> bisect ok tol n lo hi = Inr d \<Longrightarrow> ok d \<and> lo \<le> d \<and> d \<le> hi"
proof (induction ok tol n lo hi rule: bisect.induct)
  case (1 ok tol lo hi)
  then show ?case by (simp split: if_splits)
next
  case (2 ok tol n lo hi)
  let ?mid = "(lo + hi) / 2"
  show ?case
  proof (cases "hi - lo \<le> tol")
    case True
    with "2.prems" show ?thesis by simp
  next
    case False
    show ?thesis
    proof (cases "ok ?mid")
      case True
      with False "2.prems" have "ok d \<and> lo \<le> d \<and> d \<le> ?mid"
        by (intro "2.IH"(1)) (simp_all add: Let_def)
      then show ?thesis using "2.prems"(2) by simp
    next
      case nok: False
      with False "2.prems" have "ok d \<and> ?mid \<le> d \<and> d \<le> hi"
        by (intro "2.IH"(2)) (simp_all add: Let_def)
      then show ?thesis using "2.prems"(2) by simp
    qed
  qed
qed

lemma bisect_Inr_gap:
  "\<not> ok lo \<Longrightarrow> lo \<le> hi \<Longrightarrow> bisect ok tol n lo hi = Inr d \<Longrightarrow>
     \<exists>l. lo \<le> l \<and> l \<le> d \<and> \<not> ok l \<and> d - l \<le> tol"
proof (induction ok tol n lo hi rule: bisect.induct)
  case (1 ok tol lo hi)
  then show ?case by (auto split: if_splits)
next
  case (2 ok tol n lo hi)
  let ?mid = "(lo + hi) / 2"
  show ?case
  proof (cases "hi - lo \<le> tol")
    case True
    with "2.prems" show ?thesis by auto
  next
    case False
    show ?thesis
    proof (cases "ok ?mid")
      case True
      with False "2.prems" obtain l where "lo \<le> l \<and> l \<le> d \<and> \<not> ok l \<and> d - l \<le> tol"
        using "2.IH"(1) by (fastforce simp: Let_def)
      then show ?thesis by blast
    next
      case nok: False
      with False "2.prems" obtain l where "?mid \<le> l \<and> l \<le> d \<and> \<not> ok l \<and> d - l \<le> tol"
        using "2.IH"(2) by (fastforce simp: Let_def)
      then show ?thesis using "2.prems"(2) by (intro exI [of _ l]) simp
    qed
  qed
qed

lemma bisect_enough:
  "lo \<le> hi \<Longrightarrow> (hi - lo) / 2 ^ n \<le> tol \<Longrightarrow> \<exists>d. bisect ok tol n lo hi = Inr d"
proof (induction n arbitrary: lo hi)
  case 0
  then show ?case by simp
next
  case (Suc n)
  let ?mid = "(lo + hi) / 2"
  show ?case
  proof (cases "hi - lo \<le> tol")
    case True
    then show ?thesis by simp
  next
    case False
    have w1: "(?mid - lo) / 2 ^ n \<le> tol" and w2: "(hi - ?mid) / 2 ^ n \<le> tol"
      using Suc.prems(2) by (simp_all add: field_simps)
    have "\<exists>d. bisect ok tol n lo ?mid = Inr d"
      using Suc.prems(1) w1 by (intro Suc.IH) simp_all
    moreover have "\<exists>d. bisect ok tol n ?mid hi = Inr d"
      using Suc.prems(1) w2 by (intro Suc.IH) simp_all
    ultimately show ?thesis
      using False by (simp add: Let_def)
  qed
qed

subsection \<open>The uncertainty fit\<close>

lemma fit_delta_b_cases:
  "fit_delta_b N cal obs b target = Inr d \<Longrightarrow>
     (d = 0 \<and> target \<le> coverage cal obs b (inv_cdf N ((1 + target) / 2)) 0) \<or>
     (target > coverage cal obs b (inv_cdf N ((1 + target) / 2)) 0 \<and>
      target \<le> coverage cal obs b (inv_cdf N ((1 + target) / 2)) delta_b_max \<and>
      bisect (\<lambda>d. target \<le> coverage cal obs b (inv_cdf N ((1 + target) / 2)) d)
        delta_b_tol delta_b_max_iter 0 delta_b_max = Inr d)"
  by (auto simp: fit_delta_b_def Let_def split: if_splits)

lemma fit_delta_b_Inl: "fit_delta_b N cal obs b target = Inl e \<Longrightarrow> e = ConvergenceFailure"
  by (auto simp: fit_delta_b_def Let_def split: if_splits dest: bisect_Inl)

lemma fit_delta_b_sound:
  assumes "fit_delta_b N cal obs b target = Inr d"
  shows "0 \<le> d \<and> d \<le> delta_b_max \<and> target \<le> coverage cal obs b (inv_cdf N ((1 + target) / 2)) d"
  using fit_delta_b_cases [OF assms]
proof
  assume "d = 0 \<and> target \<le> coverage cal obs b (inv_cdf N ((1 + target) / 2)) 0"
  then show ?thesis by (simp add: delta_b_max_def)
next
  assume "target > coverage cal obs b (inv_cdf N ((1 + target) / 2)) 0 \<and>
      target \<le> coverage cal obs b (inv_cdf N ((1 + target) / 2)) delta_b_max \<and>
      bisect (\<lambda>d. target \<le> coverage cal obs b (inv_cdf N ((1 + target) / 2)) d)
        delta_b_tol delta_b_max_iter 0 delta_b_max = Inr d"
  then show ?thesis
    using bisect_Inr_ok [of "\<lambda>d. target \<le> coverage cal obs b (inv_cdf N ((1 + target) / 2)) d"
        delta_b_max 0 delta_b_tol delta_b_max_iter d]
    by (simp add: delta_b_max_def)
qed

lemma delta_b_fuel_enough: "(delta_b_max - 0) / 2 ^ delta_b_max_iter \<le> delta_b_tol"
  by (simp add: delta_b_max_def delta_b_max_iter_def delta_b_tol_def)

lemma fit_delta_b_total:
  "(\<exists>d. fit_delta_b N cal obs b target = Inr d) \<longleftrightarrow>
     target \<le> coverage cal obs b (inv_cdf N ((1 + target) / 2)) 0 \<or>
     target \<le> coverage cal obs b (inv_cdf N ((1 + target) / 2)) delta_b_max"
proof -
  have "\<exists>d. bisect ok delta_b_tol delta_b_max_iter 0 delta_b_max = Inr d" for ok
    using delta_b_fuel_enough by (intro bisect_enough) (simp_all add: delta_b_max_def)
  then show ?thesis
    by (auto simp: fit_delta_b_def Let_def)
qed

lemma fit_delta_b_gap:
  assumes "fit_delta_b N cal obs b target = Inr d"
  shows "d = 0 \<or> (\<exists>l. 0 \<le> l \<and> l \<le> d \<and>
     \<not> target \<le> coverage cal obs b (inv_cdf N ((1 + target) / 2)) l \<and> d - l \<le> delta_b_tol)"
  using fit_delta_b_cases [OF assms]
proof
  let ?ok = "\<lambda>d. target \<le> coverage cal obs b (inv_cdf N ((1 + target) / 2)) d"
  assume "target > coverage cal obs b (inv_cdf N ((1 + target) / 2)) 0 \<and> ?ok delta_b_max \<and>
      bisect ?ok delta_b_tol delta_b_max_iter 0 delta_b_max = Inr d"
  then show ?thesis
    using bisect_Inr_gap [of ?ok 0 delta_b_max delta_b_tol delta_b_max_iter d]
    by (auto simp: delta_b_max_def)
qed simp

lemma fit_delta_b_minimal:
  assumes N: "normal_ok N" and tgt: "0 \<le> target"
    and fit: "fit_delta_b N cal obs b target = Inr d"
    and d': "0 \<le> d'" "d' < d - delta_b_tol"
  shows "coverage cal obs b (inv_cdf N ((1 + target) / 2)) d' < target"
proof -
  let ?z = "inv_cdf N ((1 + target) / 2)"
  have z: "0 \<le> ?z"
    using N tgt by (intro normal_ok_inv_cdf_nonneg) simp_all
  from fit_delta_b_gap [OF fit] show ?thesis
  proof
    assume "d = 0"
    with d' show ?thesis by (simp add: delta_b_tol_def)
  next
    assume "\<exists>l. 0 \<le> l \<and> l \<le> d \<and> \<not> target \<le> coverage cal obs b ?z l \<and> d - l \<le> delta_b_tol"
    then obtain l where l: "0 \<le> l" "\<not> target \<le> coverage cal obs b ?z l" "d - l \<le> delta_b_tol"
      by blast
    have "coverage cal obs b ?z d' \<le> coverage cal obs b ?z l"
      using z d' l by (intro coverage_mono) simp_all
    with l(2) show ?thesis by simp
  qed
qed


subsection \<open>A sufficient condition for coverage\<close>

lemma obs_covered_within_sd:
  assumes t: "obs_triad ob = Some t" and z: "1 \<le> z"
    and close: "(actual_hours ob - dist_mean (cal_build_distribution cal t (engineer ob) b d))\<^sup>2
                \<le> dist_variance (cal_build_distribution cal t (engineer ob) b d)"
  shows "obs_covered cal b z d ob"
proof -
  let ?D = "cal_build_distribution cal t (engineer ob) b d"
  let ?x = "actual_hours ob - dist_mean ?D"
  have v: "0 \<le> dist_variance ?D"
    using order.trans [OF zero_le_power2 close] .
  have "\<bar>?x\<bar> \<le> 1 * sqrt (dist_variance ?D)"
    using abs_le_times_sqrt_iff [of 1 "dist_variance ?D" ?x] v close by simp
  also have "\<dots> \<le> z * sqrt (dist_variance ?D)"
    using z v by (intro mult_right_mono) simp_all
  finally have "\<bar>?x\<bar> \<le> z * safe_sqrt (dist_variance ?D)"
    using v by (simp add: safe_sqrt_of_nonneg)
  with t show ?thesis
    by (auto simp: obs_covered_def Let_def abs_le_iff)
qed

lemma obs_covered_of_square:
  assumes t: "obs_triad ob = Some t" and z: "0 \<le> z" and d: "0 \<le> 1 + d"
    and v: "0 \<le> pert_variance (cal_shape cal) t"
    and close: "(actual_hours ob - dist_mean (cal_build_distribution cal t (engineer ob) b d))\<^sup>2
                \<le> k * pert_variance (cal_shape cal) t"
    and k: "k \<le> z\<^sup>2 * (1 + d)\<^sup>2"
  shows "obs_covered cal b z d ob"
proof -
  let ?D = "cal_build_distribution cal t (engineer ob) b d"
  let ?x = "actual_hours ob - dist_mean ?D" and ?v = "pert_variance (cal_shape cal) t"
  have var: "dist_variance ?D = ?v * (1 + d)\<^sup>2"
    by (simp add: cal_build_distribution_def dist_variance_build)
  have "k * ?v \<le> z\<^sup>2 * (1 + d)\<^sup>2 * ?v"
    using k v by (rule mult_right_mono)
  with close have "?x\<^sup>2 \<le> z\<^sup>2 * dist_variance ?D"
    unfolding var by (simp add: mult_ac)
  then have "\<bar>?x\<bar> \<le> z * sqrt (dist_variance ?D)"
    using abs_le_times_sqrt_iff [of z "dist_variance ?D" ?x] z v unfolding var by simp
  then have "\<bar>?x\<bar> \<le> z * safe_sqrt (dist_variance ?D)"
    using v unfolding var by (simp add: safe_sqrt_of_nonneg)
  with t show ?thesis
    by (auto simp: obs_covered_def Let_def abs_le_iff)
qed

definition within_sd :: "calibrator \<Rightarrow> bias_model \<Rightarrow> real \<Rightarrow> bias_observation \<Rightarrow> bool" where
  "within_sd cal b d ob =
     (case obs_triad ob of
        None \<Rightarrow> False
      | Some t \<Rightarrow> (actual_hours ob - dist_mean (cal_build_distribution cal t (engineer ob) b d))\<^sup>2
                  \<le> dist_variance (cal_build_distribution cal t (engineer ob) b d))"

lemma within_sd_covered: "within_sd cal b d ob \<Longrightarrow> 1 \<le> z \<Longrightarrow> obs_covered cal b z d ob"
  by (auto simp: within_sd_def intro: obs_covered_within_sd split: option.splits)

subsection \<open>Scaling the quantile instead of the factor\<close>

lemma obs_covered_scale:
  assumes "0 \<le> 1 + d"
  shows "obs_covered cal b z d ob = obs_covered cal b (z * (1 + d)) 0 ob"
proof (cases "obs_triad ob")
  case None
  then show ?thesis by (simp add: obs_covered_def)
next
  case (Some t)
  let ?v = "pert_variance (cal_shape cal) t"
  have "safe_sqrt (?v * (1 + d)\<^sup>2) = (1 + d) * safe_sqrt ?v"
    using safe_sqrt_scale [OF assms, of ?v] by (simp add: mult.commute)
  then show ?thesis
    using Some by (simp add: obs_covered_def Let_def cal_build_distribution_def dist_mean_build
                             dist_variance_build mult.assoc)
qed

lemma coverage_scale:
  "0 \<le> 1 + d \<Longrightarrow> coverage cal obs b z d = coverage cal obs b (z * (1 + d)) 0"
proof -
  assume "0 \<le> 1 + d"
  then have eq: "obs_covered cal b z d = obs_covered cal b (z * (1 + d)) 0"
    by (intro ext obs_covered_scale)
  show ?thesis
    unfolding coverage_def eq ..
qed

end
