(* ===== verification/Engine.thy ===== *)
theory Engine
  imports Calibrator
begin

text \<open>
  The \<open>CommitCapacityEngine\<close> of spec section 4.3. \<open>DailyInputs\<close> is a record of
  three dictionaries keyed by engineer, as association lists in their insertion order
  (\<open>h_by_engineer\<close> is the one iterated), and an optional dictionary of pair
  correlations. The engine holds the calibrator, the fitted bias model and the fitted
  uncertainty factor, fixed at construction; every query is a function of them and of its
  arguments. \<open>day_rows\<close> joins the three dictionaries (raising
  \<open>DimensionMismatch\<close> when their key sets differ), \<open>engineer_moments\<close> is step 1,
  \<open>pair_terms\<close> the correlation sum over pairs \<open>i < j\<close> of step 3, and
  \<open>day_moments\<close>, \<open>daily_schedule_moments\<close>, \<open>commit_capacity\<close> and
  \<open>probability_of_success\<close> the public operations.
\<close>

record daily_inputs =
  h_by_engineer :: "(engineer_id \<times> real) list"
  q_by_engineer :: "(engineer_id \<times> real) list"
  triad_by_engineer :: "(engineer_id \<times> three_point_estimate) list"
  corr_by_pair :: "((engineer_id \<times> engineer_id) \<times> real) list option"

record commit_capacity_engine =
  eng_calibrator :: calibrator
  eng_bias :: bias_model
  eng_delta_b :: real

text \<open>The correlation dictionary is read through a table in which each entry is stored under
  both orders of its pair, so that a lookup never depends on the order of the two keys;
  a later entry for the same unordered pair overrides an earlier one, as a dictionary
  rebuilt over canonicalised keys does.\<close>

definition corr_insert ::
  "(engineer_id \<times> engineer_id) \<times> real \<Rightarrow> (engineer_id \<times> engineer_id \<rightharpoonup> real) \<Rightarrow>
     (engineer_id \<times> engineer_id \<rightharpoonup> real)"
where
  "corr_insert p m = (case p of ((a, b), r) \<Rightarrow> m((a, b) \<mapsto> r, (b, a) \<mapsto> r))"

definition corr_table ::
  "((engineer_id \<times> engineer_id) \<times> real) list \<Rightarrow> (engineer_id \<times> engineer_id \<rightharpoonup> real)"
where
  "corr_table ps = fold corr_insert ps Map.empty"

definition corr_lookup :: "daily_inputs \<Rightarrow> engineer_id \<Rightarrow> engineer_id \<Rightarrow> real" where
  "corr_lookup d i j =
     (case corr_by_pair d of
        None \<Rightarrow> 0
      | Some ps \<Rightarrow> (case corr_table ps (i, j) of None \<Rightarrow> 0 | Some r \<Rightarrow> r))"

fun engineer_row ::
  "daily_inputs \<Rightarrow> engineer_id \<times> real \<Rightarrow> (engineer_id \<times> real \<times> real \<times> three_point_estimate) result"
where
  "engineer_row d (e, h) =
     (case (map_of (q_by_engineer d) e, map_of (triad_by_engineer d) e) of
        (Some q, Some t) \<Rightarrow> Inr (e, h, q, t)
      | _ \<Rightarrow> Inl DimensionMismatch)"

definition day_rows ::
  "daily_inputs \<Rightarrow> (engineer_id \<times> real \<times> real \<times> three_point_estimate) list result"
where
  "day_rows d =
     (if set (map fst (q_by_engineer d)) \<subseteq> set (map fst (h_by_engineer d)) \<and>
         set (map fst (triad_by_engineer d)) \<subseteq> set (map fst (h_by_engineer d))
      then map_res (engineer_row d) (h_by_engineer d)
      else Inl DimensionMismatch)"

definition engineer_moments ::
  "commit_capacity_engine \<Rightarrow> engineer_id \<times> real \<times> real \<times> three_point_estimate \<Rightarrow>
     engineer_id \<times> real \<times> real"
where
  "engineer_moments eng row =
     (case row of (e, h, q, t) \<Rightarrow>
        let dist = cal_build_distribution (eng_calibrator eng) t e (eng_bias eng) (eng_delta_b eng);
            w = h * q
        in (e, w * dist_mean dist, w\<^sup>2 * dist_variance dist))"

fun pair_terms :: "daily_inputs \<Rightarrow> (engineer_id \<times> real \<times> real) list \<Rightarrow> real" where
  "pair_terms d [] = 0"
| "pair_terms d (x # xs) =
     (\<Sum>y \<leftarrow> xs. corr_lookup d (fst x) (fst y) * safe_sqrt (snd (snd x)) * safe_sqrt (snd (snd y)))
     + pair_terms d xs"

definition day_moments :: "commit_capacity_engine \<Rightarrow> daily_inputs \<Rightarrow> (real \<times> real) result" where
  "day_moments eng d =
     bind_res (day_rows d) (\<lambda>rows.
       let ms = map (engineer_moments eng) rows
       in Inr ((\<Sum>m \<leftarrow> ms. fst (snd m)), (\<Sum>m \<leftarrow> ms. snd (snd m)) + 2 * pair_terms d ms))"

definition daily_schedule_moments ::
  "commit_capacity_engine \<Rightarrow> daily_inputs list \<Rightarrow> (real list \<times> real list) result"
where
  "daily_schedule_moments eng days =
     bind_res (map_res (day_moments eng) days) (\<lambda>ps. Inr (map fst ps, map snd ps))"

definition commit_capacity ::
  "std_normal \<Rightarrow> commit_capacity_engine \<Rightarrow> daily_inputs list \<Rightarrow> nat \<Rightarrow> real \<Rightarrow> real result"
where
  "commit_capacity N eng days t alpha =
     (if alpha \<le> 0 \<or> 1 \<le> alpha then Inl InvalidParameter
      else bind_res (daily_schedule_moments eng days) (\<lambda>(mus, vs).
        let mu = sum_list (take t mus); var = sum_list (take t vs)
        in Inr (mu - inv_cdf N (1 - alpha) * safe_sqrt var)))"

definition probability_of_success ::
  "std_normal \<Rightarrow> commit_capacity_engine \<Rightarrow> daily_inputs list \<Rightarrow> nat \<Rightarrow> real \<Rightarrow> real \<Rightarrow> real result"
where
  "probability_of_success N eng days t workload achieved_to_date =
     (if workload < 0 then Inl InvalidParameter
      else let remaining = workload - achieved_to_date in
        if remaining \<le> 0 then Inr 1
        else bind_res (daily_schedule_moments eng days) (\<lambda>(mus, vs).
          let rm = drop t mus; rv = drop t vs in
          if rm = [] then Inr 0
          else let mu = sum_list rm; sd = safe_sqrt (sum_list rv) in
            if sd = 0 then Inr (if remaining \<le> mu then 1 else 0)
            else Inr (1 - cdf N ((remaining - mu) / sd))))"

lemmas engine_defs [forecast_eval] =
  corr_insert_def corr_table_def corr_lookup_def day_rows_def engineer_moments_def day_moments_def
  daily_schedule_moments_def commit_capacity_def probability_of_success_def

subsection \<open>Correlation lookup\<close>

definition sym_map :: "('k \<times> 'k \<rightharpoonup> 'v) \<Rightarrow> bool" where
  "sym_map m \<longleftrightarrow> (\<forall>x y. m (x, y) = m (y, x))"

lemma sym_map_corr_insert:
  assumes "sym_map m"
  shows "sym_map (corr_insert p m)"
proof -
  obtain a b r where p: "p = ((a, b), r)" by (metis prod.collapse)
  have "(m((a, b) \<mapsto> r, (b, a) \<mapsto> r)) (x, y) = (m((a, b) \<mapsto> r, (b, a) \<mapsto> r)) (y, x)" for x y
  proof (cases "(x, y) = (a, b) \<or> (x, y) = (b, a)")
    case True
    then show ?thesis by (elim disjE) simp_all
  next
    case False
    then have "(y, x) \<noteq> (a, b)" "(y, x) \<noteq> (b, a)" by blast+
    with False assms show ?thesis
      unfolding sym_map_def by (metis fun_upd_other)
  qed
  then show ?thesis
    by (simp add: sym_map_def corr_insert_def p)
qed

lemma sym_map_fold_corr_insert: "sym_map m \<Longrightarrow> sym_map (fold corr_insert ps m)"
  by (induction ps arbitrary: m) (simp_all add: sym_map_corr_insert)

lemma corr_table_sym: "corr_table ps (x, y) = corr_table ps (y, x)"
proof -
  have "sym_map (corr_table ps)"
    unfolding corr_table_def by (rule sym_map_fold_corr_insert) (simp add: sym_map_def)
  then show ?thesis by (simp add: sym_map_def)
qed

lemma corr_lookup_sym: "corr_lookup d i j = corr_lookup d j i"
  by (simp add: corr_lookup_def corr_table_sym split: option.split)

lemma corr_insert_ran:
  "corr_insert p m k = Some r \<Longrightarrow> r = snd p \<or> m k = Some r"
  by (auto simp: corr_insert_def split: prod.splits if_splits)

lemma fold_corr_insert_ran:
  "fold corr_insert ps m k = Some r \<Longrightarrow> r \<in> snd ` set ps \<or> (\<exists>k'. m k' = Some r)"
proof (induction ps arbitrary: m)
  case Nil
  then have "m k = Some r" by simp
  then show ?case by blast
next
  case (Cons p ps)
  from Cons.prems have "fold corr_insert ps (corr_insert p m) k = Some r" by simp
  from Cons.IH [OF this] show ?case
    by (auto dest: corr_insert_ran)
qed

lemma corr_lookup_nonneg:
  assumes "\<And>ps k r. corr_by_pair d = Some ps \<Longrightarrow> (k, r) \<in> set ps \<Longrightarrow> 0 \<le> r"
  shows "0 \<le> corr_lookup d i j"
proof (cases "corr_by_pair d")
  case None
  then show ?thesis by (simp add: corr_lookup_def)
next
  case (Some ps)
  have "0 \<le> r" if r: "corr_table ps (i, j) = Some r" for r
  proof -
    have "r \<in> snd ` set ps"
      using fold_corr_insert_ran [of ps Map.empty "(i, j)" r] r by (simp add: corr_table_def)
    with assms Some show ?thesis by force
  qed
  with Some show ?thesis
    by (auto simp: corr_lookup_def split: option.split)
qed

subsection \<open>Joining the day's dictionaries\<close>

lemma engineer_row_Inr_iff:
  "(\<exists>r. engineer_row d (e, h) = Inr r) \<longleftrightarrow>
     e \<in> set (map fst (q_by_engineer d)) \<and> e \<in> set (map fst (triad_by_engineer d))"
proof -
  have "(\<exists>r. engineer_row d (e, h) = Inr r) \<longleftrightarrow>
      map_of (q_by_engineer d) e \<noteq> None \<and> map_of (triad_by_engineer d) e \<noteq> None"
    by (cases "map_of (q_by_engineer d) e"; cases "map_of (triad_by_engineer d) e") simp_all
  then show ?thesis
    by (simp add: map_of_eq_None_iff)
qed

lemma engineer_row_Inr:
  "engineer_row d (e, h) = Inr r \<Longrightarrow>
     \<exists>q t. r = (e, h, q, t) \<and> map_of (q_by_engineer d) e = Some q \<and> map_of (triad_by_engineer d) e = Some t"
  by (cases "map_of (q_by_engineer d) e"; cases "map_of (triad_by_engineer d) e") simp_all

lemma day_rows_Inr_iff:
  "(\<exists>rows. day_rows d = Inr rows) \<longleftrightarrow>
     set (map fst (q_by_engineer d)) = set (map fst (h_by_engineer d)) \<and>
     set (map fst (triad_by_engineer d)) = set (map fst (h_by_engineer d))"
proof
  assume "\<exists>rows. day_rows d = Inr rows"
  then obtain rows where sub: "set (map fst (q_by_engineer d)) \<subseteq> set (map fst (h_by_engineer d))"
      "set (map fst (triad_by_engineer d)) \<subseteq> set (map fst (h_by_engineer d))"
    and m: "map_res (engineer_row d) (h_by_engineer d) = Inr rows"
    by (auto simp: day_rows_def split: if_splits)
  have "e \<in> set (map fst (q_by_engineer d)) \<and> e \<in> set (map fst (triad_by_engineer d))"
    if e_in: "e \<in> set (map fst (h_by_engineer d))" for e
  proof -
    obtain h where "(e, h) \<in> set (h_by_engineer d)" using e_in by force
    then show ?thesis
      using map_res_Inr_elem [OF m] engineer_row_Inr_iff by blast
  qed
  with sub show "set (map fst (q_by_engineer d)) = set (map fst (h_by_engineer d)) \<and>
     set (map fst (triad_by_engineer d)) = set (map fst (h_by_engineer d))"
    by blast
next
  assume eq: "set (map fst (q_by_engineer d)) = set (map fst (h_by_engineer d)) \<and>
     set (map fst (triad_by_engineer d)) = set (map fst (h_by_engineer d))"
  have "\<exists>r. engineer_row d x = Inr r" if x_in: "x \<in> set (h_by_engineer d)" for x
  proof -
    obtain e h where x: "x = (e, h)" by fastforce
    with x_in have "e \<in> set (map fst (h_by_engineer d))" by force
    with eq x show ?thesis using engineer_row_Inr_iff by simp
  qed
  then show "\<exists>rows. day_rows d = Inr rows"
    using eq by (auto simp: day_rows_def intro: map_res_ex_Inr)
qed


subsection \<open>The day's variance is the variance of a sum of correlated capacities\<close>

text \<open>The specification: the variance of \<open>\<Sum>\<^sub>i C\<^sub>i\<close> is the quadratic form of the
  correlation matrix (1 on the diagonal) in the standard deviations.\<close>

definition sd_of :: "engineer_id \<times> real \<times> real \<Rightarrow> real" where
  "sd_of x = safe_sqrt (snd (snd x))"

definition corr_coeff :: "daily_inputs \<Rightarrow> engineer_id \<times> real \<times> real \<Rightarrow> engineer_id \<times> real \<times> real \<Rightarrow> real" where
  "corr_coeff d x y = (if fst x = fst y then 1 else corr_lookup d (fst x) (fst y))"

definition quad_form :: "daily_inputs \<Rightarrow> (engineer_id \<times> real \<times> real) list \<Rightarrow> real" where
  "quad_form d ms = (\<Sum>x \<leftarrow> ms. \<Sum>y \<leftarrow> ms. corr_coeff d x y * sd_of x * sd_of y)"

lemma corr_coeff_sym: "corr_coeff d x y = corr_coeff d y x"
  by (auto simp: corr_coeff_def corr_lookup_sym)

lemma sum_list_cross_sym:
  "(\<Sum>z \<leftarrow> xs. corr_coeff d z x * sd_of z * sd_of x) = (\<Sum>y \<leftarrow> xs. corr_coeff d x y * sd_of x * sd_of y)"
proof -
  have eq: "\<And>z. corr_coeff d z x * sd_of z * sd_of x = corr_coeff d x z * sd_of x * sd_of z"
    by (simp add: corr_coeff_sym [of d _ x])
  show ?thesis by (simp only: eq)
qed

lemma quad_form_Cons:
  "quad_form d (x # xs) =
     corr_coeff d x x * sd_of x * sd_of x + 2 * (\<Sum>y \<leftarrow> xs. corr_coeff d x y * sd_of x * sd_of y)
     + quad_form d xs"
proof -
  have "quad_form d (x # xs) =
      (corr_coeff d x x * sd_of x * sd_of x + (\<Sum>y \<leftarrow> xs. corr_coeff d x y * sd_of x * sd_of y))
      + (\<Sum>z \<leftarrow> xs. corr_coeff d z x * sd_of z * sd_of x + (\<Sum>y \<leftarrow> xs. corr_coeff d z y * sd_of z * sd_of y))"
    by (simp add: quad_form_def)
  also have "\<dots> = corr_coeff d x x * sd_of x * sd_of x + (\<Sum>y \<leftarrow> xs. corr_coeff d x y * sd_of x * sd_of y)
      + (\<Sum>z \<leftarrow> xs. corr_coeff d z x * sd_of z * sd_of x) + quad_form d xs"
    by (simp add: sum_list_addf quad_form_def)
  finally show ?thesis
    by (simp add: sum_list_cross_sym)
qed

lemma quad_form_pair_terms:
  "distinct (map fst ms) \<Longrightarrow> (\<And>x. x \<in> set ms \<Longrightarrow> 0 \<le> snd (snd x)) \<Longrightarrow>
     quad_form d ms = (\<Sum>x \<leftarrow> ms. snd (snd x)) + 2 * pair_terms d ms"
proof (induction ms)
  case Nil
  then show ?case by (simp add: quad_form_def)
next
  case (Cons x xs)
  have diag: "corr_coeff d x x * sd_of x * sd_of x = snd (snd x)"
    using Cons.prems(2) by (simp add: corr_coeff_def sd_of_def safe_sqrt_square)
  have "corr_coeff d x y * sd_of x * sd_of y =
      corr_lookup d (fst x) (fst y) * safe_sqrt (snd (snd x)) * safe_sqrt (snd (snd y))"
    if "y \<in> set xs" for y
    using that Cons.prems(1) by (auto simp: corr_coeff_def sd_of_def)
  then have off: "(\<Sum>y \<leftarrow> xs. corr_coeff d x y * sd_of x * sd_of y) =
      (\<Sum>y \<leftarrow> xs. corr_lookup d (fst x) (fst y) * safe_sqrt (snd (snd x)) * safe_sqrt (snd (snd y)))"
    by (intro arg_cong [where f = sum_list] map_cong) simp_all
  have "quad_form d (x # xs) =
      snd (snd x)
      + 2 * (\<Sum>y \<leftarrow> xs. corr_lookup d (fst x) (fst y) * safe_sqrt (snd (snd x)) * safe_sqrt (snd (snd y)))
      + quad_form d xs"
    by (simp only: quad_form_Cons diag off)
  moreover have "quad_form d xs = (\<Sum>x \<leftarrow> xs. snd (snd x)) + 2 * pair_terms d xs"
    using Cons by simp
  ultimately show ?case by simp
qed

lemma pair_terms_nonneg:
  "(\<And>i j. 0 \<le> corr_lookup d i j) \<Longrightarrow> 0 \<le> pair_terms d ms"
proof (induction ms)
  case Nil
  then show ?case by simp
next
  case (Cons x xs)
  have "0 \<le> (\<Sum>y \<leftarrow> xs. corr_lookup d (fst x) (fst y) * safe_sqrt (snd (snd x)) * safe_sqrt (snd (snd y)))"
    using Cons.prems by (intro sum_list_nonneg_map) simp
  with Cons show ?case by simp
qed

lemma engineer_rows_rel:
  "list_all2 (\<lambda>x y. engineer_row d x = Inr y) xs ys \<Longrightarrow>
     map fst ys = map fst xs \<and>
     (\<forall>r \<in> set ys. (fst r, snd (snd (snd r))) \<in> set (triad_by_engineer d))"
proof (induction rule: list_all2_induct)
  case Nil
  then show ?case by simp
next
  case (Cons x xs y ys)
  obtain e h where x: "x = (e, h)" by (cases x)
  from Cons.hyps(1) x obtain q t where y: "y = (e, h, q, t)"
      and t: "map_of (triad_by_engineer d) e = Some t"
    using engineer_row_Inr by blast
  from t have "(e, t) \<in> set (triad_by_engineer d)" by (rule map_of_SomeD)
  with Cons.IH x y show ?case by simp
qed

lemma day_rows_Inr_rows:
  assumes "day_rows d = Inr rows"
  shows "map fst rows = map fst (h_by_engineer d) \<and>
     (\<forall>r \<in> set rows. (fst r, snd (snd (snd r))) \<in> set (triad_by_engineer d))"
proof -
  have "map_res (engineer_row d) (h_by_engineer d) = Inr rows"
    using assms by (simp add: day_rows_def split: if_splits)
  then show ?thesis
    by (intro engineer_rows_rel) (simp add: map_res_eq_Inr)
qed

lemma engineer_moments_fst: "fst (engineer_moments eng r) = fst r"
  by (simp add: engineer_moments_def Let_def split: prod.split)

lemma engineer_moments_var_nonneg:
  assumes "triad_ok (snd (snd (snd r)))" "0 \<le> cal_shape (eng_calibrator eng)"
  shows "0 \<le> snd (snd (engineer_moments eng r))"
proof -
  obtain e h q t where r: "r = (e, h, q, t)" by (metis prod.collapse)
  have "0 \<le> pert_variance (cal_shape (eng_calibrator eng)) t"
    using assms r by (simp add: pert_variance_nonneg)
  then show ?thesis
    by (simp add: r engineer_moments_def cal_build_distribution_def dist_variance_build Let_def)
qed

definition day_ok :: "daily_inputs \<Rightarrow> bool" where
  "day_ok d \<longleftrightarrow> distinct (map fst (h_by_engineer d)) \<and> list_all (\<lambda>(e, t). triad_ok t) (triad_by_engineer d)"

lemma day_rows_var_nonneg:
  assumes "day_rows d = Inr rows" "day_ok d" "0 \<le> cal_shape (eng_calibrator eng)"
  shows "\<forall>m \<in> set (map (engineer_moments eng) rows). 0 \<le> snd (snd m)"
proof -
  have "triad_ok (snd (snd (snd r)))" if r_in: "r \<in> set rows" for r
  proof -
    have "(fst r, snd (snd (snd r))) \<in> set (triad_by_engineer d)"
      using day_rows_Inr_rows [OF assms(1)] r_in by blast
    moreover have "list_all (\<lambda>(e, t). triad_ok t) (triad_by_engineer d)"
      using assms(2) by (simp add: day_ok_def)
    ultimately show ?thesis
      by (fastforce simp: list_all_iff)
  qed
  then show ?thesis
    using assms(3) by (auto intro: engineer_moments_var_nonneg)
qed

theorem day_moments_refines:
  assumes "day_moments eng d = Inr (mu, var)" "day_ok d" "0 \<le> cal_shape (eng_calibrator eng)"
  shows "\<exists>rows. day_rows d = Inr rows \<and>
     mu = (\<Sum>m \<leftarrow> map (engineer_moments eng) rows. fst (snd m)) \<and>
     var = quad_form d (map (engineer_moments eng) rows)"
proof -
  obtain rows where rows: "day_rows d = Inr rows"
    and mu: "mu = (\<Sum>m \<leftarrow> map (engineer_moments eng) rows. fst (snd m))"
    and var: "var = (\<Sum>m \<leftarrow> map (engineer_moments eng) rows. snd (snd m))
                     + 2 * pair_terms d (map (engineer_moments eng) rows)"
    using assms(1) by (auto simp: day_moments_def bind_res_eq_Inr Let_def)
  let ?ms = "map (engineer_moments eng) rows"
  have "map fst ?ms = map fst (h_by_engineer d)"
    using day_rows_Inr_rows [OF rows] by (simp add: comp_def engineer_moments_fst)
  then have dist: "distinct (map fst ?ms)"
    using assms(2) by (simp add: day_ok_def)
  have nonneg: "\<And>m. m \<in> set ?ms \<Longrightarrow> 0 \<le> snd (snd m)"
    using day_rows_var_nonneg [OF rows assms(2,3)] by blast
  have "var = quad_form d ?ms"
    using quad_form_pair_terms [OF dist nonneg, of d] var by simp
  with rows mu show ?thesis by blast
qed

lemma day_moments_var_nonneg:
  assumes "day_moments eng d = Inr (mu, var)" "day_ok d" "0 \<le> cal_shape (eng_calibrator eng)"
    and "\<And>i j. 0 \<le> corr_lookup d i j"
  shows "0 \<le> var"
proof -
  obtain rows where rows: "day_rows d = Inr rows"
    and var: "var = (\<Sum>m \<leftarrow> map (engineer_moments eng) rows. snd (snd m))
                     + 2 * pair_terms d (map (engineer_moments eng) rows)"
    using assms(1) by (auto simp: day_moments_def bind_res_eq_Inr Let_def)
  have "0 \<le> (\<Sum>m \<leftarrow> map (engineer_moments eng) rows. snd (snd m))"
    using day_rows_var_nonneg [OF rows assms(2,3)] by (intro sum_list_nonneg_map) auto
  moreover have "0 \<le> pair_terms d (map (engineer_moments eng) rows)"
    using assms(4) by (rule pair_terms_nonneg)
  ultimately show ?thesis using var by simp
qed

subsection \<open>The schedule of day moments\<close>

lemma daily_schedule_moments_Inr:
  assumes "daily_schedule_moments eng days = Inr (mus, vs)"
  shows "length mus = length days \<and> length vs = length days \<and>
     (\<forall>i < length days. day_moments eng (days ! i) = Inr (mus ! i, vs ! i))"
proof -
  obtain ps where ps: "map_res (day_moments eng) days = Inr ps" and "mus = map fst ps" "vs = map snd ps"
    using assms by (auto simp: daily_schedule_moments_def bind_res_eq_Inr)
  moreover have "length ps = length days" using ps by (rule map_res_length)
  ultimately show ?thesis
    using map_res_Inr_nth [OF ps] by simp
qed

lemma daily_schedule_moments_exists:
  "(\<And>d. d \<in> set days \<Longrightarrow> \<exists>m. day_moments eng d = Inr m) \<Longrightarrow>
     \<exists>mus vs. daily_schedule_moments eng days = Inr (mus, vs)"
  using map_res_ex_Inr [of days "day_moments eng"]
  by (auto simp: daily_schedule_moments_def)

subsection \<open>Commit capacity\<close>

lemma commit_capacity_Inr:
  "commit_capacity N eng days t alpha = Inr c \<longleftrightarrow>
     0 < alpha \<and> alpha < 1 \<and>
     (\<exists>mus vs. daily_schedule_moments eng days = Inr (mus, vs) \<and>
        c = sum_list (take t mus) - inv_cdf N (1 - alpha) * safe_sqrt (sum_list (take t vs)))"
  by (auto simp: commit_capacity_def bind_res_eq_Inr Let_def split: prod.splits)

lemma commit_capacity_invalid:
  "alpha \<le> 0 \<or> 1 \<le> alpha \<Longrightarrow> commit_capacity N eng days t alpha = Inl InvalidParameter"
  by (simp add: commit_capacity_def)

lemma commit_capacity_zero:
  "0 < alpha \<Longrightarrow> alpha < 1 \<Longrightarrow> daily_schedule_moments eng days = Inr m \<Longrightarrow>
     commit_capacity N eng days 0 alpha = Inr 0"
  by (cases m) (simp add: commit_capacity_def safe_sqrt_def)

lemma commit_capacity_mono_alpha:
  assumes N: "normal_ok N" and a: "a1 \<le> a2"
    and c1: "commit_capacity N eng days t a1 = Inr c1"
    and c2: "commit_capacity N eng days t a2 = Inr c2"
  shows "c1 \<le> c2"
proof -
  obtain mus vs where m: "daily_schedule_moments eng days = Inr (mus, vs)"
    and c1': "c1 = sum_list (take t mus) - inv_cdf N (1 - a1) * safe_sqrt (sum_list (take t vs))"
    using c1 by (auto simp: commit_capacity_Inr)
  have c2': "c2 = sum_list (take t mus) - inv_cdf N (1 - a2) * safe_sqrt (sum_list (take t vs))"
    using c2 m by (auto simp: commit_capacity_Inr)
  have "inv_cdf N (1 - a2) \<le> inv_cdf N (1 - a1)"
    using N a by (intro normal_ok_inv_cdf_mono) simp_all
  then have "inv_cdf N (1 - a2) * safe_sqrt (sum_list (take t vs))
      \<le> inv_cdf N (1 - a1) * safe_sqrt (sum_list (take t vs))"
    by (intro mult_right_mono) simp_all
  then show ?thesis using c1' c2' by simp
qed

subsection \<open>Probability of success\<close>

definition success_tail :: "std_normal \<Rightarrow> real list \<Rightarrow> real list \<Rightarrow> real \<Rightarrow> real" where
  "success_tail N rm rv remaining =
     (if rm = [] then 0
      else let mu = sum_list rm; sd = safe_sqrt (sum_list rv) in
        if sd = 0 then (if remaining \<le> mu then 1 else 0)
        else 1 - cdf N ((remaining - mu) / sd))"

lemma probability_of_success_eq:
  "probability_of_success N eng days t workload achieved =
     (if workload < 0 then Inl InvalidParameter
      else if workload - achieved \<le> 0 then Inr 1
      else bind_res (daily_schedule_moments eng days) (\<lambda>(mus, vs).
             Inr (success_tail N (drop t mus) (drop t vs) (workload - achieved))))"
  by (cases "daily_schedule_moments eng days")
     (auto simp: probability_of_success_def success_tail_def Let_def split: prod.split)

lemma success_tail_bounds:
  "normal_ok N \<Longrightarrow> 0 \<le> success_tail N rm rv r \<and> success_tail N rm rv r \<le> 1"
  using normal_ok_cdf_bounds [of N] by (simp add: success_tail_def Let_def)

lemma success_tail_antimono:
  assumes N: "normal_ok N" and r: "r1 \<le> r2"
  shows "success_tail N rm rv r2 \<le> success_tail N rm rv r1"
proof (cases "rm = [] \<or> safe_sqrt (sum_list rv) = 0")
  case True
  with r show ?thesis by (auto simp: success_tail_def Let_def)
next
  case False
  then have sd: "0 < safe_sqrt (sum_list rv)"
    using safe_sqrt_nonneg [of "sum_list rv"] by linarith
  have "(r1 - sum_list rm) / safe_sqrt (sum_list rv) \<le> (r2 - sum_list rm) / safe_sqrt (sum_list rv)"
    using r sd by (intro divide_right_mono) simp_all
  then have "cdf N ((r1 - sum_list rm) / safe_sqrt (sum_list rv)) \<le> cdf N ((r2 - sum_list rm) / safe_sqrt (sum_list rv))"
    by (rule normal_ok_cdf_mono [OF N])
  with False show ?thesis by (simp add: success_tail_def Let_def)
qed

lemma probability_of_success_met:
  "0 \<le> workload \<Longrightarrow> workload \<le> achieved \<Longrightarrow>
     probability_of_success N eng days t workload achieved = Inr 1"
  by (simp add: probability_of_success_eq)

lemma probability_of_success_bounds:
  "normal_ok N \<Longrightarrow> probability_of_success N eng days t workload achieved = Inr p \<Longrightarrow> 0 \<le> p \<and> p \<le> 1"
  by (auto simp: probability_of_success_eq bind_res_eq_Inr success_tail_bounds split: if_splits)

lemma probability_of_success_remaining:
  assumes N: "normal_ok N" and r: "workload1 - achieved1 \<le> workload2 - achieved2"
    and p1: "probability_of_success N eng days t workload1 achieved1 = Inr p1"
    and p2: "probability_of_success N eng days t workload2 achieved2 = Inr p2"
  shows "p2 \<le> p1"
proof (cases "workload1 - achieved1 \<le> 0")
  case True
  then have "p1 = 1" using p1 by (simp add: probability_of_success_eq split: if_splits)
  moreover have "p2 \<le> 1" using probability_of_success_bounds [OF N p2] by simp
  ultimately show ?thesis by simp
next
  case False
  with r p1 p2 obtain mus vs where
      "p1 = success_tail N (drop t mus) (drop t vs) (workload1 - achieved1)"
      "p2 = success_tail N (drop t mus) (drop t vs) (workload2 - achieved2)"
    by (auto simp: probability_of_success_eq bind_res_eq_Inr split: if_splits)
  with success_tail_antimono [OF N r] show ?thesis by simp
qed


subsection \<open>Closed form of a two-engineer day\<close>

lemma engineer_moments_row:
  "engineer_moments eng (e, h, q, t) =
     (e, h * q * (pert_mean (cal_shape (eng_calibrator eng)) t * alpha_for (eng_bias eng) e),
      (h * q)\<^sup>2 * (pert_variance (cal_shape (eng_calibrator eng)) t * (1 + eng_delta_b eng)\<^sup>2))"
  by (simp add: engineer_moments_def cal_build_distribution_def dist_mean_build dist_variance_build
                Let_def)

lemma day_moments_two_engineers:
  assumes rows: "day_rows d = Inr [(e1, h1, q1, t1), (e2, h2, q2, t2)]"
    and w: "0 \<le> h1 * q1" "0 \<le> h2 * q2" and delta: "-1 \<le> eng_delta_b eng"
  shows "day_moments eng d =
    Inr (h1 * q1 * (pert_mean (cal_shape (eng_calibrator eng)) t1 * alpha_for (eng_bias eng) e1)
         + h2 * q2 * (pert_mean (cal_shape (eng_calibrator eng)) t2 * alpha_for (eng_bias eng) e2),
         (1 + eng_delta_b eng)\<^sup>2 *
           ((h1 * q1)\<^sup>2 * pert_variance (cal_shape (eng_calibrator eng)) t1
            + (h2 * q2)\<^sup>2 * pert_variance (cal_shape (eng_calibrator eng)) t2
            + 2 * corr_lookup d e1 e2 * (h1 * q1) * (h2 * q2)
                * safe_sqrt (pert_variance (cal_shape (eng_calibrator eng)) t1)
                * safe_sqrt (pert_variance (cal_shape (eng_calibrator eng)) t2)))"
proof -
  let ?c = "1 + eng_delta_b eng"
  have c: "\<bar>?c\<bar> = ?c" using delta by simp
  have "\<bar>?c\<bar> * \<bar>?c\<bar> = ?c\<^sup>2" by (simp add: power2_eq_square)
  then show ?thesis
    using w c rows
    by (simp add: day_moments_def engineer_moments_row safe_sqrt_scaled_square)
       (simp add: algebra_simps power2_eq_square)
qed

end
