(* ===== verification/Search.thy ===== *)
theory Search
  imports Calibrator
begin

text \<open>
  The bisection of \<open>Calibrator.fit_delta_b\<close> as a transition system. A state is the
  bracket \<open>(lo, hi)\<close> and the remaining iterations; one step halves the bracket towards
  the side on which the coverage predicate holds. \<open>bisect\<close> is the functional reading;
  here the search is shown to be a run of the step relation that keeps its bracket and
  its width-to-fuel ratio invariant. The relation is deterministic and every step uses one
  unit of fuel, so no run is infinite and from every state a final state is reached; the
  final state is unique, and its upper end is what \<open>bisect\<close> returns.
\<close>

type_synonym search_state = "real \<times> real \<times> nat"

inductive bisect_step :: "(real \<Rightarrow> bool) \<Rightarrow> real \<Rightarrow> search_state \<Rightarrow> search_state \<Rightarrow> bool"
  for ok tol
where
  go_left: "tol < hi - lo \<Longrightarrow> ok ((lo + hi) / 2) \<Longrightarrow>
    bisect_step ok tol (lo, hi, Suc n) (lo, (lo + hi) / 2, n)"
| go_right: "tol < hi - lo \<Longrightarrow> \<not> ok ((lo + hi) / 2) \<Longrightarrow>
    bisect_step ok tol (lo, hi, Suc n) ((lo + hi) / 2, hi, n)"

code_pred bisect_step .

inductive_cases bisect_stepE: "bisect_step ok tol (lo, hi, n) s'"

definition search_final :: "real \<Rightarrow> search_state \<Rightarrow> bool" where
  "search_final tol s = (case s of (lo, hi, n) \<Rightarrow> hi - lo \<le> tol \<or> n = 0)"

definition search_result :: "real \<Rightarrow> search_state \<Rightarrow> real result" where
  "search_result tol s = (case s of (lo, hi, n) \<Rightarrow> if hi - lo \<le> tol then Inr hi else Inl ConvergenceFailure)"

definition bracket :: "(real \<Rightarrow> bool) \<Rightarrow> real \<Rightarrow> search_state \<Rightarrow> bool" where
  "bracket ok w s = (case s of (lo, hi, n) \<Rightarrow> lo < hi \<and> \<not> ok lo \<and> ok hi \<and> (hi - lo) / 2 ^ n = w)"

lemma bisect_step_det: "bisect_step ok tol s s' \<Longrightarrow> bisect_step ok tol s s'' \<Longrightarrow> s'' = s'"
  by (induction rule: bisect_step.induct) (auto elim: bisect_step.cases)

lemma bisect_step_final_iff: "search_final tol s \<longleftrightarrow> (\<nexists>s'. bisect_step ok tol s s')"
proof (cases s)
  case (fields lo hi n)
  show ?thesis
  proof (cases "hi - lo \<le> tol \<or> n = 0")
    case True
    with fields show ?thesis by (auto simp: search_final_def elim: bisect_step.cases)
  next
    case False
    then obtain m where n: "n = Suc m" "tol < hi - lo" by (cases n) auto
    have st: "bisect_step ok tol s (if ok ((lo + hi) / 2) then (lo, (lo + hi) / 2, m) else ((lo + hi) / 2, hi, m))"
      using n fields by (auto intro: bisect_step.intros)
    have "\<not> search_final tol s"
      using False fields by (simp add: search_final_def)
    with st show ?thesis by blast
  qed
qed

lemma bisect_run:
  "\<exists>s'. (bisect_step ok tol)\<^sup>*\<^sup>* (lo, hi, n) s' \<and> search_final tol s' \<and>
     bisect ok tol n lo hi = search_result tol s'"
proof (induction ok tol n lo hi rule: bisect.induct)
  case (1 ok tol lo hi)
  show ?case
    by (intro exI [of _ "(lo, hi, 0)"]) (simp add: search_final_def search_result_def)
next
  case (2 ok tol n lo hi)
  let ?mid = "(lo + hi) / 2"
  show ?case
  proof (cases "hi - lo \<le> tol")
    case True
    then show ?thesis
      by (intro exI [of _ "(lo, hi, Suc n)"]) (simp add: search_final_def search_result_def)
  next
    case False
    show ?thesis
    proof (cases "ok ?mid")
      case True
      then obtain s' where "(bisect_step ok tol)\<^sup>*\<^sup>* (lo, ?mid, n) s'" "search_final tol s'"
          "bisect ok tol n lo ?mid = search_result tol s'"
        using "2.IH"(1) [OF False refl] by blast
      moreover have "bisect_step ok tol (lo, hi, Suc n) (lo, ?mid, n)"
        using False True by (intro go_left) simp_all
      ultimately show ?thesis
        using False True by (intro exI [of _ s']) (auto simp: Let_def converse_rtranclp_into_rtranclp)
    next
      case ok: False
      then obtain s' where "(bisect_step ok tol)\<^sup>*\<^sup>* (?mid, hi, n) s'" "search_final tol s'"
          "bisect ok tol n ?mid hi = search_result tol s'"
        using "2.IH"(2) [OF False refl] by blast
      moreover have "bisect_step ok tol (lo, hi, Suc n) (?mid, hi, n)"
        using False ok by (intro go_right) simp_all
      ultimately show ?thesis
        using False ok by (intro exI [of _ s']) (auto simp: Let_def converse_rtranclp_into_rtranclp)
    qed
  qed
qed

lemma bisect_step_fuel: "bisect_step ok tol s s' \<Longrightarrow> snd (snd s') < snd (snd s)"
  by (induction rule: bisect_step.induct) simp_all

lemma no_infinite_run: "\<not> (\<forall>i. bisect_step ok tol (f i) (f (Suc i)))"
proof
  assume run: "\<forall>i. bisect_step ok tol (f i) (f (Suc i))"
  have "snd (snd (f i)) + i \<le> snd (snd (f 0))" for i
  proof (induction i)
    case (Suc i)
    have "snd (snd (f (Suc i))) < snd (snd (f i))"
      using run bisect_step_fuel by blast
    with Suc.IH show ?case by simp
  qed simp
  from this [of "Suc (snd (snd (f 0)))"] show False by simp
qed

lemma reaches_final: "\<exists>s'. (bisect_step ok tol)\<^sup>*\<^sup>* s s' \<and> (\<nexists>s''. bisect_step ok tol s' s'')"
proof (cases s)
  case (fields lo hi n)
  obtain s' where "(bisect_step ok tol)\<^sup>*\<^sup>* (lo, hi, n) s'" "search_final tol s'"
    using bisect_run by blast
  with fields show ?thesis
    using bisect_step_final_iff by blast
qed

lemma bracket_step:
  assumes "bisect_step ok tol s s'" "bracket ok w s"
  shows "bracket ok w s'"
  using assms
proof (induction rule: bisect_step.induct)
  case (go_left lo hi n)
  then show ?case by (auto simp: bracket_def field_simps)
next
  case (go_right lo hi n)
  then show ?case by (auto simp: bracket_def field_simps)
qed

lemma bracket_steps:
  "(bisect_step ok tol)\<^sup>*\<^sup>* s s' \<Longrightarrow> bracket ok w s \<Longrightarrow> bracket ok w s'"
  by (induction rule: rtranclp_induct) (auto intro: bracket_step)

lemma fuel_steps:
  "(bisect_step ok tol)\<^sup>*\<^sup>* s s' \<Longrightarrow> snd (snd s') \<le> snd (snd s)"
  by (induction rule: rtranclp_induct) (auto elim: bisect_step.cases)

lemma bracket_final_width:
  "bracket ok w s \<Longrightarrow> search_final tol s \<Longrightarrow> w \<le> tol \<Longrightarrow> fst (snd s) - fst s \<le> tol"
  by (auto simp: bracket_def search_final_def split: prod.splits)

lemma search_reaches_tolerance:
  assumes "bracket ok w (lo, hi, n)" "w \<le> tol"
  shows "(\<exists>s'. (bisect_step ok tol)\<^sup>*\<^sup>* (lo, hi, n) s' \<and> (\<nexists>s''. bisect_step ok tol s' s'')) \<and>
     (\<forall>s'. (bisect_step ok tol)\<^sup>*\<^sup>* (lo, hi, n) s' \<longrightarrow> (\<nexists>s''. bisect_step ok tol s' s'') \<longrightarrow>
        fst (snd s') - fst s' \<le> tol \<and> bisect ok tol n lo hi = Inr (fst (snd s')))"
proof -
  obtain sf where run: "(bisect_step ok tol)\<^sup>*\<^sup>* (lo, hi, n) sf" and fin: "search_final tol sf"
    and res: "bisect ok tol n lo hi = search_result tol sf"
    using bisect_run by blast
  have ex: "\<exists>s'. (bisect_step ok tol)\<^sup>*\<^sup>* (lo, hi, n) s' \<and> (\<nexists>s''. bisect_step ok tol s' s'')"
    using run fin bisect_step_final_iff by blast
  have "fst (snd s') - fst s' \<le> tol \<and> bisect ok tol n lo hi = Inr (fst (snd s'))"
    if r: "(bisect_step ok tol)\<^sup>*\<^sup>* (lo, hi, n) s'" and nx: "\<nexists>s''. bisect_step ok tol s' s''" for s'
  proof -
    have f': "search_final tol s'"
      using nx bisect_step_final_iff by blast
    have "s' = sf"
      using r run f' fin
    proof (induction arbitrary: sf rule: converse_rtranclp_induct)
      case base
      then show ?case
        by (metis bisect_step_final_iff converse_rtranclpE)
    next
      case (step y z)
      then show ?case
        by (metis bisect_step_det bisect_step_final_iff converse_rtranclpE)
    qed
    moreover have w: "fst (snd s') - fst s' \<le> tol"
      using bracket_final_width [OF bracket_steps [OF r assms(1)] f' assms(2)] .
    ultimately show ?thesis
      using res by (auto simp: search_result_def split: prod.splits)
  qed
  with ex show ?thesis by blast
qed

lemma bracket_steps_bounds:
  assumes "(bisect_step ok tol)\<^sup>*\<^sup>* s s'" "bracket ok w s"
  shows "fst s \<le> fst s' \<and> fst (snd s') \<le> fst (snd s)"
  using assms(1)
proof (induction rule: rtranclp_induct)
  case base
  then show ?case by simp
next
  case (step y z)
  have "bracket ok w y"
    using bracket_steps [OF step.hyps(1) assms(2)] .
  then have "fst y < fst (snd y)"
    by (auto simp: bracket_def split: prod.splits)
  with step.hyps(2) have "fst y \<le> fst z \<and> fst (snd z) \<le> fst (snd y)"
    by (cases rule: bisect_step.cases) auto
  with step.IH show ?case by auto
qed

end
