(* ===== verification/Sampling.thy ===== *)
theory Sampling
  imports Distribution "HOL-Library.Stream"
begin

text \<open>
  \<open>Distribution.sample(n)\<close> of spec section 4.1: n independent draws from a Beta
  distribution found by moment matching, rescaled to the triad's range \<open>[o, p]\<close> and
  scaled by the bias multiplier, from an injectable random source. A draw is
  \<open>alpha * (o + (p - o) * B)\<close> for a Beta variable \<open>B\<close>; its parameters are chosen so
  that the draws have the calibrated mean \<open>mean()\<close> and variance \<open>variance()\<close>
  (\<open>dist_beta_moments\<close>). The source is a stream of uniform numbers threaded through the
  calls, so that one call consumes the numbers it uses and the next call draws fresh ones;
  the Beta quantile function is a parameter, as the normal distribution is in the prelude.
  Moment matching (\<open>beta_params\<close>) is defined for a mean \<open>m\<close> in (0, 1) and a
  variance below \<open>m (1 - m)\<close>; the specification does not say what happens otherwise,
  and, following its section 7 (invalid numeric input is never silently turned into NaN),
  the model raises \<open>InvalidParameter\<close> there.
\<close>

type_synonym beta_quantile = "real \<Rightarrow> real \<Rightarrow> real \<Rightarrow> real"

definition beta_ok :: "beta_quantile \<Rightarrow> bool" where
  "beta_ok Q \<longleftrightarrow> (\<forall>a b u. 0 \<le> Q a b u \<and> Q a b u \<le> 1)"

definition beta_params :: "real \<Rightarrow> real \<Rightarrow> (real \<times> real) result" where
  "beta_params m v =
     (if 0 < m \<and> m < 1 \<and> 0 < v \<and> v < m * (1 - m)
      then let c = m * (1 - m) / v - 1 in Inr (m * c, (1 - m) * c)
      else Inl InvalidParameter)"

definition beta_mean :: "real \<Rightarrow> real \<Rightarrow> real" where
  "beta_mean a b = a / (a + b)"

definition beta_var :: "real \<Rightarrow> real \<Rightarrow> real" where
  "beta_var a b = a * b / ((a + b)\<^sup>2 * (a + b + 1))"

definition dist_beta :: "distribution \<Rightarrow> (real \<times> real) result" where
  "dist_beta d =
     (let t = dist_triad d; w = pessimistic t - optimistic t; a = dist_alpha d
      in if w \<le> 0 \<or> a \<le> 0 then Inl InvalidParameter
         else beta_params ((dist_mean d / a - optimistic t) / w) (dist_variance d / (a * w)\<^sup>2))"

definition sample ::
  "beta_quantile \<Rightarrow> distribution \<Rightarrow> nat \<Rightarrow> real stream \<Rightarrow> (real list \<times> real stream) result"
where
  "sample Q d n src =
     bind_res (dist_beta d) (\<lambda>(a, b).
       Inr (map (\<lambda>u. dist_alpha d * (optimistic (dist_triad d)
                    + (pessimistic (dist_triad d) - optimistic (dist_triad d)) * Q a b u))
                (stake n src),
            sdrop n src))"

subsection \<open>Moment matching\<close>

lemma beta_params_Inr:
  assumes "beta_params m v = Inr (a, b)"
  shows "0 < a \<and> 0 < b \<and> beta_mean a b = m \<and> beta_var a b = v"
proof -
  have m: "0 < m" "m < 1" and v: "0 < v" "v < m * (1 - m)"
    and ab: "a = m * (m * (1 - m) / v - 1)" "b = (1 - m) * (m * (1 - m) / v - 1)"
    using assms by (auto simp: beta_params_def Let_def split: if_splits)
  let ?c = "m * (1 - m) / v - 1"
  have c: "0 < ?c"
    using v by (simp add: field_simps)
  have "a + b = (m + (1 - m)) * ?c"
    unfolding ab by (rule distrib_right [symmetric])
  then have sum: "a + b = ?c" by simp
  have gen: "beta_var (m * x) ((1 - m) * x) = m * (1 - m) / (x + 1)" if "0 < x" for x
  proof -
    have sx: "m * x + (1 - m) * x = x" by (simp add: algebra_simps)
    have e: "m * x * ((1 - m) * x) = (m * (1 - m)) * x\<^sup>2" by (simp add: power2_eq_square algebra_simps)
    have "beta_var (m * x) ((1 - m) * x) = (m * (1 - m)) * x\<^sup>2 / ((x + 1) * x\<^sup>2)"
      unfolding beta_var_def sx e by (simp add: mult.commute)
    also have "\<dots> = m * (1 - m) / (x + 1)"
      using that by simp
    finally show ?thesis .
  qed
  have "beta_var a b = m * (1 - m) / (?c + 1)"
    unfolding ab by (rule gen [OF c])
  also have "\<dots> = v"
    using m v by (simp add: field_simps)
  finally show ?thesis
    using c m v ab sum by (simp add: beta_mean_def)
qed

lemma beta_params_of_moments:
  assumes "0 < a" "0 < b"
  shows "beta_params (beta_mean a b) (beta_var a b) = Inr (a, b)"
proof -
  let ?m = "beta_mean a b" and ?v = "beta_var a b"
  have m1: "1 - ?m = b / (a + b)"
    using assms by (simp add: beta_mean_def field_simps)
  have mm: "?m * (1 - ?m) = a * b / (a + b)\<^sup>2"
    unfolding m1 by (simp add: beta_mean_def power2_eq_square)
  have ratio: "?m * (1 - ?m) / ?v = a + b + 1"
    unfolding mm using assms by (simp add: beta_var_def field_simps)
  have lt: "a * b / ((a + b)\<^sup>2 * (a + b + 1)) < a * b / (a + b)\<^sup>2"
    using assms by (intro divide_strict_left_mono) (simp_all add: add_pos_pos)
  have guards: "0 < ?m" "?m < 1" "0 < ?v" "?v < ?m * (1 - ?m)"
    using assms lt unfolding mm by (simp_all add: beta_mean_def beta_var_def field_simps add_pos_pos)
  show ?thesis
    using guards assms unfolding beta_params_def Let_def ratio
    by (simp add: m1 beta_mean_def field_simps)
qed

subsection \<open>When the calibrated distribution can be sampled\<close>

lemma dist_beta_Inl: "dist_beta d = Inl e \<Longrightarrow> e = InvalidParameter"
  by (auto simp: dist_beta_def beta_params_def Let_def split: if_splits)

lemma dist_beta_moments:
  assumes "dist_beta d = Inr (a, b)"
  shows "0 < a \<and> 0 < b \<and>
     dist_alpha d * (optimistic (dist_triad d)
       + (pessimistic (dist_triad d) - optimistic (dist_triad d)) * beta_mean a b) = dist_mean d \<and>
     (dist_alpha d * (pessimistic (dist_triad d) - optimistic (dist_triad d)))\<^sup>2 * beta_var a b
       = dist_variance d"
proof -
  let ?o = "optimistic (dist_triad d)" and ?w = "pessimistic (dist_triad d) - optimistic (dist_triad d)"
  let ?al = "dist_alpha d"
  have pos: "0 < ?w" "0 < ?al"
    and bp: "beta_params ((dist_mean d / ?al - ?o) / ?w) (dist_variance d / (?al * ?w)\<^sup>2) = Inr (a, b)"
    using assms by (auto simp: dist_beta_def Let_def split: if_splits)
  have m: "0 < a \<and> 0 < b \<and> beta_mean a b = (dist_mean d / ?al - ?o) / ?w \<and>
      beta_var a b = dist_variance d / (?al * ?w)\<^sup>2"
    using beta_params_Inr [OF bp] .
  have "?al * (?o + ?w * ((dist_mean d / ?al - ?o) / ?w)) = dist_mean d"
    using pos by (simp add: field_simps)
  moreover have "(?al * ?w)\<^sup>2 * (dist_variance d / (?al * ?w)\<^sup>2) = dist_variance d"
    using pos by simp
  ultimately show ?thesis
    using m by simp
qed

lemma dist_beta_build:
  assumes t: "triad_ok t" "optimistic t < pessimistic t" and lam: "0 \<le> lam" and al: "0 < alpha_for b e"
  shows "dist_beta (build_distribution t e b delta lam) =
     beta_params ((pert_mean lam t - optimistic t) / (pessimistic t - optimistic t))
       ((pert_mean lam t - optimistic t) / (pessimistic t - optimistic t)
        * (1 - (pert_mean lam t - optimistic t) / (pessimistic t - optimistic t))
        * (1 + delta)\<^sup>2 / ((lam + 3) * (alpha_for b e)\<^sup>2))"
proof -
  let ?w = "pessimistic t - optimistic t" and ?m = "(pert_mean lam t - optimistic t) / (pessimistic t - optimistic t)"
  let ?D = "build_distribution t e b delta lam" and ?al = "alpha_for b e"
  have w: "0 < ?w" using t by simp
  have mean: "dist_mean ?D / ?al = pert_mean lam t"
    using al by (simp add: dist_mean_build)
  have var: "dist_variance ?D / (?al * ?w)\<^sup>2 = ?m * (1 - ?m) * (1 + delta)\<^sup>2 / ((lam + 3) * ?al\<^sup>2)"
    using w lam al by (simp add: dist_variance_build pert_variance_def Let_def field_simps power2_eq_square)
  have fields: "dist_triad ?D = t" "dist_alpha ?D = ?al"
    by (simp_all add: build_distribution_def)
  show ?thesis
    using w al unfolding dist_beta_def Let_def fields mean var by simp
qed

lemma dist_beta_build_ok:
  assumes t: "triad_ok t" "optimistic t < pessimistic t" and lam: "0 \<le> lam" and al: "0 < alpha_for b e"
  shows "(\<exists>ab. dist_beta (build_distribution t e b delta lam) = Inr ab) \<longleftrightarrow>
     1 + delta \<noteq> 0 \<and> (1 + delta)\<^sup>2 < (lam + 3) * (alpha_for b e)\<^sup>2"
proof -
  let ?m = "(pert_mean lam t - optimistic t) / (pessimistic t - optimistic t)"
  let ?k = "(lam + 3) * (alpha_for b e)\<^sup>2"
  have k: "0 < ?k" using lam al by simp
  have mu: "optimistic t < pert_mean lam t" "pert_mean lam t < pessimistic t"
    using pert_mean_strict [OF t(1) lam t(2)] by simp_all
  have m: "0 < ?m" "?m < 1" using mu t(2) by (simp_all add: field_simps)
  have mm: "0 < ?m * (1 - ?m)" using m by (intro mult_pos_pos) simp_all
  have gen: "0 < x \<Longrightarrow> (0 < x * (1 + delta)\<^sup>2 / ?k \<longleftrightarrow> 1 + delta \<noteq> 0) \<and>
      (x * (1 + delta)\<^sup>2 / ?k < x \<longleftrightarrow> (1 + delta)\<^sup>2 < ?k)" for x :: real
    using k by (simp add: zero_less_mult_iff zero_less_divide_iff pos_divide_less_eq)
  have pos: "0 < ?m * (1 - ?m) * (1 + delta)\<^sup>2 / ?k \<longleftrightarrow> 1 + delta \<noteq> 0"
    and below: "?m * (1 - ?m) * (1 + delta)\<^sup>2 / ?k < ?m * (1 - ?m) \<longleftrightarrow> (1 + delta)\<^sup>2 < ?k"
    using gen [OF mm] by simp_all
  show ?thesis
    unfolding dist_beta_build [OF assms] using m pos below by (auto simp: beta_params_def Let_def)
qed

subsection \<open>Sampling\<close>

lemma sample_Inr:
  "sample Q d n src = Inr (xs, rest) \<longleftrightarrow>
     (\<exists>a b. dist_beta d = Inr (a, b) \<and>
        xs = map (\<lambda>u. dist_alpha d * (optimistic (dist_triad d)
               + (pessimistic (dist_triad d) - optimistic (dist_triad d)) * Q a b u)) (stake n src) \<and>
        rest = sdrop n src)"
  by (cases "dist_beta d") (auto simp: sample_def)

lemma sample_Inl: "sample Q d n src = Inl e \<longleftrightarrow> dist_beta d = Inl e"
  by (cases "dist_beta d") (auto simp: sample_def)

lemma sample_length: "sample Q d n src = Inr (xs, rest) \<Longrightarrow> length xs = n"
  by (auto simp: sample_Inr)

lemma sample_bounds:
  assumes "beta_ok Q" "0 \<le> dist_alpha d" "optimistic (dist_triad d) \<le> pessimistic (dist_triad d)"
    and "sample Q d n src = Inr (xs, rest)" "x \<in> set xs"
  shows "dist_alpha d * optimistic (dist_triad d) \<le> x \<and> x \<le> dist_alpha d * pessimistic (dist_triad d)"
proof -
  let ?o = "optimistic (dist_triad d)" and ?p = "pessimistic (dist_triad d)"
  obtain a b where xs: "xs = map (\<lambda>u. dist_alpha d * (?o + (?p - ?o) * Q a b u)) (stake n src)"
    using assms(4) unfolding sample_Inr by blast
  obtain u where x: "x = dist_alpha d * (?o + (?p - ?o) * Q a b u)"
    using assms(5) unfolding xs set_map by (rule imageE)
  have q: "0 \<le> Q a b u" "Q a b u \<le> 1"
    using assms(1) by (simp_all add: beta_ok_def)
  have "?o \<le> ?o + (?p - ?o) * Q a b u" "?o + (?p - ?o) * Q a b u \<le> ?p"
    using q assms(3) mult_left_le [of "Q a b u" "?p - ?o"] by simp_all
  then show ?thesis
    unfolding x using assms(2) by (simp add: mult_left_mono)
qed

end
