(* ===== verification/Quickstart.thy ===== *)
theory Quickstart
  imports Engine Search Sampling
begin

text \<open>
  The script \<open>src/examples/quickstart.py\<close>, statement by statement. Each top-level
  assignment is a definition of result type, since any call may raise and stop the
  script; later statements bind the earlier ones in the script's order. The printing
  loops become the lists of values they print: \<open>moment_lines\<close> for the loop over
  \<open>enumerate(zip(mus, vars_), start=1)\<close> (whose \<open>math.sqrt\<close> raises on a negative
  variance), \<open>report_commit\<close> (two nested loops over \<open>commit_row\<close>) and
  \<open>report_success\<close> (one loop over \<open>success_row\<close>) for the two report functions,
  which read the module-level \<open>engine\<close> and \<open>days\<close> and so take them as arguments
  here. The normal distribution \<open>N\<close> is the library's (see the prelude); the call
  \<open>dist.sample(n=5)\<close> draws from an injected stream \<open>src\<close> of uniform numbers with a
  Beta quantile function \<open>Q\<close> (theory \<open>Sampling\<close>). \<open>quickstart_run\<close> runs the
  whole script and records what it prints before the first exception.
\<close>

definition quickstart_obs :: "bias_observation list result" where
  "quickstart_obs = map_res id
     [mk_observation ''e1'' 6 9 (Some 4) (Some 6) (Some 18),
      mk_observation ''e1'' 8 24 (Some 6) (Some 8) (Some 14),
      mk_observation ''e2'' 3 2.5 (Some 2) (Some 3) (Some 5),
      mk_observation ''e2'' 4 3.2 None None None,
      mk_observation ''e1'' 8.0 10.2 (Some 6.0) (Some 8.0) (Some 12.0),
      mk_observation ''e2'' 6.0 5.1 (Some 5.0) (Some 6.0) (Some 9.0)]"

definition quickstart_cal :: calibrator where
  "quickstart_cal = default_calibrator 4.0"

definition quickstart_bias :: "bias_model result" where
  "quickstart_bias = bind_res quickstart_obs (fit_bias quickstart_cal)"

definition quickstart_delta_b :: "std_normal \<Rightarrow> real result" where
  "quickstart_delta_b N =
     bind_res quickstart_obs (\<lambda>obs. bind_res quickstart_bias (\<lambda>b.
       fit_delta_b N quickstart_cal obs b 0.9))"

definition quickstart_engine :: "std_normal \<Rightarrow> commit_capacity_engine result" where
  "quickstart_engine N =
     bind_res quickstart_bias (\<lambda>b. bind_res (quickstart_delta_b N) (\<lambda>d.
       Inr \<lparr>eng_calibrator = quickstart_cal, eng_bias = b, eng_delta_b = d\<rparr>))"

definition quickstart_triad :: "three_point_estimate result" where
  "quickstart_triad = mk_triad 5 8 14"

definition quickstart_dist :: "std_normal \<Rightarrow> distribution result" where
  "quickstart_dist N =
     bind_res quickstart_bias (\<lambda>b. bind_res (quickstart_delta_b N) (\<lambda>d.
       bind_res quickstart_triad (\<lambda>t. Inr (cal_build_distribution quickstart_cal t ''e1'' b d))))"

definition quickstart_summary :: "std_normal \<Rightarrow> (real \<times> real \<times> real \<times> real \<times> real) result" where
  "quickstart_summary N =
     bind_res quickstart_bias (\<lambda>b. bind_res (quickstart_delta_b N) (\<lambda>d.
       bind_res (quickstart_dist N) (\<lambda>D.
         Inr (alpha_for b ''e1'', alpha_for b ''e2'', d, dist_mean D, dist_variance D))))"

definition quickstart_samples :: "std_normal \<Rightarrow> beta_quantile \<Rightarrow> real stream \<Rightarrow> real list result" where
  "quickstart_samples N Q src =
     bind_res (quickstart_dist N) (\<lambda>D. bind_res (sample Q D 5 src) (\<lambda>(xs, rest). Inr xs))"

definition quickstart_day1 :: "daily_inputs result" where
  "quickstart_day1 =
     bind_res (mk_triad 0.8 1.0 1.3) (\<lambda>t1. bind_res (mk_triad 0.7 0.9 1.2) (\<lambda>t2.
       Inr \<lparr>h_by_engineer = [(''e1'', 6.0), (''e2'', 7.5)],
            q_by_engineer = [(''e1'', 0.95), (''e2'', 0.90)],
            triad_by_engineer = [(''e1'', t1), (''e2'', t2)],
            corr_by_pair = Some [((''e1'', ''e2''), 0.25)]\<rparr>))"

definition quickstart_day2 :: "daily_inputs result" where
  "quickstart_day2 =
     bind_res (mk_triad 0.7 0.95 1.25) (\<lambda>t1. bind_res (mk_triad 0.65 0.9 1.2) (\<lambda>t2.
       Inr \<lparr>h_by_engineer = [(''e1'', 6.0), (''e2'', 7.5)],
            q_by_engineer = [(''e1'', 0.90), (''e2'', 0.85)],
            triad_by_engineer = [(''e1'', t1), (''e2'', t2)],
            corr_by_pair = None\<rparr>))"

definition quickstart_days :: "daily_inputs list result" where
  "quickstart_days =
     bind_res quickstart_day1 (\<lambda>d1. bind_res quickstart_day2 (\<lambda>d2. Inr [d1, d2]))"

definition quickstart_moments :: "std_normal \<Rightarrow> (real list \<times> real list) result" where
  "quickstart_moments N =
     bind_res (quickstart_engine N) (\<lambda>eng. bind_res quickstart_days (\<lambda>ds.
       daily_schedule_moments eng ds))"

fun moment_lines :: "nat \<Rightarrow> real list \<Rightarrow> real list \<Rightarrow> (nat \<times> real \<times> real \<times> real) list result" where
  "moment_lines k (m # ms) (v # vs) =
     (if v < 0 then Inl MathDomainError
      else bind_res (moment_lines (Suc k) ms vs) (\<lambda>ls. Inr ((k, m, v, sqrt v) # ls)))"
| "moment_lines k _ _ = Inr []"

definition quickstart_moment_report :: "std_normal \<Rightarrow> (nat \<times> real \<times> real \<times> real) list result" where
  "quickstart_moment_report N =
     bind_res (quickstart_moments N) (\<lambda>(mus, vs). moment_lines 1 mus vs)"

definition commit_row ::
  "std_normal \<Rightarrow> commit_capacity_engine \<Rightarrow> daily_inputs list \<Rightarrow> nat \<Rightarrow> real \<Rightarrow>
     (nat \<times> real \<times> real) result"
where
  "commit_row N engine days t_val a =
     bind_res (commit_capacity N engine days t_val a) (\<lambda>c. Inr (t_val, a, c))"

definition report_commit ::
  "std_normal \<Rightarrow> commit_capacity_engine \<Rightarrow> daily_inputs list \<Rightarrow> nat list \<Rightarrow> real list \<Rightarrow>
     (nat \<times> real \<times> real) list result"
where
  "report_commit N engine days t_values alphas =
     bind_res (map_res (\<lambda>t_val. map_res (commit_row N engine days t_val) alphas) t_values)
       (\<lambda>rows. Inr (concat rows))"

text \<open>\<open>achieved.get(t_val, 0.0)\<close> on a dict built from a literal: a later key wins.\<close>

definition dict_get :: "('k \<times> 'v) list \<Rightarrow> 'k \<Rightarrow> 'v \<Rightarrow> 'v" where
  "dict_get d k dflt = (case map_of (rev d) k of None \<Rightarrow> dflt | Some x \<Rightarrow> x)"

definition success_row ::
  "std_normal \<Rightarrow> commit_capacity_engine \<Rightarrow> daily_inputs list \<Rightarrow> real \<Rightarrow>
     (nat \<times> real) list \<Rightarrow> nat \<Rightarrow> (nat \<times> real \<times> real) result"
where
  "success_row N engine days workload achieved t_val =
     (let a = dict_get achieved t_val 0
      in bind_res (probability_of_success N engine days t_val workload a) (\<lambda>p. Inr (t_val, a, p)))"

definition report_success ::
  "std_normal \<Rightarrow> commit_capacity_engine \<Rightarrow> daily_inputs list \<Rightarrow> nat list \<Rightarrow> real \<Rightarrow>
     (nat \<times> real) list \<Rightarrow> (nat \<times> real \<times> real) list result"
where
  "report_success N engine days t_values workload achieved =
     map_res (success_row N engine days workload achieved) t_values"

definition quickstart_commit_report :: "std_normal \<Rightarrow> (nat \<times> real \<times> real) list result" where
  "quickstart_commit_report N =
     bind_res (quickstart_engine N) (\<lambda>eng. bind_res quickstart_days (\<lambda>ds.
       report_commit N eng ds [0, 1, 2] [0.10, 0.20, 0.05]))"

definition quickstart_success_report :: "std_normal \<Rightarrow> (nat \<times> real \<times> real) list result" where
  "quickstart_success_report N =
     bind_res (quickstart_engine N) (\<lambda>eng. bind_res quickstart_days (\<lambda>ds.
       report_success N eng ds [0, 1] 20.0 [(0, 0.0), (1, 13.0)]))"


text \<open>The script as a whole: its statements run top to bottom and the first exception
  stops it, after the output of the statements before it has been printed. The printed
  groups are the events; each report is one event, as no row of the script's reports
  raises on its own.\<close>

datatype script_event =
    Summary "real \<times> real \<times> real \<times> real \<times> real"
  | Samples "real list"
  | MomentLines "(nat \<times> real \<times> real \<times> real) list"
  | CommitRows "(nat \<times> real \<times> real) list"
  | SuccessRows "(nat \<times> real \<times> real) list"

fun run_prints :: "script_event result list \<Rightarrow> script_event list \<times> forecast_error option" where
  "run_prints [] = ([], None)"
| "run_prints (Inl e # _) = ([], Some e)"
| "run_prints (Inr v # rs) = (case run_prints rs of (evs, err) \<Rightarrow> (v # evs, err))"

definition quickstart_run :: "std_normal \<Rightarrow> beta_quantile \<Rightarrow> real stream \<Rightarrow> script_event list \<times> forecast_error option" where
  "quickstart_run N Q src =
     run_prints
       [map_sum id Summary (quickstart_summary N),
        map_sum id Samples (quickstart_samples N Q src),
        map_sum id MomentLines (quickstart_moment_report N),
        map_sum id CommitRows (quickstart_commit_report N),
        map_sum id SuccessRows (quickstart_success_report N)]"

subsection \<open>The script's values\<close>

lemma quickstart_obs_eval:
  "quickstart_obs = Inr
     [\<lparr>engineer = ''e1'', modal_estimate_hours = 6, actual_hours = 9,
        obs_triad = Some \<lparr>optimistic = 4, most_likely = 6, pessimistic = 18\<rparr>\<rparr>,
      \<lparr>engineer = ''e1'', modal_estimate_hours = 8, actual_hours = 24,
        obs_triad = Some \<lparr>optimistic = 6, most_likely = 8, pessimistic = 14\<rparr>\<rparr>,
      \<lparr>engineer = ''e2'', modal_estimate_hours = 3, actual_hours = 2.5,
        obs_triad = Some \<lparr>optimistic = 2, most_likely = 3, pessimistic = 5\<rparr>\<rparr>,
      \<lparr>engineer = ''e2'', modal_estimate_hours = 4, actual_hours = 3.2, obs_triad = None\<rparr>,
      \<lparr>engineer = ''e1'', modal_estimate_hours = 8, actual_hours = 10.2,
        obs_triad = Some \<lparr>optimistic = 6, most_likely = 8, pessimistic = 12\<rparr>\<rparr>,
      \<lparr>engineer = ''e2'', modal_estimate_hours = 6, actual_hours = 5.1,
        obs_triad = Some \<lparr>optimistic = 5, most_likely = 6, pessimistic = 9\<rparr>\<rparr>]"
  by (simp add: quickstart_obs_def forecast_eval)

lemma quickstart_within_sd_max:
  "list_all (within_sd quickstart_cal (mean_ratio (projr quickstart_obs)) delta_b_max)
     (triad_observations (projr quickstart_obs))"
  by (simp add: quickstart_obs_eval triad_observations_def within_sd_def
                cal_build_distribution_def dist_mean_build dist_variance_build
                pert_mean_def pert_variance_def quickstart_cal_def default_calibrator_def
                delta_b_max_def alpha_for_def mean_ratio_def ratios_of_def power2_eq_square)

lemma quickstart_coverage_max:
  assumes "1 \<le> z"
  shows "coverage quickstart_cal (projr quickstart_obs) (mean_ratio (projr quickstart_obs)) z delta_b_max = 1"
proof -
  let ?obs = "projr quickstart_obs"
  let ?b = "mean_ratio ?obs"
  have "filter (obs_covered quickstart_cal ?b z delta_b_max) (triad_observations ?obs)
      = triad_observations ?obs"
    using quickstart_within_sd_max within_sd_covered [OF _ assms]
    by (simp add: list_all_iff)
  then show ?thesis
    by (simp add: coverage_def Let_def quickstart_obs_eval triad_observations_def)
qed

lemma quickstart_days_eval:
  "quickstart_days = Inr
     [\<lparr>h_by_engineer = [(''e1'', 6.0), (''e2'', 7.5)],
       q_by_engineer = [(''e1'', 0.95), (''e2'', 0.90)],
       triad_by_engineer = [(''e1'', \<lparr>optimistic = 0.8, most_likely = 1.0, pessimistic = 1.3\<rparr>),
                            (''e2'', \<lparr>optimistic = 0.7, most_likely = 0.9, pessimistic = 1.2\<rparr>)],
       corr_by_pair = Some [((''e1'', ''e2''), 0.25)]\<rparr>,
      \<lparr>h_by_engineer = [(''e1'', 6.0), (''e2'', 7.5)],
       q_by_engineer = [(''e1'', 0.90), (''e2'', 0.85)],
       triad_by_engineer = [(''e1'', \<lparr>optimistic = 0.7, most_likely = 0.95, pessimistic = 1.25\<rparr>),
                            (''e2'', \<lparr>optimistic = 0.65, most_likely = 0.9, pessimistic = 1.2\<rparr>)],
       corr_by_pair = None\<rparr>]"
  by (simp add: quickstart_days_def quickstart_day1_def quickstart_day2_def mk_triad_def)

lemma quickstart_day1_moments:
  assumes "eng_calibrator eng = quickstart_cal" "-1 \<le> eng_delta_b eng"
  shows "day_moments eng (hd (projr quickstart_days)) =
    Inr (5.7 * (6.1 / 6) * alpha_for (eng_bias eng) ''e1'' + 6.75 * (5.5 / 6) * alpha_for (eng_bias eng) ''e2'',
         (1 + eng_delta_b eng)\<^sup>2 * (221 / 25200) * (5.7\<^sup>2 + 6.75\<^sup>2 + 2 * 0.25 * 5.7 * 6.75))"
proof -
  let ?d = "hd (projr quickstart_days)"
  have rows: "day_rows ?d = Inr [(''e1'', 6.0, 0.95, \<lparr>optimistic = 0.8, most_likely = 1.0, pessimistic = 1.3\<rparr>),
                                (''e2'', 7.5, 0.90, \<lparr>optimistic = 0.7, most_likely = 0.9, pessimistic = 1.2\<rparr>)]"
    by (simp add: quickstart_days_eval day_rows_def)
  have rho: "corr_lookup ?d ''e1'' ''e2'' = 0.25"
    by (simp add: quickstart_days_eval corr_lookup_def corr_table_def corr_insert_def)
  have sq: "safe_sqrt (221 / 25200) * safe_sqrt (221 / 25200) = 221 / 25200"
    by (simp add: safe_sqrt_square)
  show ?thesis
    using day_moments_two_engineers [OF rows _ _ assms(2)] assms(1)
    by (simp add: quickstart_cal_def default_calibrator_def pert_variance_def pert_mean_def rho)
       (simp add: sq algebra_simps power2_eq_square)
qed


subsection \<open>The script's fitted parameters and inputs\<close>

lemma quickstart_bias_eval: "quickstart_bias = Inr (mean_ratio (projr quickstart_obs))"
  by (simp add: quickstart_bias_def quickstart_obs_eval fit_bias_refines)

lemma quickstart_alphas:
  "alpha_for (mean_ratio (projr quickstart_obs)) ''e1'' = 1.925"
  "alpha_for (mean_ratio (projr quickstart_obs)) ''e2'' = 149 / 180"
  "e \<noteq> ''e1'' \<Longrightarrow> e \<noteq> ''e2'' \<Longrightarrow> alpha_for (mean_ratio (projr quickstart_obs)) e = 1"
  by (auto simp: quickstart_obs_eval alpha_for_def mean_ratio_def ratios_of_def)

lemma quickstart_delta_b_eq:
  "quickstart_delta_b N =
     fit_delta_b N quickstart_cal (projr quickstart_obs) (mean_ratio (projr quickstart_obs)) 0.9"
  by (simp add: quickstart_delta_b_def quickstart_bias_eval quickstart_obs_eval)

lemma quickstart_delta_b_exists:
  assumes "1 \<le> inv_cdf N 0.95"
  shows "\<exists>d. quickstart_delta_b N = Inr d"
proof -
  have "inv_cdf N ((1 + 0.9) / 2) = inv_cdf N 0.95" by simp
  then have "coverage quickstart_cal (projr quickstart_obs) (mean_ratio (projr quickstart_obs))
      (inv_cdf N ((1 + 0.9) / 2)) delta_b_max = 1"
    using quickstart_coverage_max assms by simp
  then show ?thesis
    unfolding quickstart_delta_b_eq by (subst fit_delta_b_total) simp
qed

lemma quickstart_delta_b_Inr:
  "quickstart_delta_b N = Inr d \<Longrightarrow>
     0 \<le> d \<and> d \<le> 10 \<and>
     0.9 \<le> coverage quickstart_cal (projr quickstart_obs) (mean_ratio (projr quickstart_obs)) (inv_cdf N 0.95) d"
  using fit_delta_b_sound [of N quickstart_cal "projr quickstart_obs" "mean_ratio (projr quickstart_obs)" "0.9" d]
  by (simp add: quickstart_delta_b_eq delta_b_max_def)

lemma quickstart_engine_Inr:
  "quickstart_engine N = Inr eng \<longleftrightarrow>
     (\<exists>d. quickstart_delta_b N = Inr d \<and>
        eng = \<lparr>eng_calibrator = quickstart_cal, eng_bias = mean_ratio (projr quickstart_obs),
               eng_delta_b = d\<rparr>)"
  by (cases "quickstart_delta_b N") (auto simp: quickstart_engine_def quickstart_bias_eval)

lemma quickstart_engine_exists:
  "1 \<le> inv_cdf N 0.95 \<Longrightarrow> \<exists>eng. quickstart_engine N = Inr eng"
  using quickstart_delta_b_exists quickstart_engine_Inr by blast

lemma quickstart_engine_fields:
  "quickstart_engine N = Inr eng \<Longrightarrow>
     eng_calibrator eng = quickstart_cal \<and> eng_bias eng = mean_ratio (projr quickstart_obs) \<and>
     0 \<le> eng_delta_b eng \<and> eng_delta_b eng \<le> 10"
  by (auto simp: quickstart_engine_Inr dest: quickstart_delta_b_Inr)

lemma quickstart_days_ok:
  "list_all day_ok (projr quickstart_days)"
  by (simp add: quickstart_days_eval day_ok_def triad_ok_def)

lemma quickstart_days_corr_nonneg:
  "d \<in> set (projr quickstart_days) \<Longrightarrow> 0 \<le> corr_lookup d i j"
  by (auto simp: quickstart_days_eval intro!: corr_lookup_nonneg)

lemma quickstart_day_rows:
  "d \<in> set (projr quickstart_days) \<Longrightarrow> \<exists>rows. day_rows d = Inr rows"
  by (auto simp: quickstart_days_eval day_rows_Inr_iff)

lemma quickstart_schedule_moments:
  "\<exists>mus vs. daily_schedule_moments eng (projr quickstart_days) = Inr (mus, vs)"
proof (rule daily_schedule_moments_exists)
  fix d assume "d \<in> set (projr quickstart_days)"
  then obtain rows where "day_rows d = Inr rows" using quickstart_day_rows by blast
  then show "\<exists>m. day_moments eng d = Inr m" by (simp add: day_moments_def Let_def)
qed

subsection \<open>The calibrated distribution of the example triad\<close>

lemma quickstart_triad_eval:
  "quickstart_triad = Inr \<lparr>optimistic = 5, most_likely = 8, pessimistic = 14\<rparr>"
  by (simp add: quickstart_triad_def mk_triad_def)

lemma quickstart_dist_Inr:
  "quickstart_delta_b N = Inr d \<Longrightarrow>
     quickstart_dist N = Inr (cal_build_distribution quickstart_cal
       \<lparr>optimistic = 5, most_likely = 8, pessimistic = 14\<rparr> ''e1'' (mean_ratio (projr quickstart_obs)) d)"
  by (simp add: quickstart_dist_def quickstart_bias_eval quickstart_triad_eval)

lemma quickstart_dist_Inr_iff:
  "quickstart_dist N = Inr D \<longleftrightarrow>
     (\<exists>d. quickstart_delta_b N = Inr d \<and> D = cal_build_distribution quickstart_cal
       \<lparr>optimistic = 5, most_likely = 8, pessimistic = 14\<rparr> ''e1'' (mean_ratio (projr quickstart_obs)) d)"
  by (cases "quickstart_delta_b N")
     (auto simp: quickstart_dist_def quickstart_bias_eval quickstart_triad_eval)

lemma quickstart_dist_moments:
  "dist_mean (cal_build_distribution quickstart_cal
     \<lparr>optimistic = 5, most_likely = 8, pessimistic = 14\<rparr> ''e1'' (mean_ratio (projr quickstart_obs)) d)
     = 16.3625"
  "dist_variance (cal_build_distribution quickstart_cal
     \<lparr>optimistic = 5, most_likely = 8, pessimistic = 14\<rparr> ''e1'' (mean_ratio (projr quickstart_obs)) d)
     = 2.75 * (1 + d)\<^sup>2"
  by (simp_all add: cal_build_distribution_def dist_mean_build dist_variance_build quickstart_alphas
                    pert_mean_def pert_variance_def quickstart_cal_def default_calibrator_def)

lemma quickstart_summary_Inr:
  "quickstart_delta_b N = Inr d \<Longrightarrow>
     quickstart_summary N = Inr (1.925, 149 / 180, d, 16.3625, 2.75 * (1 + d)\<^sup>2)"
  by (simp add: quickstart_summary_def quickstart_bias_eval quickstart_dist_Inr quickstart_alphas
                quickstart_dist_moments)

subsection \<open>The schedule of the script\<close>


lemma quickstart_day2_moments:
  assumes "eng_calibrator eng = quickstart_cal" "-1 \<le> eng_delta_b eng"
  shows "day_moments eng (projr quickstart_days ! 1) =
    Inr (5.4 * (5.75 / 6) * alpha_for (eng_bias eng) ''e1'' + 6.375 * (5.45 / 6) * alpha_for (eng_bias eng) ''e2'',
         (1 + eng_delta_b eng)\<^sup>2 * (31 / 2880) * (5.4\<^sup>2 + 6.375\<^sup>2))"
proof -
  let ?d = "projr quickstart_days ! 1"
  have rows: "day_rows ?d = Inr [(''e1'', 6.0, 0.90, \<lparr>optimistic = 0.7, most_likely = 0.95, pessimistic = 1.25\<rparr>),
                                (''e2'', 7.5, 0.85, \<lparr>optimistic = 0.65, most_likely = 0.9, pessimistic = 1.2\<rparr>)]"
    by (simp add: quickstart_days_eval day_rows_def)
  have rho: "corr_lookup ?d ''e1'' ''e2'' = 0"
    by (simp add: quickstart_days_eval corr_lookup_def)
  show ?thesis
    using day_moments_two_engineers [OF rows _ _ assms(2)] assms(1) unfolding rho
    by (simp add: quickstart_cal_def default_calibrator_def pert_variance_def pert_mean_def)
qed

lemma quickstart_schedule_Inr:
  assumes "quickstart_engine N = Inr eng"
  shows "daily_schedule_moments eng (projr quickstart_days) =
     Inr ([65109 / 4000, 849901 / 57600],
          [(1 + eng_delta_b eng)\<^sup>2 * (238901 / 280000), (1 + eng_delta_b eng)\<^sup>2 * (384679 / 512000)])"
proof -
  let ?d1 = "hd (projr quickstart_days)" and ?d2 = "projr quickstart_days ! 1"
  have f: "eng_calibrator eng = quickstart_cal" "eng_bias eng = mean_ratio (projr quickstart_obs)"
      "-1 \<le> eng_delta_b eng"
    using quickstart_engine_fields [OF assms] by simp_all
  have ds: "quickstart_days = Inr [?d1, ?d2]"
    by (simp add: quickstart_days_eval)
  have a1: "5.7 * (6.1 / 6) * 1.925 + 6.75 * (5.5 / 6) * (149 / 180) = (65109 / 4000 :: real)"
    and a2: "5.4 * (5.75 / 6) * 1.925 + 6.375 * (5.45 / 6) * (149 / 180) = (849901 / 57600 :: real)"
    by simp_all
  have c1: "\<And>x. x * (221 / 25200) * (5.7\<^sup>2 + 6.75\<^sup>2 + 2 * 0.25 * 5.7 * 6.75) = x * (238901 / 280000 :: real)"
    and c2: "\<And>x. x * (31 / 2880) * (5.4\<^sup>2 + 6.375\<^sup>2) = x * (384679 / 512000 :: real)"
    by (simp_all add: power2_eq_square)
  have m1: "day_moments eng ?d1 = Inr (65109 / 4000, (1 + eng_delta_b eng)\<^sup>2 * (238901 / 280000))"
    using quickstart_day1_moments [OF f(1,3)] unfolding f(2) quickstart_alphas a1 c1 .
  have m2: "day_moments eng ?d2 = Inr (849901 / 57600, (1 + eng_delta_b eng)\<^sup>2 * (384679 / 512000))"
    using quickstart_day2_moments [OF f(1,3)] unfolding f(2) quickstart_alphas a2 c2 .
  show ?thesis
    by (subst ds) (simp add: daily_schedule_moments_def m1 m2 del: One_nat_def)
qed

subsection \<open>The two reports\<close>

lemma commit_row_Inr:
  "daily_schedule_moments eng days = Inr (mus, vs) \<Longrightarrow> 0 < a \<Longrightarrow> a < 1 \<Longrightarrow>
     commit_row N eng days t a =
       Inr (t, a, sum_list (take t mus) - inv_cdf N (1 - a) * safe_sqrt (sum_list (take t vs)))"
  by (simp add: commit_row_def commit_capacity_def)

lemma report_commit_Inr:
  assumes "daily_schedule_moments eng days = Inr (mus, vs)" "\<forall>a \<in> set alphas. 0 < a \<and> a < 1"
  shows "report_commit N eng days ts alphas =
     Inr (concat (map (\<lambda>t. map (\<lambda>a. (t, a, sum_list (take t mus)
            - inv_cdf N (1 - a) * safe_sqrt (sum_list (take t vs)))) alphas) ts))"
proof -
  have "map_res (commit_row N eng days t) alphas =
      Inr (map (\<lambda>a. (t, a, sum_list (take t mus) - inv_cdf N (1 - a) * safe_sqrt (sum_list (take t vs))))
             alphas)" for t
    using assms by (intro map_res_map) (simp add: commit_row_Inr)
  then show ?thesis
    by (simp add: report_commit_def map_res_map)
qed

lemma success_row_Inr:
  "daily_schedule_moments eng days = Inr (mus, vs) \<Longrightarrow> 0 \<le> W \<Longrightarrow>
     success_row N eng days W ach t =
       Inr (t, dict_get ach t 0,
            if W - dict_get ach t 0 \<le> 0 then 1
            else success_tail N (drop t mus) (drop t vs) (W - dict_get ach t 0))"
  by (simp add: success_row_def probability_of_success_eq Let_def)

lemma report_success_Inr:
  "daily_schedule_moments eng days = Inr (mus, vs) \<Longrightarrow> 0 \<le> W \<Longrightarrow>
     report_success N eng days ts W ach =
       Inr (map (\<lambda>t. (t, dict_get ach t 0,
            if W - dict_get ach t 0 \<le> 0 then 1
            else success_tail N (drop t mus) (drop t vs) (W - dict_get ach t 0))) ts)"
  unfolding report_success_def by (intro map_res_map) (simp add: success_row_Inr)


lemma report_commit_two_days:
  assumes "daily_schedule_moments eng days = Inr ([m1, m2], [s\<^sup>2 * c1, s\<^sup>2 * c2])"
    and "0 \<le> s" "0 \<le> c1" "0 \<le> c2" "\<forall>a \<in> set [a1, a2, a3]. 0 < a \<and> a < 1"
  shows "report_commit N eng days [0, 1, 2] [a1, a2, a3] =
     Inr [(0, a1, 0), (0, a2, 0), (0, a3, 0),
          (1, a1, m1 - inv_cdf N (1 - a1) * (s * sqrt c1)),
          (1, a2, m1 - inv_cdf N (1 - a2) * (s * sqrt c1)),
          (1, a3, m1 - inv_cdf N (1 - a3) * (s * sqrt c1)),
          (2, a1, m1 + m2 - inv_cdf N (1 - a1) * (s * sqrt (c1 + c2))),
          (2, a2, m1 + m2 - inv_cdf N (1 - a2) * (s * sqrt (c1 + c2))),
          (2, a3, m1 + m2 - inv_cdf N (1 - a3) * (s * sqrt (c1 + c2)))]"
proof -
  have "safe_sqrt 0 = 0" by (simp add: safe_sqrt_of_nonpos)
  then show ?thesis
    using report_commit_Inr [OF assms(1,5), of N "[0, 1, 2]"] assms(2-4)
    by (simp add: safe_sqrt_scaled safe_sqrt_scaled_sum)
qed

lemma report_success_two_days:
  assumes "daily_schedule_moments eng days = Inr ([m1, m2], [s\<^sup>2 * c1, s\<^sup>2 * c2])"
    and "0 < s" "0 < c1" "0 < c2" "0 \<le> W" "dict_get ach 0 0 < W" "dict_get ach 1 0 < W"
  shows "report_success N eng days [0, 1] W ach =
     Inr [(0, dict_get ach 0 0, 1 - cdf N ((W - dict_get ach 0 0 - (m1 + m2)) / (s * sqrt (c1 + c2)))),
          (1, dict_get ach 1 0, 1 - cdf N ((W - dict_get ach 1 0 - m2) / (s * sqrt c2)))]"
proof -
  have "safe_sqrt (s\<^sup>2 * c1 + s\<^sup>2 * c2) = s * sqrt (c1 + c2)" "safe_sqrt (s\<^sup>2 * c2) = s * sqrt c2"
    using assms(2-4) by (simp_all add: safe_sqrt_scaled safe_sqrt_scaled_sum)
  moreover have "s * sqrt (c1 + c2) \<noteq> 0" "s * sqrt c2 \<noteq> 0"
    using assms(2-4) by simp_all
  ultimately show ?thesis
    using report_success_Inr [OF assms(1,5), of N "[0, 1]" ach] assms(6,7)
    by (simp add: success_tail_def Let_def diff_diff_eq)
qed

subsection \<open>The reports as lists\<close>

lemma mem_concat_rows:
  "(t, a, c) \<in> set (concat (map (\<lambda>t. map (\<lambda>a. (t, a, f t a)) as) ts)) \<Longrightarrow> c = f t a"
  by auto

lemma quickstart_commit_report_eq:
  assumes "quickstart_engine N = Inr eng" "daily_schedule_moments eng (projr quickstart_days) = Inr (mus, vs)"
  shows "quickstart_commit_report N =
     Inr (concat (map (\<lambda>t. map (\<lambda>a. (t, a, sum_list (take t mus)
            - inv_cdf N (1 - a) * safe_sqrt (sum_list (take t vs)))) [0.10, 0.20, 0.05]) [0, 1, 2]))"
proof -
  have "quickstart_commit_report N = report_commit N eng (projr quickstart_days) [0, 1, 2] [0.10, 0.20, 0.05]"
    by (simp add: quickstart_commit_report_def assms(1) quickstart_days_eval)
  also have "\<dots> = Inr (concat (map (\<lambda>t. map (\<lambda>a. (t, a, sum_list (take t mus)
            - inv_cdf N (1 - a) * safe_sqrt (sum_list (take t vs)))) [0.10, 0.20, 0.05]) [0, 1, 2]))"
    by (rule report_commit_Inr [OF assms(2)]) simp
  finally show ?thesis .
qed

lemma quickstart_commit_report_engine:
  "quickstart_commit_report N = Inr rows \<Longrightarrow> \<exists>eng. quickstart_engine N = Inr eng"
  by (cases "quickstart_engine N") (simp_all add: quickstart_commit_report_def)

lemma quickstart_success_report_eq:
  assumes "quickstart_engine N = Inr eng" "daily_schedule_moments eng (projr quickstart_days) = Inr (mus, vs)"
  shows "quickstart_success_report N =
     Inr (map (\<lambda>t. (t, dict_get [(0::nat, 0::real), (1, 13)] t 0,
            if 20 - dict_get [(0::nat, 0::real), (1, 13)] t 0 \<le> 0 then 1
            else success_tail N (drop t mus) (drop t vs) (20 - dict_get [(0::nat, 0::real), (1, 13)] t 0))) [0, 1])"
proof -
  have "quickstart_success_report N = report_success N eng (projr quickstart_days) [0, 1] 20 [(0, 0), (1, 13)]"
    by (simp add: quickstart_success_report_def assms(1) quickstart_days_eval)
  also have "\<dots> = Inr (map (\<lambda>t. (t, dict_get [(0::nat, 0::real), (1, 13)] t 0,
            if 20 - dict_get [(0::nat, 0::real), (1, 13)] t 0 \<le> 0 then 1
            else success_tail N (drop t mus) (drop t vs) (20 - dict_get [(0::nat, 0::real), (1, 13)] t 0))) [0, 1])"
    by (rule report_success_Inr [OF assms(2)]) simp
  finally show ?thesis .
qed

lemma quickstart_success_report_engine:
  "quickstart_success_report N = Inr rows \<Longrightarrow> \<exists>eng. quickstart_engine N = Inr eng"
  by (cases "quickstart_engine N") (simp_all add: quickstart_success_report_def)

subsection \<open>Sampling the example distribution\<close>

lemma quickstart_ob4_covered_bound:
  assumes z: "0 \<le> z" and d: "0 \<le> d"
    and cov: "obs_covered quickstart_cal (mean_ratio (projr quickstart_obs)) z d
       \<lparr>engineer = ''e1'', modal_estimate_hours = 8, actual_hours = 10.2,
        obs_triad = Some \<lparr>optimistic = 6, most_likely = 8, pessimistic = 12\<rparr>\<rparr>"
  shows "4422609 / 158400 \<le> z\<^sup>2 * (1 + d)\<^sup>2"
proof -
  let ?sd = "(1 + d) * sqrt (11 / 9)"
  have sd: "safe_sqrt ((1 + d)\<^sup>2 * (11 / 9)) = ?sd"
    using d by (intro safe_sqrt_scaled) simp_all
  have "385 / 24 - z * safe_sqrt ((1 + d)\<^sup>2 * (11 / 9)) \<le> 10.2"
    using cov by (simp add: obs_covered_def Let_def cal_build_distribution_def dist_mean_build
                   dist_variance_build quickstart_alphas pert_mean_def pert_variance_def
                   quickstart_cal_def default_calibrator_def mult.commute)
  then have le: "701 / 120 \<le> z * ?sd"
    unfolding sd by simp
  have "(701 / 120)\<^sup>2 \<le> (z * ?sd)\<^sup>2"
    using le by (intro power_mono) simp_all
  also have "\<dots> = z\<^sup>2 * (1 + d)\<^sup>2 * (11 / 9)"
    by (simp add: power_mult_distrib)
  finally have "(701 / 120)\<^sup>2 \<le> z\<^sup>2 * (1 + d)\<^sup>2 * (11 / 9)" .
  moreover have "(701 / 120 :: real)\<^sup>2 = 491401 / 14400"
    by (simp add: power2_eq_square)
  ultimately show ?thesis by linarith
qed

lemma quickstart_coverage_all:
  assumes "0.9 \<le> coverage quickstart_cal (projr quickstart_obs) b z d"
    and "ob \<in> set (triad_observations (projr quickstart_obs))"
  shows "obs_covered quickstart_cal b z d ob"
proof (rule ccontr)
  let ?pts = "triad_observations (projr quickstart_obs)"
  assume "\<not> obs_covered quickstart_cal b z d ob"
  then have lt: "length (filter (obs_covered quickstart_cal b z d) ?pts) < length ?pts"
    using assms(2) by (intro length_filter_less)
  have l: "length ?pts = 5"
    by (simp add: quickstart_obs_eval triad_observations_def)
  have "real (length (filter (obs_covered quickstart_cal b z d) ?pts)) \<le> 4"
    using lt l by simp
  then have "coverage quickstart_cal (projr quickstart_obs) b z d \<le> 4 / 5"
    using l by (auto simp: coverage_def Let_def)
  with assms(1) show False by simp
qed

lemma quickstart_delta_b_lower:
  assumes "quickstart_delta_b N = Inr d" "0 \<le> inv_cdf N 0.95"
  shows "0 \<le> d \<and> 4422609 / 158400 \<le> (inv_cdf N 0.95)\<^sup>2 * (1 + d)\<^sup>2"
proof -
  have d: "0 \<le> d"
    and cov: "0.9 \<le> coverage quickstart_cal (projr quickstart_obs) (mean_ratio (projr quickstart_obs)) (inv_cdf N 0.95) d"
    using quickstart_delta_b_Inr [OF assms(1)] by simp_all
  have "\<lparr>engineer = ''e1'', modal_estimate_hours = 8, actual_hours = 10.2,
        obs_triad = Some \<lparr>optimistic = 6, most_likely = 8, pessimistic = 12\<rparr>\<rparr>
      \<in> set (triad_observations (projr quickstart_obs))"
    by (simp add: quickstart_obs_eval triad_observations_def)
  with cov have "obs_covered quickstart_cal (mean_ratio (projr quickstart_obs)) (inv_cdf N 0.95) d
       \<lparr>engineer = ''e1'', modal_estimate_hours = 8, actual_hours = 10.2,
        obs_triad = Some \<lparr>optimistic = 6, most_likely = 8, pessimistic = 12\<rparr>\<rparr>"
    by (rule quickstart_coverage_all)
  with d show ?thesis
    using quickstart_ob4_covered_bound [OF assms(2) d] by simp
qed

lemma quickstart_dist_build:
  "quickstart_delta_b N = Inr d \<Longrightarrow>
     quickstart_dist N = Inr (build_distribution \<lparr>optimistic = 5, most_likely = 8, pessimistic = 14\<rparr> ''e1''
                                (mean_ratio (projr quickstart_obs)) d 4)"
  by (simp add: quickstart_dist_Inr cal_build_distribution_def quickstart_cal_def default_calibrator_def)

lemma quickstart_dist_beta_ok:
  "0 \<le> d \<Longrightarrow>
     (\<exists>ab. dist_beta (build_distribution \<lparr>optimistic = 5, most_likely = 8, pessimistic = 14\<rparr> ''e1''
                                (mean_ratio (projr quickstart_obs)) d 4) = Inr ab) \<longleftrightarrow>
     (1 + d)\<^sup>2 < 41503 / 1600"
  using dist_beta_build_ok [of "\<lparr>optimistic = 5, most_likely = 8, pessimistic = 14\<rparr>" 4
      "mean_ratio (projr quickstart_obs)" "''e1''" d]
  by (simp add: triad_ok_def quickstart_alphas power2_eq_square)

lemma quickstart_samples_Inr:
  assumes "quickstart_delta_b N = Inr d" "(1 + d)\<^sup>2 < 41503 / 1600"
  shows "\<exists>a b. quickstart_samples N Q src = Inr (map (\<lambda>u. 1.925 * (5 + 9 * Q a b u)) (stake 5 src))"
proof -
  let ?D = "build_distribution \<lparr>optimistic = 5, most_likely = 8, pessimistic = 14\<rparr> ''e1''
              (mean_ratio (projr quickstart_obs)) d 4"
  have d: "0 \<le> d" using quickstart_delta_b_Inr [OF assms(1)] by simp
  obtain a b where ab: "dist_beta ?D = Inr (a, b)"
    using quickstart_dist_beta_ok [OF d] assms(2) by auto
  have "quickstart_samples N Q src = Inr (map (\<lambda>u. 1.925 * (5 + 9 * Q a b u)) (stake 5 src))"
    by (simp add: quickstart_samples_def quickstart_dist_build [OF assms(1)] sample_def ab)
       (simp add: build_distribution_def quickstart_alphas)
  then show ?thesis by blast
qed

lemma quickstart_delta_b_search:
  assumes "\<not> 0.9 \<le> coverage quickstart_cal (projr quickstart_obs) (mean_ratio (projr quickstart_obs)) (inv_cdf N 0.95) 0"
    and "0.9 \<le> coverage quickstart_cal (projr quickstart_obs) (mean_ratio (projr quickstart_obs)) (inv_cdf N 0.95) 10"
  shows "quickstart_delta_b N =
     bisect (\<lambda>d. 0.9 \<le> coverage quickstart_cal (projr quickstart_obs) (mean_ratio (projr quickstart_obs)) (inv_cdf N 0.95) d)
       (1 / 1000000) 100 0 10"
  using assms
  by (simp add: quickstart_delta_b_eq fit_delta_b_def Let_def delta_b_max_def delta_b_tol_def delta_b_max_iter_def)

lemma quickstart_moment_report_Inr:
  assumes "quickstart_engine N = Inr eng"
  shows "\<exists>ls. quickstart_moment_report N = Inr ls \<and> map fst ls = [1, 2]"
proof -
  have "\<not> (1 + eng_delta_b eng)\<^sup>2 * (238901 / 280000) < (0::real)"
    and "\<not> (1 + eng_delta_b eng)\<^sup>2 * (384679 / 512000) < (0::real)"
    by (simp_all add: not_less)
  then show ?thesis
    using quickstart_schedule_Inr [OF assms]
    by (simp add: quickstart_moment_report_def quickstart_moments_def assms quickstart_days_eval)
qed

subsection \<open>The fitted factor pinned down, and sampling at line 38\<close>

text \<open>The fourth observation with a triad (actual 10.2 against the calibrated mean 385/24 of
  the triad (6, 8, 12)) is the hardest to cover: once \<open>z\<^sup>2 (1 + d)\<^sup>2\<close> reaches
  its ratio 491401/17600 of squared distance to PERT variance, every observation is covered.\<close>

lemma quickstart_coverage_full:
  assumes z: "0 \<le> z" and d: "0 \<le> d" and k: "491401 / 17600 \<le> z\<^sup>2 * (1 + d)\<^sup>2"
  shows "coverage quickstart_cal (projr quickstart_obs) (mean_ratio (projr quickstart_obs)) z d = 1"
proof -
  let ?b = "mean_ratio (projr quickstart_obs)"
  let ?pts = "triad_observations (projr quickstart_obs)"
  have close: "list_all (\<lambda>ob. case obs_triad ob of None \<Rightarrow> False | Some t \<Rightarrow>
      0 \<le> pert_variance (cal_shape quickstart_cal) t \<and>
      (actual_hours ob - dist_mean (cal_build_distribution quickstart_cal t (engineer ob) ?b d))\<^sup>2
        \<le> 491401 / 17600 * pert_variance (cal_shape quickstart_cal) t) ?pts"
    by (simp add: quickstart_obs_eval triad_observations_def cal_build_distribution_def
                  dist_mean_build pert_mean_def pert_variance_def quickstart_cal_def
                  default_calibrator_def alpha_for_def mean_ratio_def ratios_of_def power2_eq_square)
  have "obs_covered quickstart_cal ?b z d ob" if ob: "ob \<in> set ?pts" for ob
  proof -
    obtain t where t: "obs_triad ob = Some t"
      using ob by (auto simp: triad_observations_def)
    have "case obs_triad ob of None \<Rightarrow> False | Some t \<Rightarrow>
      0 \<le> pert_variance (cal_shape quickstart_cal) t \<and>
      (actual_hours ob - dist_mean (cal_build_distribution quickstart_cal t (engineer ob) ?b d))\<^sup>2
        \<le> 491401 / 17600 * pert_variance (cal_shape quickstart_cal) t"
      using close ob by (simp add: list_all_iff)
    then have v: "0 \<le> pert_variance (cal_shape quickstart_cal) t"
      and c: "(actual_hours ob - dist_mean (cal_build_distribution quickstart_cal t (engineer ob) ?b d))\<^sup>2
        \<le> 491401 / 17600 * pert_variance (cal_shape quickstart_cal) t"
      unfolding t by simp_all
    have d1: "0 \<le> 1 + d" using d by simp
    show ?thesis
      by (rule obs_covered_of_square [OF t z d1 v c k])
  qed
  then have "filter (obs_covered quickstart_cal ?b z d) ?pts = ?pts"
    by simp
  then show ?thesis
    by (simp add: coverage_def Let_def quickstart_obs_eval triad_observations_def)
qed

lemma quickstart_delta_b_upper:
  assumes fit: "quickstart_delta_b N = Inr d" and z: "0 \<le> inv_cdf N 0.95"
  shows "d = 0 \<or> (inv_cdf N 0.95)\<^sup>2 * (1 + d - 1 / 1000000)\<^sup>2 < 491401 / 17600"
proof -
  let ?z = "inv_cdf N 0.95"
  have q: "inv_cdf N ((1 + 0.9) / 2) = ?z" by simp
  have d: "0 \<le> d" using quickstart_delta_b_Inr [OF fit] by simp
  from fit_delta_b_gap [OF fit [unfolded quickstart_delta_b_eq]] show ?thesis
  proof
    assume "\<exists>l. 0 \<le> l \<and> l \<le> d \<and>
      \<not> 0.9 \<le> coverage quickstart_cal (projr quickstart_obs) (mean_ratio (projr quickstart_obs))
               (inv_cdf N ((1 + 0.9) / 2)) l \<and> d - l \<le> delta_b_tol"
    then obtain l where l: "0 \<le> l" "d - l \<le> 1 / 1000000"
      and miss: "\<not> 0.9 \<le> coverage quickstart_cal (projr quickstart_obs) (mean_ratio (projr quickstart_obs)) ?z l"
      unfolding q by (auto simp: delta_b_tol_def)
    have lt: "?z\<^sup>2 * (1 + l)\<^sup>2 < 491401 / 17600"
      using quickstart_coverage_full [OF z l(1)] miss by force
    have "(1 + d - 1 / 1000000)\<^sup>2 \<le> (1 + l)\<^sup>2"
      using d l by (intro power_mono) simp_all
    then have "?z\<^sup>2 * (1 + d - 1 / 1000000)\<^sup>2 \<le> ?z\<^sup>2 * (1 + l)\<^sup>2"
      by (rule mult_left_mono) simp
    with lt show ?thesis by simp
  qed simp
qed

lemma quickstart_delta_b_feasible:
  assumes z: "1.1 \<le> inv_cdf N 0.95" and fit: "quickstart_delta_b N = Inr d"
  shows "(1 + d)\<^sup>2 < 41503 / 1600"
proof -
  let ?z = "inv_cdf N 0.95" and ?x = "1 + d - 1 / 1000000"
  have d: "0 \<le> d" using quickstart_delta_b_Inr [OF fit] by simp
  have z0: "0 \<le> ?z" using z by simp
  from quickstart_delta_b_upper [OF fit z0] show ?thesis
  proof
    assume "d = 0"
    then show ?thesis by simp
  next
    assume up: "?z\<^sup>2 * ?x\<^sup>2 < 491401 / 17600"
    have "1.1\<^sup>2 \<le> ?z\<^sup>2"
      using z by (intro power_mono) simp_all
    then have "121 / 100 * ?x\<^sup>2 \<le> ?z\<^sup>2 * ?x\<^sup>2"
      by (intro mult_right_mono) (simp_all add: power2_eq_square)
    with up have "?x\<^sup>2 < (481 / 100)\<^sup>2"
      by (simp add: power2_eq_square)
    then have "?x < 481 / 100"
      by (rule power_less_imp_less_base) simp
    then have "(1 + d)\<^sup>2 < (4810001 / 1000000)\<^sup>2"
      using d by (intro power_strict_mono) simp_all
    then show ?thesis
      by (simp add: power2_eq_square)
  qed
qed

end
