(* ===== verification/Spec2Isabelle.thy ===== *)
theory Spec2Isabelle
  imports Quickstart
begin

text \<open>
  \<^bold>\<open>A verification development for sprint-capacity-forecast.\<close>

  The repository's one program under \<open>src/\<close> is the script
  \<open>src/examples/quickstart.py\<close>. It drives the \<open>forecast\<close> package, which is not
  in the sources and is modelled from its specification (\<open>spec.md\<close>). The script fits a
  per-engineer bias model and a global uncertainty factor to six historical observations,
  builds one calibrated distribution, computes the moments of a two-day schedule, and
  prints two reports: committed capacity per day count and confidence level, and the
  probability of completing a workload given the capacity achieved so far.

  \<^bold>\<open>Theories.\<close>
  \<^item> \<open>Prelude\<close>: the error kinds (spec section 7) as \<open>forecast_error\<close>, results as
    \<open>forecast_error + 'a\<close> with \<open>bind_res\<close> (an exception propagates) and \<open>map_res\<close>
    (a Python loop that stops at the first raise), the clamped square root
    \<open>safe_sqrt\<close> (spec 4.3), and the standard normal distribution as an interface: a
    record \<open>std_normal\<close> of \<open>cdf\<close> and \<open>inv_cdf\<close> with the predicate \<open>normal_ok\<close>
    (both monotone, \<open>cdf\<close> a probability, median 0). \<open>linear_normal\<close> is a concrete
    instance used by the witnesses.
  \<^item> \<open>Entities\<close>: \<open>ThreePointEstimate\<close> (record \<open>three_point_estimate\<close>, constructor
    \<open>mk_triad\<close> raising \<open>InvalidTriad\<close>), \<open>BiasObservation\<close> (\<open>mk_observation\<close>),
    \<open>BiasModel\<close> as a map with \<open>alpha_for\<close>.
  \<^item> \<open>Distribution\<close>: the PERT moments \<open>pert_mean\<close>, \<open>pert_variance\<close> and the calibrated
    \<open>Distribution\<close> (\<open>dist_mean\<close> = PERT mean times the bias multiplier,
    \<open>dist_variance\<close> = PERT variance times \<open>(1 + delta_b)\<^sup>2\<close>).
  \<^item> \<open>Calibrator\<close>: \<open>fit_bias\<close> (one pass accumulating per-engineer sums and counts,
    \<open>accumulate_ratios\<close>), refined against the specification \<open>mean_ratio\<close>; the empirical
    \<open>coverage\<close> of the observations with a triad; \<open>fit_delta_b\<close>, a bisection
    \<open>bisect\<close> for the least factor whose coverage reaches the target.
  \<^item> \<open>Search\<close>: the same bisection as an inductive step relation \<open>bisect_step\<close> on
    states \<open>(lo, hi, fuel)\<close>, with \<open>code_pred\<close>; the functional \<open>bisect\<close> is shown to
    be a run of it, the relation is deterministic, every step uses one unit of fuel (so no run
    is infinite), and the bracket invariant (\<open>bracket\<close>) is proved by rule induction.
  \<^item> \<open>Sampling\<close>: \<open>Distribution.sample\<close>. A draw is \<open>alpha * (o + (p - o) * B)\<close> for a
    Beta variable \<open>B\<close> whose parameters (\<open>dist_beta\<close>, by the moment matching
    \<open>beta_params\<close>) make the draws' mean and variance those of \<open>mean()\<close> and
    \<open>variance()\<close>; \<open>sample\<close> draws from an injected stream of uniforms through a Beta
    quantile function given as a parameter, and returns the rest of the stream.
  \<^item> \<open>Engine\<close>: \<open>DailyInputs\<close> and \<open>CommitCapacityEngine\<close> as records; the symmetric
    correlation table (\<open>corr_insert\<close>, \<open>corr_lookup\<close>); per-day rows with dimension
    checks (\<open>day_rows\<close>), per-day moments (\<open>day_moments\<close>), the schedule
    (\<open>daily_schedule_moments\<close>), \<open>commit_capacity\<close> and \<open>probability_of_success\<close>.
  \<^item> \<open>Quickstart\<close>: \<open>quickstart.py\<close> statement by statement. Each top-level assignment is
    a definition of result type (\<open>quickstart_obs\<close>, \<open>quickstart_bias\<close>,
    \<open>quickstart_delta_b\<close>, \<open>quickstart_engine\<close>, \<open>quickstart_dist\<close>, \<open>quickstart_days\<close>,
    \<open>quickstart_moments\<close>); the printed values are \<open>quickstart_summary\<close> (lines 33-37),
    \<open>moment_lines\<close> (the loop of lines 57-58) and the two report functions
    \<open>report_commit\<close> / \<open>commit_row\<close> (lines 60-80) and \<open>report_success\<close> /
    \<open>success_row\<close> / \<open>dict_get\<close> (lines 82-95), applied at lines 98 and 102; the
    samples of line 38 are \<open>quickstart_samples\<close>. \<open>quickstart_run\<close> runs the statements
    top to bottom and returns the printed groups (\<open>script_event\<close>) up to the first exception.

  \<^bold>\<open>What the lemmas show.\<close> The bias fit equals the mean of ratios and is invariant
  under reordering the observations; the bisection terminates within its fuel, returns a
  factor in \<open>[0, 10]\<close> whose coverage meets the target, and no factor below it by more than
  the tolerance does; coverage is monotone in the factor; as a transition system every run of
  the search ends. Sampling is possible exactly when \<open>(1 + delta_b)\<^sup>2 < (shape + 3) alpha\<^sup>2\<close>
  (\<open>Sampling.dist_beta_build_ok\<close>), and the draws then have the calibrated moments. The day variance is the quadratic
  form of the per-engineer standard deviations and correlations; commit capacity is
  monotone in the risk level; the probability of success is a probability and falls as the
  remaining work grows. For the script itself the development computes the fitted
  multipliers (1.925 and 149/180), the fitted factor to within the tolerance (it is fixed by the
  fourth observation with a triad), the calibrated mean 16.3625 of the example triad (above its
  pessimistic point 14), the closed form of each day's moments, the shape and values of both
  reports, and that the whole script runs to its end, for every normal distribution whose 95th
  percentile is at least 1.1 (Python's is 1.645).

  \<^bold>\<open>Claims of this theory.\<close> C1-C4: the fitted bias, uncertainty factor, printed summary
  and the exact value of the fitted factor. C5-C8: the moments of the two-day schedule and the two
  printed reports in closed form. C9-C11: the whole run of the script, the samples of line 38,
  and the moments of the Beta distribution they are drawn from. C12-C16: the report functions
  and the printing loop for any input (row order, values, error paths). C17: the order of the
  commit levels in the risk level. C18-C29: the package's operations at the script's calibrator,
  engine and schedule (bias fit refinement and permutation invariance, soundness, termination
  with its error and near-minimality of the bisection, monotonicity of coverage, bounds of the
  calibrated moments, the quadratic form of the day variance, monotonicity and boundary cases
  of the success probability, the commit horizon). C30: the script's bisection as a transition
  system: no run is infinite, and every run ends within the tolerance at the fitted value.
  Statements over every normal distribution assume only the interface \<open>normal_ok\<close> or a
  bound on one quantile. Their witnesses use \<open>linear_normal\<close> (95th percentile 2.7),
  \<open>normal_1645\<close> (a piecewise-linear stand-in with the standard normal's 95th percentile
  1.645), and, for the search, \<open>far_obs\<close>, a single observation far from its triad's mean,
  for which the returned factor is provably above 2.

  \<^bold>\<open>Bounds and fuel.\<close> \<open>fit_delta_b\<close> searches \<open>[0, 10]\<close> with tolerance
  \<open>10\<^sup>-\<^sup>6\<close> and at most 100 halvings, as the package does. The fuel is enough:
  \<open>10 / 2\<^sup>1\<^sup>0\<^sup>0 \<le> 10\<^sup>-\<^sup>6\<close>, so the interval is below the tolerance before the
  fuel runs out and the search returns whenever the coverage at 10 meets the target
  (\<open>Calibrator.fit_delta_b_total\<close>).

  \<^bold>\<open>Not modelled.\<close> Python floats are modelled as reals, so rounding is not modelled;
  the random number generator and the Beta quantile function used by \<open>Distribution.sample\<close>
  (parameters here: a stream of uniforms and a quantile function with values in [0, 1]); the
  numerical code of \<open>statistics.NormalDist\<close> (an interface parameter here); the row-by-row
  printing inside a report (a report is one printed group, as no single row of the script's
  reports raises); printing and string formatting (the reports are the lists of
  values they print); the package's import machinery. Where the specification is silent the
  model makes a choice and records it as a finding: \<open>sample\<close> raises
  \<open>InvalidParameter\<close> when no Beta distribution has the calibrated moments (spec section 7:
  invalid numeric input is never silently turned into NaN); the bias factor scales the draws.
\<close>

text \<open>A single observation far from its triad's mean, used by the witnesses of the
  uncertainty search.\<close>

abbreviation far_obs :: bias_observation where
  "far_obs \<equiv> \<lparr>engineer = ''e'', modal_estimate_hours = 1, actual_hours = 6,
               obs_triad = Some \<lparr>optimistic = 0, most_likely = 1, pessimistic = 2\<rparr>\<rparr>"

text \<open>The coverage test of the script's uncertainty search, and a piecewise-linear stand-in
  for the normal distribution with the standard normal's 95th percentile 1.645, used by the
  witnesses of the claims about the script's run.\<close>

abbreviation quickstart_covers :: "std_normal \<Rightarrow> real \<Rightarrow> bool" where
  "quickstart_covers N d \<equiv>
     0.9 \<le> coverage quickstart_cal (projr quickstart_obs) (projr quickstart_bias) (inv_cdf N 0.95) d"

abbreviation normal_1645 :: std_normal where
  "normal_1645 \<equiv> \<lparr>cdf = \<lambda>x. min 1 (max 0 (90 / 329 * x + 1 / 2)), inv_cdf = \<lambda>p. 329 / 90 * (p - 1 / 2)\<rparr>"

section \<open>Facts shared by the witnesses\<close>

lemma quickstart_bias_projr: "projr quickstart_bias = mean_ratio (projr quickstart_obs)"
  by (simp only: quickstart_bias_eval sum.sel)

lemma linear_normal_not_covers_0: "\<not> quickstart_covers linear_normal 0"
proof
  assume c: "quickstart_covers linear_normal 0"
  have z: "inv_cdf linear_normal 0.95 = 2.7" by (simp add: linear_normal_def)
  have "\<lparr>engineer = ''e1'', modal_estimate_hours = 8, actual_hours = 10.2,
        obs_triad = Some \<lparr>optimistic = 6, most_likely = 8, pessimistic = 12\<rparr>\<rparr>
      \<in> set (triad_observations (projr quickstart_obs))"
    by (simp add: quickstart_obs_eval triad_observations_def)
  with c have cov4: "obs_covered quickstart_cal (mean_ratio (projr quickstart_obs)) 2.7 0
       \<lparr>engineer = ''e1'', modal_estimate_hours = 8, actual_hours = 10.2,
        obs_triad = Some \<lparr>optimistic = 6, most_likely = 8, pessimistic = 12\<rparr>\<rparr>"
    unfolding quickstart_bias_projr z by (rule quickstart_coverage_all)
  have "4422609 / 158400 \<le> (2.7::real)\<^sup>2 * (1 + 0)\<^sup>2"
    by (rule quickstart_ob4_covered_bound [OF _ _ cov4]) simp_all
  then show False by (simp add: power2_eq_square)
qed

lemma linear_normal_covers_10: "quickstart_covers linear_normal 10"
  using quickstart_coverage_max [of "inv_cdf linear_normal 0.95"]
  by (simp add: quickstart_bias_projr delta_b_max_def linear_normal_def)

lemma normal_1645_ok: "normal_ok normal_1645 \<and> inv_cdf normal_1645 0.95 = 1.645"
  unfolding normal_ok_def
  by (auto intro!: monoI min.mono max.mono mult_left_mono)

lemma normal_1645_delta_b: "\<exists>d. quickstart_delta_b normal_1645 = Inr d"
  using normal_1645_ok by (intro quickstart_delta_b_exists) simp

section \<open>The script's fitted model\<close>

text \<open>C1: the bias fit of the script succeeds and gives engineer e1 the multiplier 1.925 and
  engineer e2 the multiplier 149/180; every other engineer gets the neutral multiplier 1.\<close>

theorem quickstart_bias_values:
  "\<exists>b. quickstart_bias = Inr b \<and> alpha_for b ''e1'' = 1.925 \<and> alpha_for b ''e2'' = 149 / 180 \<and>
       (\<forall>e. e \<noteq> ''e1'' \<longrightarrow> e \<noteq> ''e2'' \<longrightarrow> alpha_for b e = 1)"
proof (intro exI conjI allI impI)
  show "quickstart_bias = Inr (mean_ratio (projr quickstart_obs))"
    by (rule quickstart_bias_eval)
  show "alpha_for (mean_ratio (projr quickstart_obs)) ''e1'' = 1.925"
    by (rule quickstart_alphas(1))
  show "alpha_for (mean_ratio (projr quickstart_obs)) ''e2'' = 149 / 180"
    by (rule quickstart_alphas(2))
  fix e :: string
  assume "e \<noteq> ''e1''" "e \<noteq> ''e2''"
  then show "alpha_for (mean_ratio (projr quickstart_obs)) e = 1"
    by (rule quickstart_alphas(3))
qed

theorem quickstart_bias_values_witness:
  "\<exists>b. quickstart_bias = Inr b \<and> alpha_for b ''e3'' = 1"
proof -
  obtain b where b: "quickstart_bias = Inr b"
    and rest: "\<forall>e. e \<noteq> ''e1'' \<longrightarrow> e \<noteq> ''e2'' \<longrightarrow> alpha_for b e = 1"
    using quickstart_bias_values by (elim exE conjE) (rule that; assumption)
  have "alpha_for b ''e3'' = 1"
    using rest by simp
  with b show ?thesis by (intro exI conjI)
qed

text \<open>C2: whenever the 95th percentile of the normal distribution is at least 1, the
  script's uncertainty fit returns a factor in [0, 10] at which at least 90\<percent> of the
  observations with a triad fall inside the central 90\<percent> interval.\<close>

theorem quickstart_delta_b_fitted:
  assumes "1 \<le> inv_cdf N 0.95"
  shows "\<exists>d. quickstart_delta_b N = Inr d \<and> 0 \<le> d \<and> d \<le> 10 \<and>
     0.9 \<le> coverage quickstart_cal (projr quickstart_obs) (projr quickstart_bias) (inv_cdf N 0.95) d"
proof -
  obtain d where d: "quickstart_delta_b N = Inr d"
    using quickstart_delta_b_exists [OF assms] by blast
  have b: "projr quickstart_bias = mean_ratio (projr quickstart_obs)"
    by (simp only: quickstart_bias_eval sum.sel)
  show ?thesis
    using d quickstart_delta_b_Inr [OF d] unfolding b by blast
qed

theorem quickstart_delta_b_fitted_witness:
  "1 \<le> inv_cdf linear_normal 0.95 \<and> (\<exists>d. quickstart_delta_b linear_normal = Inr d \<and> 0 \<le> d \<and> d \<le> 10)"
proof -
  have h: "1 \<le> inv_cdf linear_normal 0.95" by (simp add: linear_normal_def)
  obtain d where "quickstart_delta_b linear_normal = Inr d" "0 \<le> d" "d \<le> 10"
    using quickstart_delta_b_fitted [OF h] by (elim exE conjE) (rule that; assumption)
  with h show ?thesis by (intro conjI exI)
qed

text \<open>C3: the five values the script prints first (lines 33-37) are alpha_e1 = 1.925,
  alpha_e2 = 149/180, the fitted factor d, the calibrated mean 16.3625 of the triad
  (5, 8, 14) for e1, and its variance \<open>2.75 * (1 + d)\<^sup>2\<close>.\<close>

theorem quickstart_summary_values:
  assumes "1 \<le> inv_cdf N 0.95"
  shows "\<exists>d. quickstart_delta_b N = Inr d \<and> 0 \<le> d \<and> d \<le> 10 \<and>
     quickstart_summary N = Inr (1.925, 149 / 180, d, 16.3625, 2.75 * (1 + d)\<^sup>2)"
proof -
  obtain d where d: "quickstart_delta_b N = Inr d"
    using quickstart_delta_b_exists [OF assms] by blast
  then show ?thesis
    using quickstart_delta_b_Inr [OF d] quickstart_summary_Inr [OF d] by blast
qed

theorem quickstart_summary_values_witness:
  "\<exists>d. quickstart_summary linear_normal = Inr (1.925, 149 / 180, d, 16.3625, 2.75 * (1 + d)\<^sup>2)"
proof -
  have h: "1 \<le> inv_cdf linear_normal 0.95" by (simp add: linear_normal_def)
  obtain d where "quickstart_summary linear_normal = Inr (1.925, 149 / 180, d, 16.3625, 2.75 * (1 + d)\<^sup>2)"
    using quickstart_summary_values [OF h] by (elim exE conjE) (rule that; assumption)
  then show ?thesis by (rule exI)
qed

text \<open>C4: the factor the script fits at line 25 is pinned down by the observation that is
  hardest to cover, the fourth one with a triad (10.2 hours against the calibrated mean 385/24 of
  the triad (6, 8, 12)). With z the 95th normal percentile, \<open>z\<^sup>2 (1 + d)\<^sup>2\<close> reaches
  491401/17600; if \<open>z\<^sup>2\<close> alone reaches it the factor is 0, and otherwise one tolerance
  step below d it is not reached. For Python's z = 1.645 this is d = 2.2122 to within 1e-6.\<close>

theorem quickstart_delta_b_value:
  assumes z: "0 \<le> inv_cdf N 0.95" and fit: "quickstart_delta_b N = Inr d"
  shows "491401 / 17600 \<le> (inv_cdf N 0.95)\<^sup>2 * (1 + d)\<^sup>2 \<and>
     (if 491401 / 17600 \<le> (inv_cdf N 0.95)\<^sup>2 then d = 0
      else (inv_cdf N 0.95)\<^sup>2 * (1 + d - 1 / 1000000)\<^sup>2 < 491401 / 17600)"
proof -
  let ?z = "inv_cdf N 0.95"
  have k: "(4422609 / 158400 :: real) = 491401 / 17600" by simp
  have low: "491401 / 17600 \<le> ?z\<^sup>2 * (1 + d)\<^sup>2"
    using quickstart_delta_b_lower [OF fit z] unfolding k by simp
  have "d = 0" if big: "491401 / 17600 \<le> ?z\<^sup>2"
  proof -
    have "quickstart_covers N 0"
      using quickstart_coverage_full [of ?z 0] z big unfolding quickstart_bias_projr by simp
    then have "quickstart_delta_b N = Inr 0"
      by (simp add: quickstart_delta_b_eq fit_delta_b_def Let_def quickstart_bias_projr)
    with fit show ?thesis by simp
  qed
  moreover have "?z\<^sup>2 * (1 + d - 1 / 1000000)\<^sup>2 < 491401 / 17600" if small: "\<not> 491401 / 17600 \<le> ?z\<^sup>2"
  proof -
    have "d \<noteq> 0" using low small by auto
    then show ?thesis
      using quickstart_delta_b_upper [OF fit z] by simp
  qed
  ultimately show ?thesis
    using low by simp
qed

theorem quickstart_delta_b_value_witness:
  "\<exists>d. quickstart_delta_b normal_1645 = Inr d \<and> 491401 / 17600 \<le> 1.645\<^sup>2 * (1 + d)\<^sup>2 \<and>
     1.645\<^sup>2 * (1 + d - 1 / 1000000)\<^sup>2 < 491401 / 17600"
proof -
  obtain d where d: "quickstart_delta_b normal_1645 = Inr d"
    using normal_1645_delta_b by blast
  have z: "inv_cdf normal_1645 0.95 = 1.645"
    using normal_1645_ok by simp
  have nb: "\<not> 491401 / 17600 \<le> (1.645::real)\<^sup>2"
    by (simp add: power2_eq_square)
  have "491401 / 17600 \<le> 1.645\<^sup>2 * (1 + d)\<^sup>2 \<and>
     (if 491401 / 17600 \<le> (1.645::real)\<^sup>2 then d = 0 else 1.645\<^sup>2 * (1 + d - 1 / 1000000)\<^sup>2 < 491401 / 17600)"
    by (rule quickstart_delta_b_value [of normal_1645 d, unfolded z, OF _ d]) simp
  then have "491401 / 17600 \<le> 1.645\<^sup>2 * (1 + d)\<^sup>2 \<and> 1.645\<^sup>2 * (1 + d - 1 / 1000000)\<^sup>2 < 491401 / 17600"
    unfolding if_not_P [OF nb] .
  with d show ?thesis by blast
qed

section \<open>The script's schedule and reports\<close>

text \<open>C5: with the engine the script builds, the daily moments of its two-day schedule (line 56)
  are the means 65109/4000 and 849901/57600 and the variances 238901/280000 and
  384679/512000, each scaled by the square of one plus the fitted uncertainty factor.\<close>

theorem quickstart_schedule_values:
  assumes "quickstart_engine N = Inr eng"
  shows "quickstart_moments N =
     Inr ([65109 / 4000, 849901 / 57600],
          [(1 + eng_delta_b eng)\<^sup>2 * (238901 / 280000), (1 + eng_delta_b eng)\<^sup>2 * (384679 / 512000)])"
  using quickstart_schedule_Inr [OF assms]
  by (simp add: quickstart_moments_def assms quickstart_days_eval)


theorem quickstart_schedule_values_witness:
  "\<exists>eng. quickstart_engine linear_normal = Inr eng \<and>
     quickstart_moments linear_normal =
       Inr ([65109 / 4000, 849901 / 57600],
            [(1 + eng_delta_b eng)\<^sup>2 * (238901 / 280000), (1 + eng_delta_b eng)\<^sup>2 * (384679 / 512000)])"
proof -
  have h: "1 \<le> inv_cdf linear_normal 0.95" by (simp add: linear_normal_def)
  obtain eng where e: "quickstart_engine linear_normal = Inr eng"
    using quickstart_engine_exists [OF h] by (elim exE)
  show ?thesis
    using e quickstart_schedule_values [OF e] by (intro exI conjI)
qed

text \<open>C6: the loop of lines 57-58 prints one line per day, numbered from 1, with the day's
  mean, variance and standard deviation; it never reaches the math domain error of
  \<open>math.sqrt\<close>, because both variances are non-negative.\<close>

theorem quickstart_moment_report_values:
  assumes "quickstart_engine N = Inr eng"
  shows "quickstart_moment_report N =
     Inr [(1, 65109 / 4000, (1 + eng_delta_b eng)\<^sup>2 * (238901 / 280000),
              sqrt ((1 + eng_delta_b eng)\<^sup>2 * (238901 / 280000))),
          (2, 849901 / 57600, (1 + eng_delta_b eng)\<^sup>2 * (384679 / 512000),
              sqrt ((1 + eng_delta_b eng)\<^sup>2 * (384679 / 512000)))]"
proof -
  have "\<not> (1 + eng_delta_b eng)\<^sup>2 * (238901 / 280000) < (0::real)"
    and "\<not> (1 + eng_delta_b eng)\<^sup>2 * (384679 / 512000) < (0::real)"
    by (simp_all add: not_less)
  then show ?thesis
    using quickstart_schedule_Inr [OF assms]
    by (simp add: quickstart_moment_report_def quickstart_moments_def assms quickstart_days_eval)
qed

theorem quickstart_moment_report_values_witness:
  "\<exists>eng. quickstart_engine linear_normal = Inr eng \<and>
     quickstart_moment_report linear_normal =
     Inr [(1, 65109 / 4000, (1 + eng_delta_b eng)\<^sup>2 * (238901 / 280000),
              sqrt ((1 + eng_delta_b eng)\<^sup>2 * (238901 / 280000))),
          (2, 849901 / 57600, (1 + eng_delta_b eng)\<^sup>2 * (384679 / 512000),
              sqrt ((1 + eng_delta_b eng)\<^sup>2 * (384679 / 512000)))]"
proof -
  have h: "1 \<le> inv_cdf linear_normal 0.95" by (simp add: linear_normal_def)
  obtain eng where e: "quickstart_engine linear_normal = Inr eng"
    using quickstart_engine_exists [OF h] by (elim exE)
  show ?thesis
    using e quickstart_moment_report_values [OF e] by (intro exI conjI)
qed

text \<open>C7: the commit report of line 98 prints nine rows in the order of the nested loops
  (t outer, alpha inner); for t = 0 every commit level is 0, and for t = 1 and t = 2 it is the
  cumulative mean minus the normal quantile at 1 - alpha times the cumulative standard
  deviation.\<close>

theorem quickstart_commit_report_values:
  assumes "quickstart_engine N = Inr eng"
  shows "quickstart_commit_report N =
     Inr [(0, 0.10, 0), (0, 0.20, 0), (0, 0.05, 0),
          (1, 0.10, 65109 / 4000 - inv_cdf N 0.90 * ((1 + eng_delta_b eng) * sqrt (238901 / 280000))),
          (1, 0.20, 65109 / 4000 - inv_cdf N 0.80 * ((1 + eng_delta_b eng) * sqrt (238901 / 280000))),
          (1, 0.05, 65109 / 4000 - inv_cdf N 0.95 * ((1 + eng_delta_b eng) * sqrt (238901 / 280000))),
          (2, 0.10, 8937353 / 288000 - inv_cdf N 0.90 * ((1 + eng_delta_b eng) * sqrt (28753429 / 17920000))),
          (2, 0.20, 8937353 / 288000 - inv_cdf N 0.80 * ((1 + eng_delta_b eng) * sqrt (28753429 / 17920000))),
          (2, 0.05, 8937353 / 288000 - inv_cdf N 0.95 * ((1 + eng_delta_b eng) * sqrt (28753429 / 17920000)))]"
proof -
  have s: "0 \<le> 1 + eng_delta_b eng"
    using quickstart_engine_fields [OF assms] by simp
  have "quickstart_commit_report N = report_commit N eng (projr quickstart_days) [0, 1, 2] [0.10, 0.20, 0.05]"
    by (simp add: quickstart_commit_report_def assms quickstart_days_eval)
  also have "\<dots> = Inr [(0, 0.10, 0), (0, 0.20, 0), (0, 0.05, 0),
          (1, 0.10, 65109 / 4000 - inv_cdf N (1 - 0.10) * ((1 + eng_delta_b eng) * sqrt (238901 / 280000))),
          (1, 0.20, 65109 / 4000 - inv_cdf N (1 - 0.20) * ((1 + eng_delta_b eng) * sqrt (238901 / 280000))),
          (1, 0.05, 65109 / 4000 - inv_cdf N (1 - 0.05) * ((1 + eng_delta_b eng) * sqrt (238901 / 280000))),
          (2, 0.10, 65109 / 4000 + 849901 / 57600 - inv_cdf N (1 - 0.10) *
             ((1 + eng_delta_b eng) * sqrt (238901 / 280000 + 384679 / 512000))),
          (2, 0.20, 65109 / 4000 + 849901 / 57600 - inv_cdf N (1 - 0.20) *
             ((1 + eng_delta_b eng) * sqrt (238901 / 280000 + 384679 / 512000))),
          (2, 0.05, 65109 / 4000 + 849901 / 57600 - inv_cdf N (1 - 0.05) *
             ((1 + eng_delta_b eng) * sqrt (238901 / 280000 + 384679 / 512000)))]"
    by (rule report_commit_two_days [OF quickstart_schedule_Inr [OF assms] s]) simp_all
  finally show ?thesis by simp
qed


theorem quickstart_commit_report_values_witness:
  "\<exists>eng. quickstart_engine linear_normal = Inr eng \<and>
     take 3 (projr (quickstart_commit_report linear_normal)) = [(0, 0.10, 0), (0, 0.20, 0), (0, 0.05, 0)]"
proof -
  have h: "1 \<le> inv_cdf linear_normal 0.95" by (simp add: linear_normal_def)
  obtain eng where e: "quickstart_engine linear_normal = Inr eng"
    using quickstart_engine_exists [OF h] by (elim exE)
  have "take 3 (projr (quickstart_commit_report linear_normal)) = [(0, 0.10, 0), (0, 0.20, 0), (0, 0.05, 0)]"
    by (simp only: quickstart_commit_report_values [OF e]) simp
  with e show ?thesis by (intro exI conjI)
qed

text \<open>C8: the success report of line 102 prints two rows: with nothing achieved at t = 0 the
  probability that both days cover the workload 20, and with 13 achieved at t = 1 the
  probability that day 2 covers the remaining 7, each as one minus the normal CDF at the
  standardised shortfall.\<close>

theorem quickstart_success_report_values:
  assumes "quickstart_engine N = Inr eng"
  shows "quickstart_success_report N =
     Inr [(0, 0, 1 - cdf N ((20 - 8937353 / 288000) / ((1 + eng_delta_b eng) * sqrt (28753429 / 17920000)))),
          (1, 13, 1 - cdf N ((7 - 849901 / 57600) / ((1 + eng_delta_b eng) * sqrt (384679 / 512000))))]"
proof -
  have s: "0 < 1 + eng_delta_b eng"
    using quickstart_engine_fields [OF assms] by simp
  have "quickstart_success_report N = report_success N eng (projr quickstart_days) [0, 1] 20 [(0, 0), (1, 13)]"
    by (simp add: quickstart_success_report_def assms quickstart_days_eval)
  also have "\<dots> = Inr [(0, 0, 1 - cdf N ((20 - 8937353 / 288000) /
                 ((1 + eng_delta_b eng) * sqrt (28753429 / 17920000)))),
          (1, 13, 1 - cdf N ((7 - 849901 / 57600) / ((1 + eng_delta_b eng) * sqrt (384679 / 512000))))]"
    using report_success_two_days [OF quickstart_schedule_Inr [OF assms] s,
        where W = 20 and ach = "[(0, 0), (1, 13)]" and N = N]
    by (simp add: dict_get_def)
  finally show ?thesis .
qed


theorem quickstart_success_report_values_witness:
  "\<exists>eng. quickstart_engine linear_normal = Inr eng \<and>
     map (\<lambda>(t, a, p). (t, a)) (projr (quickstart_success_report linear_normal)) = [(0, 0), (1, 13)]"
proof -
  have h: "1 \<le> inv_cdf linear_normal 0.95" by (simp add: linear_normal_def)
  obtain eng where e: "quickstart_engine linear_normal = Inr eng"
    using quickstart_engine_exists [OF h] by (elim exE)
  have "map (\<lambda>(t, a, p). (t, a)) (projr (quickstart_success_report linear_normal)) = [(0, 0), (1, 13)]"
    by (simp only: quickstart_success_report_values [OF e]) simp
  with e show ?thesis by (intro exI conjI)
qed

section \<open>Sampling at line 38 and the whole run of the script\<close>

text \<open>C9: when the 95th normal percentile is at least 1.1 (Python's is 1.645), the script runs
  to its end without an exception and prints, in order, the five summary values, the five
  samples of line 38, two moment lines numbered 1 and 2, nine commit rows for
  t = 0, 0, 0, 1, 1, 1, 2, 2, 2 and two success rows for t = 0 and t = 1.\<close>

theorem quickstart_run_completes:
  assumes z: "1.1 \<le> inv_cdf N 0.95"
  shows "\<exists>d xs ls cs ps. quickstart_run N Q src =
       ([Summary (1.925, 149 / 180, d, 16.3625, 2.75 * (1 + d)\<^sup>2),
         Samples xs, MomentLines ls, CommitRows cs, SuccessRows ps], None) \<and>
     length xs = 5 \<and> map fst ls = [1, 2] \<and> map fst cs = [0, 0, 0, 1, 1, 1, 2, 2, 2] \<and> map fst ps = [0, 1]"
proof -
  obtain d where d: "quickstart_delta_b N = Inr d"
    using quickstart_delta_b_exists [of N] z by auto
  let ?eng = "\<lparr>eng_calibrator = quickstart_cal, eng_bias = mean_ratio (projr quickstart_obs), eng_delta_b = d\<rparr>"
  have e: "quickstart_engine N = Inr ?eng"
    using d by (simp add: quickstart_engine_Inr)
  obtain a b where xs: "quickstart_samples N Q src = Inr (map (\<lambda>u. 1.925 * (5 + 9 * Q a b u)) (stake 5 src))"
    using quickstart_samples_Inr [OF d quickstart_delta_b_feasible [OF z d]] by blast
  obtain ls where ls: "quickstart_moment_report N = Inr ls" "map fst ls = [1, 2]"
    using quickstart_moment_report_Inr [OF e] by (elim exE conjE) (rule that)
  obtain mus vs where s: "daily_schedule_moments ?eng (projr quickstart_days) = Inr (mus, vs)"
    using quickstart_schedule_moments [of ?eng] by (elim exE)
  show ?thesis
    using xs ls quickstart_commit_report_eq [OF e s] quickstart_success_report_eq [OF e s]
    by (simp add: quickstart_run_def quickstart_summary_Inr [OF d])
qed

theorem quickstart_run_completes_witness:
  "\<exists>d xs ls cs ps. quickstart_run normal_1645 (\<lambda>a b u. u) (sconst 0.5) =
       ([Summary (1.925, 149 / 180, d, 16.3625, 2.75 * (1 + d)\<^sup>2),
         Samples xs, MomentLines ls, CommitRows cs, SuccessRows ps], None)"
proof -
  have z: "1.1 \<le> inv_cdf normal_1645 0.95" using normal_1645_ok by simp
  show ?thesis
    using quickstart_run_completes [OF z, of "\<lambda>a b u. u" "sconst 0.5"] by blast
qed

text \<open>C10: when the 95th normal percentile is at least 1.1, line 38 draws its five samples
  from the first five numbers of the random source, each one e1's multiplier 1.925 times a
  point of the triad's range [5, 14]; with a Beta quantile function that stays in [0, 1] every
  sample lies in [9.625, 26.95].\<close>

theorem quickstart_samples_drawn:
  assumes z: "1.1 \<le> inv_cdf N 0.95" and q: "beta_ok Q"
  shows "\<exists>a b xs. quickstart_samples N Q src = Inr xs \<and>
     xs = map (\<lambda>u. 1.925 * (5 + 9 * Q a b u)) (stake 5 src) \<and>
     length xs = 5 \<and> (\<forall>x \<in> set xs. 9.625 \<le> x \<and> x \<le> 26.95)"
proof -
  obtain d where d: "quickstart_delta_b N = Inr d"
    using quickstart_delta_b_exists [of N] z by auto
  obtain a b where s: "quickstart_samples N Q src = Inr (map (\<lambda>u. 1.925 * (5 + 9 * Q a b u)) (stake 5 src))"
    using quickstart_samples_Inr [OF d quickstart_delta_b_feasible [OF z d]] by blast
  have "9.625 \<le> 1.925 * (5 + 9 * Q a b u) \<and> 1.925 * (5 + 9 * Q a b u) \<le> 26.95" for u
  proof -
    have "0 \<le> Q a b u" "Q a b u \<le> 1"
      using q by (simp_all add: beta_ok_def)
    then show ?thesis by simp
  qed
  with s show ?thesis by auto
qed

theorem quickstart_samples_drawn_witness:
  "\<exists>a b xs. quickstart_samples normal_1645 (\<lambda>a b u. min 1 (max 0 u)) (sconst 0.5) = Inr xs \<and>
     length xs = 5 \<and> (\<forall>x \<in> set xs. 9.625 \<le> x \<and> x \<le> 26.95)"
proof -
  have z: "1.1 \<le> inv_cdf normal_1645 0.95" using normal_1645_ok by simp
  have q: "beta_ok (\<lambda>a b u. min 1 (max 0 u))" by (simp add: beta_ok_def)
  show ?thesis
    using quickstart_samples_drawn [OF z q, of "sconst 0.5"] by blast
qed

text \<open>C11: the Beta distribution that line 38 samples reproduces the distribution's moments:
  with the 95th normal percentile at least 1.1, moment matching for the script's distribution
  succeeds, a draw \<open>1.925 * (5 + 9 B)\<close> has the mean \<open>dist.mean()\<close> and the variance
  \<open>dist.variance()\<close>, and matching the Beta's own moments gives back its parameters.\<close>

theorem quickstart_sample_moments:
  assumes z: "1.1 \<le> inv_cdf N 0.95"
  shows "\<exists>D a b. quickstart_dist N = Inr D \<and> dist_beta D = Inr (a, b) \<and> 0 < a \<and> 0 < b \<and>
     1.925 * (5 + 9 * beta_mean a b) = dist_mean D \<and> (1.925 * 9)\<^sup>2 * beta_var a b = dist_variance D \<and>
     beta_params (beta_mean a b) (beta_var a b) = Inr (a, b)"
proof -
  obtain d where d: "quickstart_delta_b N = Inr d"
    using quickstart_delta_b_exists [of N] z by auto
  let ?D = "build_distribution \<lparr>optimistic = 5, most_likely = 8, pessimistic = 14\<rparr> ''e1''
              (mean_ratio (projr quickstart_obs)) d 4"
  have D: "quickstart_dist N = Inr ?D"
    by (rule quickstart_dist_build [OF d])
  have d0: "0 \<le> d" using quickstart_delta_b_Inr [OF d] by simp
  obtain ab where "dist_beta ?D = Inr ab"
    using quickstart_dist_beta_ok [OF d0] quickstart_delta_b_feasible [OF z d] by auto
  then obtain a b where ab: "dist_beta ?D = Inr (a, b)" by (cases ab) auto
  have fields: "dist_alpha ?D = 1.925" "dist_triad ?D = \<lparr>optimistic = 5, most_likely = 8, pessimistic = 14\<rparr>"
    by (simp_all add: build_distribution_def quickstart_alphas)
  have m: "0 < a \<and> 0 < b \<and> 1.925 * (5 + 9 * beta_mean a b) = dist_mean ?D \<and>
      (1.925 * 9)\<^sup>2 * beta_var a b = dist_variance ?D"
    using dist_beta_moments [OF ab] unfolding fields by simp
  then have "beta_params (beta_mean a b) (beta_var a b) = Inr (a, b)"
    by (intro beta_params_of_moments) simp_all
  with D ab m show ?thesis by blast
qed

theorem quickstart_sample_moments_witness:
  "\<exists>D a b. quickstart_dist normal_1645 = Inr D \<and> dist_beta D = Inr (a, b) \<and>
     1.925 * (5 + 9 * beta_mean a b) = dist_mean D \<and> (1.925 * 9)\<^sup>2 * beta_var a b = dist_variance D"
proof -
  have z: "1.1 \<le> inv_cdf normal_1645 0.95" using normal_1645_ok by simp
  show ?thesis
    using quickstart_sample_moments [OF z] by blast
qed

section \<open>The report functions\<close>

text \<open>C12: \<open>report_commit\<close> (lines 60-80), when it returns, yields one row per pair of its
  nested loops, t outer and alpha inner, and each row carries the value
  \<open>engine.commit_capacity\<close> returns for that pair.\<close>

theorem report_commit_rows:
  assumes "report_commit N eng days ts alphas = Inr rows"
  shows "map (\<lambda>(t, a, c). (t, a)) rows = List.product ts alphas \<and>
     (\<forall>(t, a, c) \<in> set rows. commit_capacity N eng days t a = Inr c)"
proof -
  obtain rss where rss: "list_all2 (\<lambda>t rs. map_res (commit_row N eng days t) alphas = Inr rs) ts rss"
    and rows: "rows = concat rss"
    using assms by (auto simp: report_commit_def bind_res_eq_Inr map_res_eq_Inr)
  have "map (\<lambda>(t, a, c). (t, a)) (concat rss) = List.product ts alphas \<and>
     (\<forall>(t, a, c) \<in> set (concat rss). commit_capacity N eng days t a = Inr c)"
    using rss
  proof (induction rule: list_all2_induct)
    case Nil
    then show ?case by simp
  next
    case (Cons t ts rs rss)
    then have "list_all2 (\<lambda>a r. commit_row N eng days t a = Inr r) alphas rs"
      by (simp add: map_res_eq_Inr)
    then have "map (\<lambda>(t, a, c). (t, a)) rs = map (Pair t) alphas \<and>
        (\<forall>(t', a, c) \<in> set rs. commit_capacity N eng days t' a = Inr c)"
      by (induction rule: list_all2_induct) (auto simp: commit_row_def bind_res_eq_Inr)
    with Cons.IH show ?case by auto
  qed
  with rows show ?thesis by simp
qed

theorem report_commit_rows_witness:
  "\<exists>eng rows. quickstart_engine linear_normal = Inr eng \<and>
     report_commit linear_normal eng (projr quickstart_days) [0, 1, 2] [0.10, 0.20, 0.05] = Inr rows \<and>
     map (\<lambda>(t, a, c). (t, a)) rows = List.product [0, 1, 2] [0.10, 0.20, 0.05]"
proof -
  have h: "1 \<le> inv_cdf linear_normal 0.95" by (simp add: linear_normal_def)
  obtain eng where e: "quickstart_engine linear_normal = Inr eng"
    using quickstart_engine_exists [OF h] by (elim exE)
  obtain mus vs where s: "daily_schedule_moments eng (projr quickstart_days) = Inr (mus, vs)"
    using quickstart_schedule_moments [of eng] by (elim exE)
  have v: "\<forall>a \<in> set [0.10, 0.20, 0.05 :: real]. 0 < a \<and> a < 1" by simp
  obtain rows where r: "report_commit linear_normal eng (projr quickstart_days) [0, 1, 2] [0.10, 0.20, 0.05] = Inr rows"
    using report_commit_Inr [OF s v] by (rule that)
  have "map (\<lambda>(t, a, c). (t, a)) rows = List.product [0, 1, 2] [0.10, 0.20, 0.05]"
    using report_commit_rows [OF r] by (elim conjE)
  with e r show ?thesis by (intro exI conjI)
qed

text \<open>C13: if an alpha outside (0, 1) is passed to \<open>report_commit\<close> with at least one t
  value, the report raises \<open>InvalidParameter\<close> (from \<open>commit_capacity\<close>) and prints nothing
  more, whatever the position of the bad alpha.\<close>

theorem report_commit_invalid_alpha:
  assumes "daily_schedule_moments eng days = Inr m" "ts \<noteq> []"
    and "\<exists>a \<in> set alphas. a \<le> 0 \<or> 1 \<le> a"
  shows "report_commit N eng days ts alphas = Inl InvalidParameter"
proof -
  have row: "commit_row N eng days t a = Inl e \<Longrightarrow> e = InvalidParameter" for t a e
    using assms(1) by (cases m) (auto simp: commit_row_def commit_capacity_def split: if_splits)
  obtain a where a: "a \<in> set alphas" "a \<le> 0 \<or> 1 \<le> a"
    using assms(3) by blast
  have "commit_row N eng days t a = Inl InvalidParameter" for t
    using a(2) by (simp add: commit_row_def commit_capacity_invalid)
  then have inner: "map_res (commit_row N eng days t) alphas = Inl InvalidParameter" for t
    using a(1) row by (intro map_res_Inl_same) auto
  have "map_res (\<lambda>t. map_res (commit_row N eng days t) alphas) ts = Inl InvalidParameter"
    using assms(2) inner by (intro map_res_Inl_same) (auto simp: neq_Nil_conv)
  then show ?thesis by (simp add: report_commit_def)
qed

theorem report_commit_invalid_alpha_witness:
  "\<exists>eng. quickstart_engine linear_normal = Inr eng \<and>
     report_commit linear_normal eng (projr quickstart_days) [0, 1] [0.10, 1.5] = Inl InvalidParameter"
proof -
  have h: "1 \<le> inv_cdf linear_normal 0.95" by (simp add: linear_normal_def)
  obtain eng where e: "quickstart_engine linear_normal = Inr eng"
    using quickstart_engine_exists [OF h] by (elim exE)
  obtain mus vs where s: "daily_schedule_moments eng (projr quickstart_days) = Inr (mus, vs)"
    using quickstart_schedule_moments [of eng] by (elim exE)
  have bad: "\<exists>a \<in> set [0.10, 1.5 :: real]. a \<le> 0 \<or> 1 \<le> a"
    by (rule bexI [of _ "1.5"]) simp_all
  have "report_commit linear_normal eng (projr quickstart_days) [0, 1] [0.10, 1.5] = Inl InvalidParameter"
    by (rule report_commit_invalid_alpha [OF s _ bad]) simp
  with e show ?thesis by (intro exI conjI)
qed

text \<open>C14: \<open>report_success\<close> (lines 82-95), when it returns, yields one row per t value in
  order; each row carries \<open>achieved.get(t, 0.0)\<close> and the value
  \<open>engine.probability_of_success\<close> returns for that t and that achieved capacity.\<close>

theorem report_success_rows:
  assumes "report_success N eng days ts W ach = Inr rows"
  shows "map fst rows = ts \<and>
     (\<forall>(t, a, p) \<in> set rows. a = dict_get ach t 0 \<and> probability_of_success N eng days t W a = Inr p)"
proof -
  have "list_all2 (\<lambda>t r. success_row N eng days W ach t = Inr r) ts rows"
    using assms by (simp add: report_success_def map_res_eq_Inr)
  then show ?thesis
    by (induction rule: list_all2_induct) (auto simp: success_row_def Let_def bind_res_eq_Inr)
qed

theorem report_success_rows_witness:
  "\<exists>eng rows. quickstart_engine linear_normal = Inr eng \<and>
     report_success linear_normal eng (projr quickstart_days) [0, 1] 20 [(0, 0), (1, 13)] = Inr rows \<and>
     map fst rows = [0, 1]"
proof -
  have h: "1 \<le> inv_cdf linear_normal 0.95" by (simp add: linear_normal_def)
  obtain eng where e: "quickstart_engine linear_normal = Inr eng"
    using quickstart_engine_exists [OF h] by (elim exE)
  obtain mus vs where s: "daily_schedule_moments eng (projr quickstart_days) = Inr (mus, vs)"
    using quickstart_schedule_moments [of eng] by (elim exE)
  obtain rows where r: "report_success linear_normal eng (projr quickstart_days) [0, 1] 20 [(0, 0), (1, 13)] = Inr rows"
    using report_success_Inr [OF s, of 20] by simp
  have "map fst rows = [0, 1]"
    using report_success_rows [OF r] by (elim conjE)
  with e r show ?thesis by (intro exI conjI)
qed

text \<open>C15: the printing loop of lines 57-58 fails exactly when one of the variances it reaches
  is negative, and then with the math domain error of \<open>math.sqrt\<close>; it never fails
  otherwise.\<close>

theorem moment_lines_error:
  "moment_lines k ms vs = Inl e \<longleftrightarrow>
     e = MathDomainError \<and> (\<exists>i < min (length ms) (length vs). vs ! i < 0)"
proof (induction k ms vs rule: moment_lines.induct)
  case (1 k m ms v vs)
  show ?case
  proof (cases "v < 0")
    case True
    then show ?thesis by force
  next
    case False
    then have "moment_lines k (m # ms) (v # vs) = Inl e \<longleftrightarrow> moment_lines (Suc k) ms vs = Inl e"
      by (cases "moment_lines (Suc k) ms vs") auto
    also have "\<dots> \<longleftrightarrow> e = MathDomainError \<and> (\<exists>i < min (length ms) (length vs). vs ! i < 0)"
      by (rule "1.IH" [OF False])
    also have "\<dots> \<longleftrightarrow> e = MathDomainError \<and>
        (\<exists>i < min (length (m # ms)) (length (v # vs)). (v # vs) ! i < 0)"
      using False by (auto simp: less_Suc_eq_0_disj)
    finally show ?thesis .
  qed
qed auto

theorem moment_lines_error_witness:
  "moment_lines 1 [1, 2] [1, -1] = Inl MathDomainError"
proof -
  have "\<exists>i < min (length [1, 2 :: real]) (length [1, -1 :: real]). [1, -1 :: real] ! i < 0"
    by (rule exI [of _ 1]) simp
  then show ?thesis
    using moment_lines_error [of 1 "[1, 2]" "[1, -1]" MathDomainError] by simp
qed

text \<open>C16: when the printing loop of lines 57-58 completes, it has printed one line per day of
  the shorter of the two lists (as \<open>zip\<close> does), the i-th numbered k + i, with the day's
  mean, variance and the square root of the variance.\<close>

theorem moment_lines_rows:
  "moment_lines k ms vs = Inr ls \<Longrightarrow>
     length ls = min (length ms) (length vs) \<and>
     (\<forall>i < length ls. ls ! i = (k + i, ms ! i, vs ! i, sqrt (vs ! i)))"
proof (induction k ms vs arbitrary: ls rule: moment_lines.induct)
  case (1 k m ms v vs)
  then obtain ls' where "v \<ge> 0" "moment_lines (Suc k) ms vs = Inr ls'" "ls = (k, m, v, sqrt v) # ls'"
    by (auto simp: bind_res_eq_Inr split: if_splits)
  with "1.IH" show ?case
    by (auto simp: nth_Cons split: nat.split)
qed auto

theorem moment_lines_rows_witness:
  "moment_lines 1 [5, 6] [4, 9, 1] = Inr [(1, 5, 4, 2), (2, 6, 9, 3)] \<and>
     length [(1::nat, 5::real, 4::real, 2::real), (2, 6, 9, 3)] = min (length [5, 6 :: real]) (length [4, 9, 1 :: real])"
proof -
  have "sqrt 4 = (2::real)" "sqrt 9 = (3::real)"
    by (simp_all add: real_sqrt_unique)
  then have r: "moment_lines 1 [5, 6] [4, 9, 1] = Inr [(1, 5, 4, 2), (2, 6, 9, 3)]"
    by simp
  show ?thesis
    using moment_lines_rows [OF r] r by (elim conjE) (intro conjI)
qed

section \<open>Further properties of the script\<close>

text \<open>C17: within one t value of the commit report, a larger risk level alpha never gives a
  smaller commit level: the report is monotone in alpha, for every normal distribution
  that satisfies the interface.\<close>

theorem quickstart_commit_alpha_order:
  assumes N: "normal_ok N" and r: "quickstart_commit_report N = Inr rows"
    and m: "(t, a, c) \<in> set rows" "(t, a', c') \<in> set rows" and a: "a \<le> a'"
  shows "c \<le> c'"
proof -
  obtain eng where e: "quickstart_engine N = Inr eng"
    using quickstart_commit_report_engine [OF r] by (elim exE)
  obtain mus vs where s: "daily_schedule_moments eng (projr quickstart_days) = Inr (mus, vs)"
    using quickstart_schedule_moments [of eng] by (elim exE)
  let ?f = "\<lambda>t a. sum_list (take t mus) - inv_cdf N (1 - a) * safe_sqrt (sum_list (take t vs))"
  have rows: "rows = concat (map (\<lambda>t. map (\<lambda>a. (t, a, ?f t a)) [0.10, 0.20, 0.05]) [0, 1, 2])"
    using r unfolding quickstart_commit_report_eq [OF e s] by simp
  have c: "c = ?f t a" "c' = ?f t a'"
    by (rule mem_concat_rows [OF m(1) [unfolded rows]], rule mem_concat_rows [OF m(2) [unfolded rows]])
  have "inv_cdf N (1 - a') \<le> inv_cdf N (1 - a)"
    using N a by (intro normal_ok_inv_cdf_mono) simp_all
  then have "inv_cdf N (1 - a') * safe_sqrt (sum_list (take t vs))
      \<le> inv_cdf N (1 - a) * safe_sqrt (sum_list (take t vs))"
    by (intro mult_right_mono) simp_all
  then show ?thesis
    unfolding c by simp
qed

theorem quickstart_commit_alpha_order_witness:
  "\<exists>rows c c'. quickstart_commit_report linear_normal = Inr rows \<and>
     (2, 0.05, c) \<in> set rows \<and> (2, 0.10, c') \<in> set rows \<and> c \<le> c'"
proof -
  have h: "1 \<le> inv_cdf linear_normal 0.95" by (simp add: linear_normal_def)
  obtain eng where e: "quickstart_engine linear_normal = Inr eng"
    using quickstart_engine_exists [OF h] by (elim exE)
  obtain mus vs where s: "daily_schedule_moments eng (projr quickstart_days) = Inr (mus, vs)"
    using quickstart_schedule_moments [of eng] by (elim exE)
  let ?f = "\<lambda>t a. sum_list (take t mus) - inv_cdf linear_normal (1 - a) * safe_sqrt (sum_list (take t vs))"
  define rows where "rows = concat (map (\<lambda>t. map (\<lambda>a. (t, a, ?f t a)) [0.10, 0.20, 0.05]) [0, 1, 2 :: nat])"
  have r: "quickstart_commit_report linear_normal = Inr rows"
    unfolding rows_def by (rule quickstart_commit_report_eq [OF e s])
  have m: "(2, 0.05, ?f 2 0.05) \<in> set rows" "(2, 0.10, ?f 2 0.10) \<in> set rows"
    unfolding rows_def by simp_all
  have "?f 2 0.05 \<le> ?f 2 0.10"
    by (rule quickstart_commit_alpha_order [OF linear_normal_ok r m]) simp
  with r m show ?thesis by blast
qed

section \<open>The package at the script's calibrator and engine\<close>

lemma far_obs_coverage:
  "0 \<le> d \<Longrightarrow> coverage quickstart_cal [far_obs] Map.empty 2.7 d =
     (if 5 \<le> 2.7 * safe_sqrt (1 / 7 * (1 + d)\<^sup>2) then 1 else 0)"
  by (simp add: coverage_def triad_observations_def obs_covered_def cal_build_distribution_def
                dist_mean_build dist_variance_build pert_mean_def pert_variance_def alpha_for_def
                quickstart_cal_def default_calibrator_def)

lemma far_obs_covered_max:
  "5 \<le> 2.7 * safe_sqrt (1 / 7 * (1 + 10)\<^sup>2)"
proof -
  have "2 \<le> sqrt (121 / 7 :: real)"
    by (rule real_le_rsqrt) simp
  then show ?thesis by (simp add: safe_sqrt_of_nonneg)
qed

lemma far_obs_not_covered:
  assumes "0 \<le> d" "d \<le> 2"
  shows "\<not> 5 \<le> 2.7 * safe_sqrt (1 / 7 * (1 + d)\<^sup>2)"
proof -
  have "(1 + d)\<^sup>2 \<le> 3\<^sup>2"
    using assms by (intro power_mono) simp_all
  then have "safe_sqrt (1 / 7 * (1 + d)\<^sup>2) \<le> safe_sqrt ((3 / 2)\<^sup>2)"
    by (intro safe_sqrt_mono) (simp add: power2_eq_square)
  also have "\<dots> = 3 / 2"
    by (simp add: safe_sqrt_of_nonneg)
  finally show ?thesis by simp
qed

text \<open>C18: the script's bias fit does not depend on the order of the observations: two lists with the same elements, counted with multiplicity, give the same bias model (or the same error).\<close>

theorem fit_bias_permutation_invariant:
  "mset xs = mset ys \<Longrightarrow> fit_bias quickstart_cal xs = fit_bias quickstart_cal ys"
  by (rule fit_bias_perm)

theorem fit_bias_permutation_invariant_witness:
  "fit_bias quickstart_cal (rev (projr quickstart_obs)) = fit_bias quickstart_cal (projr quickstart_obs)"
  by (rule fit_bias_permutation_invariant) simp

text \<open>C19: the one-pass accumulation of \<open>fit_bias\<close> implements its specification: when every modal estimate is positive, each engineer's multiplier is the arithmetic mean of that engineer's actual/modal ratios, and engineers without observations are absent.\<close>

theorem fit_bias_mean_of_ratios:
  assumes "list_all (\<lambda>ob. 0 < modal_estimate_hours ob) obs"
  shows "fit_bias quickstart_cal obs = Inr (mean_ratio obs)"
proof -
  have "\<not> list_ex (\<lambda>ob. modal_estimate_hours ob \<le> 0) obs"
    using assms by (simp add: list_ex_iff list_all_iff not_le)
  then show ?thesis by (simp add: fit_bias_refines)
qed

theorem fit_bias_mean_of_ratios_witness:
  "fit_bias quickstart_cal [\<lparr>engineer = ''e'', modal_estimate_hours = 2, actual_hours = 3, obs_triad = None\<rparr>,
                            \<lparr>engineer = ''e'', modal_estimate_hours = 4, actual_hours = 2, obs_triad = None\<rparr>]
   = Inr (mean_ratio [\<lparr>engineer = ''e'', modal_estimate_hours = 2, actual_hours = 3, obs_triad = None\<rparr>,
                      \<lparr>engineer = ''e'', modal_estimate_hours = 4, actual_hours = 2, obs_triad = None\<rparr>])
   \<and> mean_ratio [\<lparr>engineer = ''e'', modal_estimate_hours = 2, actual_hours = 3, obs_triad = None\<rparr>,
                  \<lparr>engineer = ''e'', modal_estimate_hours = 4, actual_hours = 2, obs_triad = None\<rparr>] ''e'' = Some 1"
  by (intro conjI fit_bias_mean_of_ratios) (simp_all add: mean_ratio_def ratios_of_def)

text \<open>C20: a factor returned by \<open>fit_delta_b\<close> lies in the search range [0, 10] and its coverage meets the target.\<close>

theorem fit_delta_b_in_range:
  "fit_delta_b N quickstart_cal obs b target = Inr d \<Longrightarrow>
     0 \<le> d \<and> d \<le> 10 \<and> target \<le> coverage quickstart_cal obs b (inv_cdf N ((1 + target) / 2)) d"
  using fit_delta_b_sound by (simp add: delta_b_max_def)

theorem fit_delta_b_in_range_witness:
  "fit_delta_b linear_normal quickstart_cal [] Map.empty 0 = Inr 0 \<and> (0::real) \<le> 0"
proof -
  have fit: "fit_delta_b linear_normal quickstart_cal [] Map.empty 0 = Inr 0"
    by (simp add: fit_delta_b_def coverage_def triad_observations_def)
  from fit_delta_b_in_range [OF fit] fit show ?thesis by simp
qed

text \<open>C21: the bounded bisection of \<open>fit_delta_b\<close> always ends in one of two outcomes: it
  returns a factor exactly when the target is met at 0 or at the top of the range 10 (the 100
  halvings are always enough), and it raises \<open>ConvergenceFailure\<close> exactly when the target is
  met at neither.\<close>

theorem fit_delta_b_terminates:
  "((\<exists>d. fit_delta_b N quickstart_cal obs b target = Inr d) \<longleftrightarrow>
     target \<le> coverage quickstart_cal obs b (inv_cdf N ((1 + target) / 2)) 0 \<or>
     target \<le> coverage quickstart_cal obs b (inv_cdf N ((1 + target) / 2)) 10) \<and>
   (fit_delta_b N quickstart_cal obs b target = Inl ConvergenceFailure \<longleftrightarrow>
     coverage quickstart_cal obs b (inv_cdf N ((1 + target) / 2)) 0 < target \<and>
     coverage quickstart_cal obs b (inv_cdf N ((1 + target) / 2)) 10 < target)"
proof -
  have total: "(\<exists>d. fit_delta_b N quickstart_cal obs b target = Inr d) \<longleftrightarrow>
     target \<le> coverage quickstart_cal obs b (inv_cdf N ((1 + target) / 2)) 0 \<or>
     target \<le> coverage quickstart_cal obs b (inv_cdf N ((1 + target) / 2)) 10"
    using fit_delta_b_total [of N quickstart_cal obs b target] by (simp add: delta_b_max_def)
  have "fit_delta_b N quickstart_cal obs b target = Inl ConvergenceFailure \<longleftrightarrow>
      \<not> (\<exists>d. fit_delta_b N quickstart_cal obs b target = Inr d)"
    by (cases "fit_delta_b N quickstart_cal obs b target") (auto dest: fit_delta_b_Inl)
  with total show ?thesis by auto
qed

theorem fit_delta_b_terminates_witness:
  "(\<exists>d. fit_delta_b linear_normal quickstart_cal [far_obs] Map.empty 0.9 = Inr d) \<and>
   fit_delta_b linear_normal quickstart_cal [] Map.empty 0.9 = Inl ConvergenceFailure"
proof -
  have "0.9 \<le> coverage quickstart_cal [far_obs] Map.empty (inv_cdf linear_normal ((1 + 0.9) / 2)) 10"
    using far_obs_coverage [of 10] far_obs_covered_max by (simp add: linear_normal_def)
  then have "\<exists>d. fit_delta_b linear_normal quickstart_cal [far_obs] Map.empty 0.9 = Inr d"
    using fit_delta_b_terminates [of linear_normal "[far_obs]" Map.empty "0.9"] by blast
  moreover have "fit_delta_b linear_normal quickstart_cal [] Map.empty 0.9 = Inl ConvergenceFailure"
    using fit_delta_b_terminates [of linear_normal "[]" Map.empty "0.9"]
    by (simp add: coverage_def triad_observations_def)
  ultimately show ?thesis ..
qed

text \<open>C22: the factor \<open>fit_delta_b\<close> returns is minimal up to the tolerance: every factor below it by more than 1e-6 has coverage below the target.\<close>

theorem fit_delta_b_near_minimal:
  assumes "normal_ok N" "0 \<le> target" "fit_delta_b N quickstart_cal obs b target = Inr d"
    and "0 \<le> d'" "d' < d - 1 / 1000000"
  shows "coverage quickstart_cal obs b (inv_cdf N ((1 + target) / 2)) d' < target"
  using fit_delta_b_minimal [OF assms(1-4)] assms(5) by (simp add: delta_b_tol_def)

theorem fit_delta_b_near_minimal_witness:
  "\<exists>d. fit_delta_b linear_normal quickstart_cal [far_obs] Map.empty 0.9 = Inr d \<and> 2 < d \<and>
     coverage quickstart_cal [far_obs] Map.empty (inv_cdf linear_normal 0.95) 1 < 0.9"
proof -
  have z: "inv_cdf linear_normal ((1 + 0.9) / 2) = 2.7"
    by (simp add: linear_normal_def)
  have "0.9 \<le> coverage quickstart_cal [far_obs] Map.empty (inv_cdf linear_normal ((1 + 0.9) / 2)) delta_b_max"
    using far_obs_coverage [of 10] far_obs_covered_max by (simp add: linear_normal_def delta_b_max_def)
  then obtain d where fit: "fit_delta_b linear_normal quickstart_cal [far_obs] Map.empty 0.9 = Inr d"
    using fit_delta_b_total [of linear_normal quickstart_cal "[far_obs]" Map.empty "0.9"] by blast
  have d0: "0 \<le> d" and cov: "0.9 \<le> coverage quickstart_cal [far_obs] Map.empty 2.7 d"
    using fit_delta_b_sound [OF fit] unfolding z by simp_all
  have d2: "2 < d"
  proof (rule ccontr)
    assume "\<not> 2 < d"
    then have "coverage quickstart_cal [far_obs] Map.empty 2.7 d = 0"
      using far_obs_coverage [OF d0] far_obs_not_covered [OF d0] by simp
    with cov show False by simp
  qed
  have "coverage quickstart_cal [far_obs] Map.empty (inv_cdf linear_normal ((1 + 0.9) / 2)) 1 < 0.9"
    using d2 by (intro fit_delta_b_near_minimal [OF linear_normal_ok _ fit]) simp_all
  then show ?thesis
    using fit d2 by (intro exI [of _ d] conjI) (simp_all add: linear_normal_def)
qed

text \<open>C23: coverage is monotone non-decreasing in the uncertainty factor, as the search relies on.\<close>

theorem coverage_monotone:
  "0 \<le> z \<Longrightarrow> -1 \<le> d1 \<Longrightarrow> d1 \<le> d2 \<Longrightarrow>
     coverage quickstart_cal obs b z d1 \<le> coverage quickstart_cal obs b z d2"
  by (rule coverage_mono)

theorem coverage_monotone_witness:
  "coverage quickstart_cal (projr quickstart_obs) (projr quickstart_bias) 1 0
   \<le> coverage quickstart_cal (projr quickstart_obs) (projr quickstart_bias) 1 1"
  by (rule coverage_monotone) simp_all

text \<open>C24: for an engineer whose multiplier is the neutral 1, the calibrated mean lies within the triad [o, p]; with another multiplier it need not (the script's mean 16.3625 for e1 exceeds 14, C3).\<close>

theorem dist_mean_within_triad_if_neutral:
  assumes "triad_ok t" "alpha_for b e = 1"
  shows "optimistic t \<le> dist_mean (cal_build_distribution quickstart_cal t e b d) \<and>
     dist_mean (cal_build_distribution quickstart_cal t e b d) \<le> pessimistic t"
  using dist_mean_scaled_bounds [OF assms(1), of "cal_shape quickstart_cal" b e d] assms(2)
  by (simp add: cal_build_distribution_def quickstart_cal_def default_calibrator_def)

theorem dist_mean_within_triad_if_neutral_witness:
  "optimistic \<lparr>optimistic = 5, most_likely = 8, pessimistic = 14\<rparr>
     \<le> dist_mean (cal_build_distribution quickstart_cal \<lparr>optimistic = 5, most_likely = 8, pessimistic = 14\<rparr> ''e3'' Map.empty 0)"
  using dist_mean_within_triad_if_neutral [of "\<lparr>optimistic = 5, most_likely = 8, pessimistic = 14\<rparr>" Map.empty "''e3''" 0]
  by (simp add: triad_ok_def alpha_for_def)

text \<open>C25: raising the uncertainty factor strictly increases the calibrated variance exactly when the triad is not degenerate (o < p).\<close>

theorem dist_variance_grows_iff_spread:
  assumes t: "triad_ok t" and d: "0 \<le> d1" "d1 < d2"
  shows "dist_variance (cal_build_distribution quickstart_cal t e b d1)
       < dist_variance (cal_build_distribution quickstart_cal t e b d2) \<longleftrightarrow>
     optimistic t < pessimistic t"
proof -
  have lam: "cal_shape quickstart_cal = 4"
    by (simp add: quickstart_cal_def default_calibrator_def)
  have v: "dist_variance (cal_build_distribution quickstart_cal t e b x) = pert_variance 4 t * (1 + x)\<^sup>2" for x
    by (simp add: cal_build_distribution_def dist_variance_build lam)
  show ?thesis
  proof
    assume "optimistic t < pessimistic t"
    then have "0 < pert_variance 4 t"
      using t by (intro pert_variance_pos) simp_all
    moreover have "(1 + d1)\<^sup>2 < (1 + d2)\<^sup>2"
      using d by (rule square_strict_mono_shift)
    ultimately show "dist_variance (cal_build_distribution quickstart_cal t e b d1)
       < dist_variance (cal_build_distribution quickstart_cal t e b d2)"
      unfolding v by simp
  next
    assume lt: "dist_variance (cal_build_distribution quickstart_cal t e b d1)
       < dist_variance (cal_build_distribution quickstart_cal t e b d2)"
    show "optimistic t < pessimistic t"
    proof (rule ccontr)
      assume "\<not> optimistic t < pessimistic t"
      then have "optimistic t = pessimistic t"
        using t by (simp add: triad_ok_def)
      then have "pert_variance 4 t = 0"
        using t by (intro pert_variance_degenerate) simp_all
      with lt show False unfolding v by simp
    qed
  qed
qed

theorem dist_variance_grows_iff_spread_witness:
  "dist_variance (cal_build_distribution quickstart_cal \<lparr>optimistic = 5, most_likely = 8, pessimistic = 14\<rparr> ''e1'' Map.empty 0)
   < dist_variance (cal_build_distribution quickstart_cal \<lparr>optimistic = 5, most_likely = 8, pessimistic = 14\<rparr> ''e1'' Map.empty 1)"
  using dist_variance_grows_iff_spread [of "\<lparr>optimistic = 5, most_likely = 8, pessimistic = 14\<rparr>" 0 1 "''e1''" Map.empty]
  by (simp add: triad_ok_def)

text \<open>C26: with the script's engine, the day variance the engine computes is the quadratic form of the per-engineer standard deviations with the correlation matrix (unit diagonal), and the day mean is the sum of the per-engineer capacities.\<close>

theorem day_variance_quadratic_form:
  assumes "quickstart_engine N = Inr eng" "day_ok d" "day_moments eng d = Inr (mu, var)"
  shows "\<exists>rows. day_rows d = Inr rows \<and>
     mu = (\<Sum>m \<leftarrow> map (engineer_moments eng) rows. fst (snd m)) \<and>
     var = quad_form d (map (engineer_moments eng) rows)"
proof -
  have "0 \<le> cal_shape (eng_calibrator eng)"
    using quickstart_engine_fields [OF assms(1)] by (simp add: quickstart_cal_def default_calibrator_def)
  then show ?thesis
    by (rule day_moments_refines [OF assms(3,2)])
qed

theorem day_variance_quadratic_form_witness:
  "\<exists>eng mu var. quickstart_engine linear_normal = Inr eng \<and>
     day_moments eng (hd (projr quickstart_days)) = Inr (mu, var) \<and>
     (\<exists>rows. var = quad_form (hd (projr quickstart_days)) (map (engineer_moments eng) rows))"
proof -
  have h: "1 \<le> inv_cdf linear_normal 0.95" by (simp add: linear_normal_def)
  obtain eng where e: "quickstart_engine linear_normal = Inr eng"
    using quickstart_engine_exists [OF h] by (elim exE)
  have f: "eng_calibrator eng = quickstart_cal" "-1 \<le> eng_delta_b eng"
    using quickstart_engine_fields [OF e] by simp_all
  obtain mu var where m: "day_moments eng (hd (projr quickstart_days)) = Inr (mu, var)"
    using quickstart_day1_moments [OF f] by (rule that)
  have ok: "day_ok (hd (projr quickstart_days))"
    using quickstart_days_ok by (simp add: quickstart_days_eval)
  obtain rows where "var = quad_form (hd (projr quickstart_days)) (map (engineer_moments eng) rows)"
    using day_variance_quadratic_form [OF e ok m] by (elim exE conjE) (rule that)
  with e m show ?thesis by blast
qed

text \<open>C27: on the script's schedule, the probability of success never increases as the remaining required work grows.\<close>

theorem quickstart_success_monotone:
  assumes "normal_ok N" "workload1 - achieved1 \<le> workload2 - achieved2"
    and "probability_of_success N eng (projr quickstart_days) t workload1 achieved1 = Inr p1"
    and "probability_of_success N eng (projr quickstart_days) t workload2 achieved2 = Inr p2"
  shows "p2 \<le> p1"
  by (rule probability_of_success_remaining [OF assms])

theorem quickstart_success_monotone_witness:
  "\<exists>eng p1 p2. quickstart_engine linear_normal = Inr eng \<and>
     probability_of_success linear_normal eng (projr quickstart_days) 0 20 0 = Inr p1 \<and>
     probability_of_success linear_normal eng (projr quickstart_days) 0 20 13 = Inr p2 \<and> p1 \<le> p2"
proof -
  have h: "1 \<le> inv_cdf linear_normal 0.95" by (simp add: linear_normal_def)
  obtain eng where e: "quickstart_engine linear_normal = Inr eng"
    using quickstart_engine_exists [OF h] by (elim exE)
  obtain mus vs where s: "daily_schedule_moments eng (projr quickstart_days) = Inr (mus, vs)"
    using quickstart_schedule_moments [of eng] by (elim exE)
  obtain p1 where p1: "probability_of_success linear_normal eng (projr quickstart_days) 0 20 0 = Inr p1"
    using s by (simp add: probability_of_success_eq)
  obtain p2 where p2: "probability_of_success linear_normal eng (projr quickstart_days) 0 20 13 = Inr p2"
    using s by (simp add: probability_of_success_eq)
  have "p1 \<le> p2"
    by (rule quickstart_success_monotone [OF linear_normal_ok _ p2 p1]) simp
  with e p1 p2 show ?thesis by blast
qed

text \<open>C28: on the script's schedule, a negative workload raises \<open>InvalidParameter\<close>, a workload already achieved gives exactly 1, and with both days completed and work remaining the probability is 0.\<close>

theorem quickstart_success_boundaries:
  assumes "quickstart_engine N = Inr eng"
  shows "(workload < 0 \<longrightarrow> probability_of_success N eng (projr quickstart_days) t workload a = Inl InvalidParameter) \<and>
     (0 \<le> workload \<and> workload \<le> a \<longrightarrow> probability_of_success N eng (projr quickstart_days) t workload a = Inr 1) \<and>
     (0 \<le> workload \<and> a < workload \<and> 2 \<le> t \<longrightarrow> probability_of_success N eng (projr quickstart_days) t workload a = Inr 0)"
proof -
  obtain mus vs where s: "daily_schedule_moments eng (projr quickstart_days) = Inr (mus, vs)"
    using quickstart_schedule_Inr [OF assms] by (rule that)
  have l: "length mus = 2"
    using quickstart_schedule_Inr [OF assms] s by simp
  show ?thesis
    using s l by (auto simp: probability_of_success_eq success_tail_def)
qed

theorem quickstart_success_boundaries_witness:
  "\<exists>eng. quickstart_engine linear_normal = Inr eng \<and>
     probability_of_success linear_normal eng (projr quickstart_days) 2 20 13 = Inr 0"
proof -
  have h: "1 \<le> inv_cdf linear_normal 0.95" by (simp add: linear_normal_def)
  obtain eng where e: "quickstart_engine linear_normal = Inr eng"
    using quickstart_engine_exists [OF h] by (elim exE)
  have "probability_of_success linear_normal eng (projr quickstart_days) 2 20 13 = Inr 0"
    using quickstart_success_boundaries [OF e, of 20 2 13] by simp
  with e show ?thesis by (intro exI conjI)
qed

text \<open>C29: on the script's schedule, the commit level for t = 0 is 0 (no day summed), and any t beyond the two scheduled days gives the same commit level as t = 2.\<close>

theorem quickstart_commit_horizon:
  assumes "quickstart_engine N = Inr eng" "0 < a" "a < 1"
  shows "commit_capacity N eng (projr quickstart_days) 0 a = Inr 0 \<and>
     (2 \<le> t \<longrightarrow> commit_capacity N eng (projr quickstart_days) t a =
                  commit_capacity N eng (projr quickstart_days) 2 a)"
proof -
  obtain mus vs where s: "daily_schedule_moments eng (projr quickstart_days) = Inr (mus, vs)"
    using quickstart_schedule_Inr [OF assms(1)] by (rule that)
  have l: "length mus = 2" "length vs = 2"
    using quickstart_schedule_Inr [OF assms(1)] s by simp_all
  show ?thesis
    using s l assms(2,3) by (simp add: commit_capacity_def safe_sqrt_of_nonpos)
qed

theorem quickstart_commit_horizon_witness:
  "\<exists>eng. quickstart_engine linear_normal = Inr eng \<and>
     commit_capacity linear_normal eng (projr quickstart_days) 5 0.1 =
     commit_capacity linear_normal eng (projr quickstart_days) 2 0.1"
proof -
  have h: "1 \<le> inv_cdf linear_normal 0.95" by (simp add: linear_normal_def)
  obtain eng where e: "quickstart_engine linear_normal = Inr eng"
    using quickstart_engine_exists [OF h] by (elim exE)
  have "commit_capacity linear_normal eng (projr quickstart_days) 5 0.1 =
     commit_capacity linear_normal eng (projr quickstart_days) 2 0.1"
    using quickstart_commit_horizon [OF e, of "0.1" 5] by simp
  with e show ?thesis by (intro exI conjI)
qed

section \<open>The uncertainty search as a transition system\<close>

text \<open>C30: whenever the script's search has to bisect (the target is missed at 0 and met at
  10), the bisection from [0, 10] with 100 iterations always ends: no run of its step relation
  is infinite, from every state it reaches a final state is reachable, and every final state it
  reaches has a bracket no wider than 1e-6 whose upper end is the value line 25
  returns.\<close>

theorem quickstart_search_terminates:
  assumes "\<not> quickstart_covers N 0" "quickstart_covers N 10"
  shows "\<not> (\<exists>f. f 0 = (0, 10, 100) \<and> (\<forall>i. bisect_step (quickstart_covers N) (1 / 1000000) (f i) (f (Suc i)))) \<and>
     (\<forall>s'. (bisect_step (quickstart_covers N) (1 / 1000000))\<^sup>*\<^sup>* (0, 10, 100) s' \<longrightarrow>
        (\<exists>s''. (bisect_step (quickstart_covers N) (1 / 1000000))\<^sup>*\<^sup>* s' s'' \<and>
               (\<nexists>s'''. bisect_step (quickstart_covers N) (1 / 1000000) s'' s'''))) \<and>
     (\<forall>s'. (bisect_step (quickstart_covers N) (1 / 1000000))\<^sup>*\<^sup>* (0, 10, 100) s' \<longrightarrow>
        (\<nexists>s''. bisect_step (quickstart_covers N) (1 / 1000000) s' s'') \<longrightarrow>
        fst (snd s') - fst s' \<le> 1 / 1000000 \<and> quickstart_delta_b N = Inr (fst (snd s')))"
proof -
  have b: "bracket (quickstart_covers N) (10 / 2 ^ 100) (0, 10, 100)"
    using assms by (simp add: bracket_def)
  have w: "10 / 2 ^ 100 \<le> (1 / 1000000 :: real)" by simp
  have eq: "quickstart_delta_b N = bisect (quickstart_covers N) (1 / 1000000) 100 0 10"
    using quickstart_delta_b_search [of N] assms unfolding quickstart_bias_projr by simp
  show ?thesis
    unfolding eq using search_reaches_tolerance [OF b w] no_infinite_run reaches_final by blast
qed

theorem quickstart_search_terminates_witness:
  "\<exists>s'. (bisect_step (quickstart_covers linear_normal) (1 / 1000000))\<^sup>*\<^sup>* (0, 10, 100) s' \<and>
     fst (snd s') - fst s' \<le> 1 / 1000000 \<and> quickstart_delta_b linear_normal = Inr (fst (snd s'))"
proof -
  note t = quickstart_search_terminates [OF linear_normal_not_covers_0 linear_normal_covers_10]
  obtain s' where r: "(bisect_step (quickstart_covers linear_normal) (1 / 1000000))\<^sup>*\<^sup>* (0, 10, 100) s'"
      and f: "\<nexists>s''. bisect_step (quickstart_covers linear_normal) (1 / 1000000) s' s''"
    using t rtranclp.rtrancl_refl by blast
  with t show ?thesis by blast
qed

end
